theory Spec2Isabelle
  imports Main "HOL-Library.Char_ord" "HOL-Library.List_Lexorder" "HOL-Library.Sublist"
begin

section \<open>Configuration documents\<close>

text \<open>
  The master configuration and the generated toolkit manifests are TOML documents. A
  document is a tree of strings, booleans, arrays and tables. A table keeps its keys in
  the order of the file, so the order in which a manifest lists its targets and its
  components is part of the value. Strings are the UTF-8 bytes of the file; bytes outside
  printable ASCII are written \<open>CHR 0x..\<close>.
\<close>

datatype toml =
    TString string
  | TBoolean bool
  | TArray "toml list"
  | TTable "(string \<times> toml) list"

fun field :: "toml \<Rightarrow> string \<Rightarrow> toml option" where
  "field (TTable kvs) k = map_of kvs k"
| "field _ k = None"

fun at_path :: "toml \<Rightarrow> string list \<Rightarrow> toml option" where
  "at_path v [] = Some v"
| "at_path v (k # ks) = (case field v k of None \<Rightarrow> None | Some w \<Rightarrow> at_path w ks)"

fun entries :: "toml \<Rightarrow> (string \<times> toml) list" where
  "entries (TTable kvs) = kvs"
| "entries _ = []"

fun elements :: "toml \<Rightarrow> toml list" where
  "elements (TArray vs) = vs"
| "elements _ = []"

fun string_of :: "toml \<Rightarrow> string option" where
  "string_of (TString s) = Some s"
| "string_of _ = None"

definition keys :: "toml \<Rightarrow> string list" where
  "keys v = map fst (entries v)"

definition has :: "toml \<Rightarrow> string \<Rightarrow> bool" where
  "has v k = (field v k \<noteq> None)"

definition strings_at :: "toml \<Rightarrow> string list \<Rightarrow> string list" where
  "strings_at v p =
     (case at_path v p of Some a \<Rightarrow> List.map_filter string_of (elements a) | None \<Rightarrow> [])"

subsection \<open>The master configuration\<close>

text \<open>
  The hand-written master file: the global \<open>config\<close> block (servers, the catalog of
  target triples, the shared component list) and one \<open>toolkit.<name>\<close> block per
  edition, here \<open>basic\<close> and \<open>community\<close>. Every table is given in the order of the
  file.
\<close>

definition config :: toml where
  "config =
    TTable [
      (''rust-server'', TString ''https://xuanwu.base.atomgit.com''),
      (''rustup-server'', TString ''https://xuanwu.base.atomgit.com/rustup''),
      (''targets'', TArray [
        TString ''aarch64-unknown-linux-gnu'',
        TTable [
          (''triple'', TString ''aarch64-unknown-linux-musl''),
          (''release-mode'', TString ''cli'')],
        TString ''x86_64-pc-windows-gnu'',
        TString ''x86_64-pc-windows-msvc'',
        TString ''x86_64-unknown-linux-gnu'',
        TTable [
          (''triple'', TString ''x86_64-unknown-linux-musl''),
          (''release-mode'', TString ''cli'')]]),
      (''components'', TArray [
        TString ''cargo'',
        TString ''clippy'',
        TString ''rust-std'',
        TTable [
          (''name'', TString ''rust-docs''),
          (''excluded-targets'', TArray [TString ''aarch64-unknown-linux-musl''])],
        TString ''rustc'',
        TString ''rustc-dev'',
        TString ''rustfmt'',
        TString ''llvm-tools'',
        TTable [
          (''name'', TString ''rust-mingw''),
          (''target'', TString ''x86_64-pc-windows-gnu'')],
        TTable [(''name'', TString ''rust-src''), (''wildcard-target'', TBoolean True)]])]"

definition toolkit_basic_descriptions :: toml where
  "toolkit_basic_descriptions =
    TTable [
      (''llvm-tools'', TString ''Contains a collection of LLVM tools. Note that this component has not been stabilized and may change in the future and is provided as-is''),
      (''rustc-dev'', TString ''Contains the compiler as a library. Most users will not need this; it is only needed for development of tools that link to the compiler, such as making modifications to Clippy.''),
      (''rust-docs'', TString (''A local copy of the Rust documentation. Allowing user to open the documentation in a web browser useing the '' @ [CHR 0x60] @ ''rustup doc'' @ [CHR 0x60] @ '' command'')),
      (''mingw64'', TString ''(windows only) Requirement for Windows GNU toolchain'')]"

definition toolkit_basic_group :: toml where
  "toolkit_basic_group =
    TTable [(''Prerequisites'', TArray [TString ''mingw64''])]"

definition toolkit_basic_x86_64_pc_windows_gnu :: toml where
  "toolkit_basic_x86_64_pc_windows_gnu =
    TTable [
      (''mingw64'', TTable [
        (''required'', TBoolean True),
        (''version'', TString ''14.2.0-rt_v12-rev0''),
        (''url'', TString ''https://rust-mirror.obs.cn-north-4.myhuaweicloud.com/dist/toolset/x86_64-14.2.0-release-posix-seh-ucrt-rt_v12-rev0.7z'')])]"

definition toolkit_basic_target :: toml where
  "toolkit_basic_target =
    TTable [(''x86_64-pc-windows-gnu'', toolkit_basic_x86_64_pc_windows_gnu)]"

definition toolkit_basic :: toml where
  "toolkit_basic =
    TTable [
      (''config'', TTable [(''date'', TString ''2024-09-05'')]),
      (''value'', TTable [
        (''name'', TString ''XuanWu Rust Development Kit''),
        (''version'', TString ''stable v1.81.0''),
        (''rust'', TTable [
          (''version'', TString ''1.81.0''),
          (''group'', TString ''Rust''),
          (''components'', TArray [TString ''clippy'', TString ''rustfmt'', TString ''rust-src'']),
          (''optional-components'', TArray [TString ''llvm-tools'', TString ''rustc-dev'', TString ''rust-docs'']),
          (''profile'', TTable [
            (''name'', TString ''minimal''),
            (''verbose-name'', TString ''Basic''),
            (''description'', TString ''Basic set of tools to use Rust properly'')])]),
        (''tools'', TTable [
          (''descriptions'', toolkit_basic_descriptions),
          (''group'', toolkit_basic_group),
          (''target'', toolkit_basic_target)])])]"

definition toolkit_community_descriptions :: toml where
  "toolkit_community_descriptions =
    TTable [
      (''llvm-tools'', TString ([CHR 0xE5, CHR 0x8C, CHR 0x85, CHR 0xE5, CHR 0x90, CHR 0xAB] @ '' LLVM '' @ [CHR 0xE5, CHR 0xB7, CHR 0xA5, CHR 0xE5, CHR 0x85, CHR 0xB7, CHR 0xE7, CHR 0x9A, CHR 0x84, CHR 0xE9, CHR 0x9B, CHR 0x86, CHR 0xE5, CHR 0x90, CHR 0x88])),
      (''rustc-dev'', TString ([CHR 0xE5, CHR 0xB0, CHR 0x86, CHR 0xE7, CHR 0xBC, CHR 0x96, CHR 0xE8, CHR 0xAF, CHR 0x91, CHR 0xE5, CHR 0x99, CHR 0xA8, CHR 0xE4, CHR 0xBD, CHR 0x9C, CHR 0xE4, CHR 0xB8, CHR 0xBA, CHR 0xE5, CHR 0xBA, CHR 0x93, CHR 0xE6, CHR 0x9D, CHR 0xA5, CHR 0xE5, CHR 0x86, CHR 0x85, CHR 0xE9, CHR 0x83, CHR 0xA8] @ '' API'' @ [CHR 0xE3, CHR 0x80, CHR 0x82, CHR 0xE5, CHR 0xA4, CHR 0xA7, CHR 0xE5, CHR 0xA4, CHR 0x9A, CHR 0xE6, CHR 0x95, CHR 0xB0, CHR 0xE7, CHR 0x94, CHR 0xA8, CHR 0xE6, CHR 0x88, CHR 0xB7, CHR 0xE4, CHR 0xB8, CHR 0x8D, CHR 0xE9, CHR 0x9C, CHR 0x80, CHR 0xE8, CHR 0xA6, CHR 0x81, CHR 0xE8, CHR 0xBF, CHR 0x99, CHR 0xE4, CHR 0xB8, CHR 0xAA] @ ''; '' @ [CHR 0xE4, CHR 0xBB, CHR 0x85, CHR 0xE5, CHR 0xBD, CHR 0x93, CHR 0xE5, CHR 0xBC, CHR 0x80, CHR 0xE5, CHR 0x8F, CHR 0x91, CHR 0xE9, CHR 0x93, CHR 0xBE, CHR 0xE6, CHR 0x8E, CHR 0xA5, CHR 0xE5, CHR 0x88, CHR 0xB0, CHR 0xE7, CHR 0xBC, CHR 0x96, CHR 0xE8, CHR 0xAF, CHR 0x91, CHR 0xE5, CHR 0x99, CHR 0xA8, CHR 0xE7, CHR 0x9A, CHR 0x84, CHR 0xE5, CHR 0xB7, CHR 0xA5, CHR 0xE5, CHR 0x85, CHR 0xB7, CHR 0xE6, CHR 0x97, CHR 0xB6, CHR 0xE6, CHR 0x89, CHR 0x8D, CHR 0xE9, CHR 0x9C, CHR 0x80, CHR 0xE8, CHR 0xA6, CHR 0x81, CHR 0xE5, CHR 0xAE, CHR 0x83] @ '', '' @ [CHR 0xE4, CHR 0xBE, CHR 0x8B, CHR 0xE5, CHR 0xA6, CHR 0x82, CHR 0xE5, CHR 0xAF, CHR 0xB9] @ '' Clippy '' @ [CHR 0xE8, CHR 0xBF, CHR 0x9B, CHR 0xE8, CHR 0xA1, CHR 0x8C, CHR 0xE4, CHR 0xBF, CHR 0xAE, CHR 0xE6, CHR 0x94, CHR 0xB9])),
      (''rust-docs'', TString ([CHR 0xE6, CHR 0x9C, CHR 0xAC, CHR 0xE5, CHR 0x9C, CHR 0xB0] @ '' Rust '' @ [CHR 0xE6, CHR 0x96, CHR 0x87, CHR 0xE6, CHR 0xA1, CHR 0xA3, CHR 0xE5, CHR 0x89, CHR 0xAF, CHR 0xE6, CHR 0x9C, CHR 0xAC, CHR 0xEF, CHR 0xBC, CHR 0x8C, CHR 0xE5, CHR 0x85, CHR 0x81, CHR 0xE8, CHR 0xAE, CHR 0xB8, CHR 0xE7, CHR 0x94, CHR 0xA8, CHR 0xE6, CHR 0x88, CHR 0xB7, CHR 0xE4, CHR 0xBD, CHR 0xBF, CHR 0xE7, CHR 0x94, CHR 0xA8] @ '' rustup doc '' @ [CHR 0xE5, CHR 0x91, CHR 0xBD, CHR 0xE4, CHR 0xBB, CHR 0xA4, CHR 0xE5, CHR 0x9C, CHR 0xA8] @ '' Web '' @ [CHR 0xE6, CHR 0xB5, CHR 0x8F, CHR 0xE8, CHR 0xA7, CHR 0x88, CHR 0xE5, CHR 0x99, CHR 0xA8, CHR 0xE4, CHR 0xB8, CHR 0xAD, CHR 0xE6, CHR 0x89, CHR 0x93, CHR 0xE5, CHR 0xBC, CHR 0x80, CHR 0xE6, CHR 0x96, CHR 0x87, CHR 0xE6, CHR 0xA1, CHR 0xA3])),
      (''mingw64'', TString ([CHR 0xE7, CHR 0xBC, CHR 0x96, CHR 0xE8, CHR 0xAF, CHR 0x91, CHR 0xE5, CHR 0x99, CHR 0xA8, CHR 0xE5, CHR 0x9C, CHR 0xA8] @ '' x86_64 Windows GNU '' @ [CHR 0xE7, CHR 0x8E, CHR 0xAF, CHR 0xE5, CHR 0xA2, CHR 0x83, CHR 0xE4, CHR 0xB8, CHR 0x8B, CHR 0xE7, CHR 0x9A, CHR 0x84, CHR 0xE4, CHR 0xBE, CHR 0x9D, CHR 0xE8, CHR 0xB5, CHR 0x96, CHR 0xE7, CHR 0xBB, CHR 0x84, CHR 0xE4, CHR 0xBB, CHR 0xB6])),
      (''typos'', TString [CHR 0xE6, CHR 0xBA, CHR 0x90, CHR 0xE4, CHR 0xBB, CHR 0xA3, CHR 0xE7, CHR 0xA0, CHR 0x81, CHR 0xE6, CHR 0x8B, CHR 0xBC, CHR 0xE5, CHR 0x86, CHR 0x99, CHR 0xE6, CHR 0xA3, CHR 0x80, CHR 0xE6, CHR 0x9F, CHR 0xA5, CHR 0xE5, CHR 0x99, CHR 0xA8, CHR 0xEF, CHR 0xBC, CHR 0x8C, CHR 0xE7, CHR 0x94, CHR 0xA8, CHR 0xE4, CHR 0xBA, CHR 0x8E, CHR 0xE6, CHR 0x9F, CHR 0xA5, CHR 0xE6, CHR 0x89, CHR 0xBE, CHR 0xE5, CHR 0xB9, CHR 0xB6, CHR 0xE7, CHR 0xBA, CHR 0xA0, CHR 0xE6, CHR 0xAD, CHR 0xA3, CHR 0xE6, CHR 0xBA, CHR 0x90, CHR 0xE4, CHR 0xBB, CHR 0xA3, CHR 0xE7, CHR 0xA0, CHR 0x81, CHR 0xE4, CHR 0xB8, CHR 0xAD, CHR 0xE7, CHR 0x9A, CHR 0x84, CHR 0xE6, CHR 0x8B, CHR 0xBC, CHR 0xE5, CHR 0x86, CHR 0x99, CHR 0xE9, CHR 0x94, CHR 0x99, CHR 0xE8, CHR 0xAF, CHR 0xAF]),
      (''cargo-nextest'', TString ([CHR 0xE6, CHR 0x96, CHR 0xB0, CHR 0xE4, CHR 0xB8, CHR 0x80, CHR 0xE4, CHR 0xBB, CHR 0xA3] @ '' Rust '' @ [CHR 0xE9, CHR 0xA1, CHR 0xB9, CHR 0xE7, CHR 0x9B, CHR 0xAE, CHR 0xE6, CHR 0xB5, CHR 0x8B, CHR 0xE8, CHR 0xAF, CHR 0x95, CHR 0xE8, CHR 0xBF, CHR 0x90, CHR 0xE8, CHR 0xA1, CHR 0x8C, CHR 0xE7, CHR 0xA8, CHR 0x8B, CHR 0xE5, CHR 0xBA, CHR 0x8F, CHR 0xEF, CHR 0xBC, CHR 0x8C, CHR 0xE7, CHR 0x9B, CHR 0xB8, CHR 0xE6, CHR 0xAF, CHR 0x94, CHR 0xE4, CHR 0xBC, CHR 0xA0, CHR 0xE7, CHR 0xBB, CHR 0x9F] @ '' cargo test '' @ [CHR 0xE8, CHR 0x80, CHR 0x8C, CHR 0xE8, CHR 0xA8, CHR 0x80, CHR 0xE6, CHR 0x9B, CHR 0xB4, CHR 0xE5, CHR 0xBF, CHR 0xAB, CHR 0xE9, CHR 0x80, CHR 0x9F, CHR 0xEF, CHR 0xBC, CHR 0x8C, CHR 0xE7, CHR 0x95, CHR 0x8C, CHR 0xE9, CHR 0x9D, CHR 0xA2, CHR 0xE6, CHR 0x9B, CHR 0xB4, CHR 0xE7, CHR 0xAE, CHR 0x80, CHR 0xE6, CHR 0xB4, CHR 0x81, CHR 0xE6, CHR 0x98, CHR 0x8E, CHR 0xE4, CHR 0xBA, CHR 0x86])),
      (''vscode'', TString (''Visual Studio Code ('' @ [CHR 0xE7, CHR 0xAE, CHR 0x80, CHR 0xE7, CHR 0xA7, CHR 0xB0] @ '' VS Code) '' @ [CHR 0xE5, CHR 0xB0, CHR 0x86, CHR 0xE4, CHR 0xBB, CHR 0xA3, CHR 0xE7, CHR 0xA0, CHR 0x81, CHR 0xE7, CHR 0xBC, CHR 0x96, CHR 0xE8, CHR 0xBE, CHR 0x91, CHR 0xE5, CHR 0x99, CHR 0xA8, CHR 0xE7, CHR 0x9A, CHR 0x84, CHR 0xE7, CHR 0xAE, CHR 0x80, CHR 0xE6, CHR 0xB4, CHR 0x81, CHR 0xE6, CHR 0x80, CHR 0xA7, CHR 0xE4, CHR 0xB8, CHR 0x8E, CHR 0xE5, CHR 0xBC, CHR 0x80, CHR 0xE5, CHR 0x8F, CHR 0x91, CHR 0xE8, CHR 0x80, CHR 0x85, CHR 0xE6, CHR 0xA0, CHR 0xB8, CHR 0xE5, CHR 0xBF, CHR 0x83, CHR 0xE7, CHR 0x9A, CHR 0x84] @ '' '' @ [CHR 0xE7, CHR 0xBC, CHR 0x96, CHR 0xE8, CHR 0xBE, CHR 0x91] @ ''-'' @ [CHR 0xE6, CHR 0x9E, CHR 0x84, CHR 0xE5, CHR 0xBB, CHR 0xBA] @ ''-'' @ [CHR 0xE8, CHR 0xB0, CHR 0x83, CHR 0xE8, CHR 0xAF, CHR 0x95] @ '' '' @ [CHR 0xE6, CHR 0xB5, CHR 0x81, CHR 0xE7, CHR 0xA8, CHR 0x8B, CHR 0xE7, CHR 0x9B, CHR 0xB8, CHR 0xE7, CHR 0xBB, CHR 0x93, CHR 0xE5, CHR 0x90, CHR 0x88, CHR 0xE3, CHR 0x80, CHR 0x82, CHR 0xE5, CHR 0xAE, CHR 0x83, CHR 0xE6, CHR 0x8F, CHR 0x90, CHR 0xE4, CHR 0xBE, CHR 0x9B, CHR 0xE5, CHR 0x85, CHR 0xA8, CHR 0xE9, CHR 0x9D, CHR 0xA2, CHR 0xE7, CHR 0x9A, CHR 0x84, CHR 0xE4, CHR 0xBB, CHR 0xA3, CHR 0xE7, CHR 0xA0, CHR 0x81, CHR 0xE7, CHR 0xBC, CHR 0x96, CHR 0xE8, CHR 0xBE, CHR 0x91, CHR 0xE3, CHR 0x80, CHR 0x81, CHR 0xE5, CHR 0xAF, CHR 0xBC, CHR 0xE8, CHR 0x88, CHR 0xAA, CHR 0xE5, CHR 0x92, CHR 0x8C, CHR 0xE7, CHR 0x90, CHR 0x86, CHR 0xE8, CHR 0xA7, CHR 0xA3, CHR 0xE6, CHR 0x94, CHR 0xAF, CHR 0xE6, CHR 0x8C, CHR 0x81, CHR 0xEF, CHR 0xBC, CHR 0x8C, CHR 0xE5, CHR 0x90, CHR 0x8C, CHR 0xE6, CHR 0x97, CHR 0xB6, CHR 0xE5, CHR 0x85, CHR 0xB7, CHR 0xE5, CHR 0xA4, CHR 0x87, CHR 0xE8, CHR 0xBD, CHR 0xBB, CHR 0xE9, CHR 0x87, CHR 0x8F, CHR 0xE7, CHR 0xBA, CHR 0xA7, CHR 0xE8, CHR 0xB0, CHR 0x83, CHR 0xE8, CHR 0xAF, CHR 0x95, CHR 0xE5, CHR 0x8A, CHR 0x9F, CHR 0xE8, CHR 0x83, CHR 0xBD, CHR 0xE3, CHR 0x80, CHR 0x81, CHR 0xE4, CHR 0xB8, CHR 0xB0, CHR 0xE5, CHR 0xAF, CHR 0x8C, CHR 0xE7, CHR 0x9A, CHR 0x84, CHR 0xE6, CHR 0x89, CHR 0xA9, CHR 0xE5, CHR 0xB1, CHR 0x95, CHR 0xE6, CHR 0xA8, CHR 0xA1, CHR 0xE5, CHR 0x9E, CHR 0x8B, CHR 0xEF, CHR 0xBC, CHR 0x8C, CHR 0xE5, CHR 0xB9, CHR 0xB6, CHR 0xE5, CHR 0x8F, CHR 0xAF, CHR 0xE4, CHR 0xB8, CHR 0x8E, CHR 0xE7, CHR 0x8E, CHR 0xB0, CHR 0xE6, CHR 0x9C, CHR 0x89, CHR 0xE5, CHR 0xB7, CHR 0xA5, CHR 0xE5, CHR 0x85, CHR 0xB7, CHR 0xE6, CHR 0x97, CHR 0xA0, CHR 0xE7, CHR 0xBC, CHR 0x9D, CHR 0xE9, CHR 0x9B, CHR 0x86, CHR 0xE6, CHR 0x88, CHR 0x90, CHR 0xEF, CHR 0xBC, CHR 0x8C, CHR 0xE6, CHR 0x8F, CHR 0x90, CHR 0xE5, CHR 0x8D, CHR 0x87, CHR 0xE5, CHR 0xBC, CHR 0x80, CHR 0xE5, CHR 0x8F, CHR 0x91, CHR 0xE6, CHR 0x95, CHR 0x88, CHR 0xE7, CHR 0x8E, CHR 0x87, CHR 0xE3, CHR 0x80, CHR 0x82])),
      ((''vscode-rust-analyzer ('' @ [CHR 0xE6, CHR 0x8F, CHR 0x92, CHR 0xE4, CHR 0xBB, CHR 0xB6] @ '')''), TString (''Rust '' @ [CHR 0xE7, CHR 0xBC, CHR 0x96, CHR 0xE7, CHR 0xA8, CHR 0x8B, CHR 0xE8, CHR 0xAF, CHR 0xAD, CHR 0xE8, CHR 0xA8, CHR 0x80, CHR 0xE7, CHR 0x9A, CHR 0x84] @ '' '' @ [CHR 0xE8, CHR 0xAF, CHR 0xAD, CHR 0xE8, CHR 0xA8, CHR 0x80, CHR 0xE6, CHR 0x9C, CHR 0x8D, CHR 0xE5, CHR 0x8A, CHR 0xA1, CHR 0xE5, CHR 0x99, CHR 0xA8, CHR 0xE5, CHR 0x8D, CHR 0x8F, CHR 0xE8, CHR 0xAE, CHR 0xAE] @ '' (LSP) '' @ [CHR 0xE5, CHR 0xAE, CHR 0x9E, CHR 0xE7, CHR 0x8E, CHR 0xB0, CHR 0xE3, CHR 0x80, CHR 0x82, CHR 0xE4, CHR 0xB8, CHR 0xBA] @ '' VS Code '' @ [CHR 0xE7, CHR 0xBC, CHR 0x96, CHR 0xE8, CHR 0xBE, CHR 0x91, CHR 0xE5, CHR 0x99, CHR 0xA8, CHR 0xE6, CHR 0x8F, CHR 0x90, CHR 0xE4, CHR 0xBE, CHR 0x9B, CHR 0xE4, CHR 0xBB, CHR 0xA3, CHR 0xE7, CHR 0xA0, CHR 0x81, CHR 0xE8, CHR 0xA1, CHR 0xA5, CHR 0xE5, CHR 0x85, CHR 0xA8, CHR 0xE3, CHR 0x80, CHR 0x81, CHR 0xE8, CHR 0xB7, CHR 0xB3, CHR 0xE8, CHR 0xBD, CHR 0xAC, CHR 0xE5, CHR 0x88, CHR 0xB0, CHR 0xE5, CHR 0xAE, CHR 0x9A, CHR 0xE4, CHR 0xB9, CHR 0x89] @ '' '' @ [CHR 0xE7, CHR 0xAD, CHR 0x89, CHR 0xE5, CHR 0x8A, CHR 0x9F, CHR 0xE8, CHR 0x83, CHR 0xBD, CHR 0xEF, CHR 0xBC, CHR 0x8C, CHR 0xE6, CHR 0x8F, CHR 0x90, CHR 0xE5, CHR 0x8D, CHR 0x87] @ '' Rust '' @ [CHR 0xE5, CHR 0xBC, CHR 0x80, CHR 0xE5, CHR 0x8F, CHR 0x91, CHR 0xE4, CHR 0xBD, CHR 0x93, CHR 0xE9, CHR 0xAA, CHR 0x8C, CHR 0xE3, CHR 0x80, CHR 0x82]))]"

definition toolkit_community_group :: toml where
  "toolkit_community_group =
    TTable [
      ((''Rust '' @ [CHR 0xE5, CHR 0x9F, CHR 0xBA, CHR 0xE7, CHR 0xA1, CHR 0x80, CHR 0xE5, CHR 0xB7, CHR 0xA5, CHR 0xE5, CHR 0x85, CHR 0xB7, CHR 0xE9, CHR 0x9B, CHR 0x86]), TArray [TString ''mingw64'']),
      ((''Rust '' @ [CHR 0xE4, CHR 0xBC, CHR 0x98, CHR 0xE9, CHR 0x80, CHR 0x89, CHR 0xE5, CHR 0xB7, CHR 0xA5, CHR 0xE5, CHR 0x85, CHR 0xB7, CHR 0xE9, CHR 0x9B, CHR 0x86]), TArray [TString ''typos'', TString ''cargo-nextest'']),
      ((''Rust '' @ [CHR 0xE8, CHR 0xBD, CHR 0xAF, CHR 0xE4, CHR 0xBB, CHR 0xB6, CHR 0xE5, CHR 0xBC, CHR 0x80, CHR 0xE5, CHR 0x8F, CHR 0x91, CHR 0xE5, CHR 0xB7, CHR 0xA5, CHR 0xE5, CHR 0x85, CHR 0xB7, CHR 0xE9, CHR 0x93, CHR 0xBE]), TArray [
        TString ''vscode'',
        TString (''vscode-rust-analyzer ('' @ [CHR 0xE6, CHR 0x8F, CHR 0x92, CHR 0xE4, CHR 0xBB, CHR 0xB6] @ '')'')])]"

definition toolkit_community_x86_64_pc_windows_gnu :: toml where
  "toolkit_community_x86_64_pc_windows_gnu =
    TTable [
      (''vscode'', TTable [
        (''version'', TString ''1.97.1''),
        (''filename'', TString ''vscode.zip''),
        (''url'', TString ''https://update.code.visualstudio.com/1.97.1/win32-x64-archive/stable'')]),
      ((''vscode-rust-analyzer ('' @ [CHR 0xE6, CHR 0x8F, CHR 0x92, CHR 0xE4, CHR 0xBB, CHR 0xB6] @ '')''), TTable [
        (''version'', TString ''0.3.2299''),
        (''url'', TString ''https://github.com/rust-lang/rust-analyzer/releases/download/2025-02-10/rust-analyzer-win32-x64.vsix'')]),
      (''mingw64'', TTable [
        (''required'', TBoolean True),
        (''version'', TString ''14.2.0-rt_v12-rev0''),
        (''url'', TString ''https://rust-mirror.obs.cn-north-4.myhuaweicloud.com/dist/toolset/x86_64-14.2.0-release-posix-seh-ucrt-rt_v12-rev0.7z'')]),
      (''cargo-nextest'', TTable [
        (''optional'', TBoolean True),
        (''version'', TString ''0.9.87''),
        (''url'', TString ''https://rust-mirror.obs.cn-north-4.myhuaweicloud.com/dist/toolset/cargo-nextest/cargo-nextest-0.9.87-x86_64-pc-windows-msvc.zip'')]),
      (''typos'', TTable [
        (''optional'', TBoolean True),
        (''version'', TString ''1.28.4''),
        (''url'', TString ''https://rust-mirror.obs.cn-north-4.myhuaweicloud.com/dist/toolset/typos/typos-v1.28.4-x86_64-pc-windows-msvc.zip'')])]"

definition toolkit_community_x86_64_pc_windows_msvc :: toml where
  "toolkit_community_x86_64_pc_windows_msvc =
    TTable [
      (''vscode'', TTable [
        (''version'', TString ''1.97.1''),
        (''filename'', TString ''vscode.zip''),
        (''url'', TString ''https://update.code.visualstudio.com/1.97.1/win32-x64-archive/stable'')]),
      ((''vscode-rust-analyzer ('' @ [CHR 0xE6, CHR 0x8F, CHR 0x92, CHR 0xE4, CHR 0xBB, CHR 0xB6] @ '')''), TTable [
        (''version'', TString ''0.3.2299''),
        (''url'', TString ''https://github.com/rust-lang/rust-analyzer/releases/download/2025-02-10/rust-analyzer-win32-x64.vsix'')]),
      (''cargo-nextest'', TTable [
        (''optional'', TBoolean True),
        (''version'', TString ''0.9.87''),
        (''url'', TString ''https://rust-mirror.obs.cn-north-4.myhuaweicloud.com/dist/toolset/cargo-nextest/cargo-nextest-0.9.87-x86_64-pc-windows-msvc.zip'')]),
      (''typos'', TTable [
        (''optional'', TBoolean True),
        (''version'', TString ''1.28.4''),
        (''url'', TString ''https://rust-mirror.obs.cn-north-4.myhuaweicloud.com/dist/toolset/typos/typos-v1.28.4-x86_64-pc-windows-msvc.zip'')])]"

definition toolkit_community_x86_64_unknown_linux_gnu :: toml where
  "toolkit_community_x86_64_unknown_linux_gnu =
    TTable [
      (''vscode'', TTable [
        (''optional'', TBoolean True),
        (''version'', TString ''1.97.1''),
        (''filename'', TString ''vscode.tar.gz''),
        (''url'', TString ''https://update.code.visualstudio.com/1.97.1/linux-x64/stable'')]),
      ((''vscode-rust-analyzer ('' @ [CHR 0xE6, CHR 0x8F, CHR 0x92, CHR 0xE4, CHR 0xBB, CHR 0xB6] @ '')''), TTable [
        (''version'', TString ''0.3.2299''),
        (''url'', TString ''https://github.com/rust-lang/rust-analyzer/releases/download/2025-02-10/rust-analyzer-linux-x64.vsix'')]),
      (''cargo-nextest'', TTable [
        (''optional'', TBoolean True),
        (''version'', TString ''0.9.87''),
        (''url'', TString ''https://rust-mirror.obs.cn-north-4.myhuaweicloud.com/dist/toolset/cargo-nextest/cargo-nextest-0.9.87-x86_64-unknown-linux-gnu.tar.gz'')]),
      (''typos'', TTable [
        (''optional'', TBoolean True),
        (''version'', TString ''1.28.4''),
        (''url'', TString ''https://rust-mirror.obs.cn-north-4.myhuaweicloud.com/dist/toolset/typos/typos-v1.28.4-x86_64-unknown-linux-musl.tar.gz'')])]"

definition toolkit_community_x86_64_unknown_linux_musl :: toml where
  "toolkit_community_x86_64_unknown_linux_musl =
    TTable [
      (''vscode'', TTable [
        (''optional'', TBoolean True),
        (''version'', TString ''1.97.1''),
        (''filename'', TString ''vscode.tar.gz''),
        (''url'', TString ''https://update.code.visualstudio.com/1.97.1/linux-x64/stable'')]),
      ((''vscode-rust-analyzer ('' @ [CHR 0xE6, CHR 0x8F, CHR 0x92, CHR 0xE4, CHR 0xBB, CHR 0xB6] @ '')''), TTable [
        (''version'', TString ''0.3.2299''),
        (''url'', TString ''https://github.com/rust-lang/rust-analyzer/releases/download/2025-02-10/rust-analyzer-linux-x64.vsix'')]),
      (''cargo-nextest'', TTable [(''optional'', TBoolean True), (''ver'', TString ''0.9.87'')]),
      (''typos'', TTable [
        (''optional'', TBoolean True),
        (''version'', TString ''1.28.4''),
        (''url'', TString ''https://rust-mirror.obs.cn-north-4.myhuaweicloud.com/dist/toolset/typos/typos-v1.28.4-x86_64-unknown-linux-musl.tar.gz'')])]"

definition toolkit_community_aarch64_unknown_linux_gnu :: toml where
  "toolkit_community_aarch64_unknown_linux_gnu =
    TTable [
      (''vscode'', TTable [
        (''optional'', TBoolean True),
        (''version'', TString ''1.97.1''),
        (''filename'', TString ''vscode.tar.gz''),
        (''url'', TString ''https://update.code.visualstudio.com/1.97.1/linux-arm64/stable'')]),
      ((''vscode-rust-analyzer ('' @ [CHR 0xE6, CHR 0x8F, CHR 0x92, CHR 0xE4, CHR 0xBB, CHR 0xB6] @ '')''), TTable [
        (''version'', TString ''0.3.2299''),
        (''url'', TString ''https://github.com/rust-lang/rust-analyzer/releases/download/2025-02-10/rust-analyzer-linux-arm64.vsix'')]),
      (''cargo-nextest'', TTable [
        (''optional'', TBoolean True),
        (''version'', TString ''0.9.87''),
        (''url'', TString ''https://rust-mirror.obs.cn-north-4.myhuaweicloud.com/dist/toolset/cargo-nextest/cargo-nextest-0.9.87-aarch64-unknown-linux-gnu.tar.gz'')]),
      (''typos'', TTable [
        (''optional'', TBoolean True),
        (''ver'', TString ''1.28.4''),
        (''identifier'', TString ''typos-cli'')])]"

definition toolkit_community_aarch64_unknown_linux_musl :: toml where
  "toolkit_community_aarch64_unknown_linux_musl =
    TTable [
      (''vscode'', TTable [
        (''optional'', TBoolean True),
        (''version'', TString ''1.97.1''),
        (''filename'', TString ''vscode.tar.gz''),
        (''url'', TString ''https://update.code.visualstudio.com/1.97.1/linux-arm64/stable'')]),
      ((''vscode-rust-analyzer ('' @ [CHR 0xE6, CHR 0x8F, CHR 0x92, CHR 0xE4, CHR 0xBB, CHR 0xB6] @ '')''), TTable [
        (''version'', TString ''0.3.2299''),
        (''url'', TString ''https://github.com/rust-lang/rust-analyzer/releases/download/2025-02-10/rust-analyzer-linux-arm64.vsix'')]),
      (''cargo-nextest'', TTable [(''optional'', TBoolean True), (''ver'', TString ''0.9.87'')]),
      (''typos'', TTable [
        (''optional'', TBoolean True),
        (''ver'', TString ''1.28.4''),
        (''identifier'', TString ''typos-cli'')])]"

definition toolkit_community_target :: toml where
  "toolkit_community_target =
    TTable [
      (''x86_64-pc-windows-gnu'', toolkit_community_x86_64_pc_windows_gnu),
      (''x86_64-pc-windows-msvc'', toolkit_community_x86_64_pc_windows_msvc),
      (''x86_64-unknown-linux-gnu'', toolkit_community_x86_64_unknown_linux_gnu),
      (''x86_64-unknown-linux-musl'', toolkit_community_x86_64_unknown_linux_musl),
      (''aarch64-unknown-linux-gnu'', toolkit_community_aarch64_unknown_linux_gnu),
      (''aarch64-unknown-linux-musl'', toolkit_community_aarch64_unknown_linux_musl)]"

definition toolkit_community :: toml where
  "toolkit_community =
    TTable [
      (''config'', TTable [(''date'', TString ''2025-01-30'')]),
      (''value'', TTable [
        (''name'', TString (''Rust '' @ [CHR 0xE4, CHR 0xB8, CHR 0xAD, CHR 0xE5, CHR 0x9B, CHR 0xBD, CHR 0xE7, CHR 0xA4, CHR 0xBE, CHR 0xE5, CHR 0x8C, CHR 0xBA, CHR 0xE4, CHR 0xB8, CHR 0x80, CHR 0xE7, CHR 0xAB, CHR 0x99, CHR 0xE5, CHR 0xBC, CHR 0x8F, CHR 0xE5, CHR 0xBC, CHR 0x80, CHR 0xE5, CHR 0x8F, CHR 0x91, CHR 0xE5, CHR 0xA5, CHR 0x97, CHR 0xE4, CHR 0xBB, CHR 0xB6])),
        (''version'', TString ''stable v1.84.1''),
        (''rust'', TTable [
          (''version'', TString ''1.84.1''),
          (''group'', TString (''Rust '' @ [CHR 0xE5, CHR 0x9F, CHR 0xBA, CHR 0xE7, CHR 0xA1, CHR 0x80, CHR 0xE5, CHR 0xB7, CHR 0xA5, CHR 0xE5, CHR 0x85, CHR 0xB7, CHR 0xE9, CHR 0x9B, CHR 0x86])),
          (''components'', TArray [TString ''clippy'', TString ''rustfmt'', TString ''rust-src'']),
          (''optional-components'', TArray [TString ''llvm-tools'', TString ''rustc-dev'', TString ''rust-docs'']),
          (''profile'', TTable [
            (''name'', TString ''minimal''),
            (''verbose-name'', TString (''Rust '' @ [CHR 0xE5, CHR 0xAE, CHR 0x98, CHR 0xE6, CHR 0x96, CHR 0xB9, CHR 0xE5, CHR 0xB7, CHR 0xA5, CHR 0xE5, CHR 0x85, CHR 0xB7])),
            (''description'', TString (''Rust '' @ [CHR 0xE5, CHR 0xAE, CHR 0x98, CHR 0xE6, CHR 0x96, CHR 0xB9, CHR 0xE5, CHR 0xB7, CHR 0xA5, CHR 0xE5, CHR 0x85, CHR 0xB7, CHR 0xE9, CHR 0x93, CHR 0xBE, CHR 0xEF, CHR 0xBC, CHR 0x8C, CHR 0xE5, CHR 0x8C, CHR 0x85, CHR 0xE5, CHR 0x90, CHR 0xAB] @ '' rustc ('' @ [CHR 0xE7, CHR 0xBC, CHR 0x96, CHR 0xE8, CHR 0xAF, CHR 0x91, CHR 0xE5, CHR 0x99, CHR 0xA8] @ ''), rust-std ('' @ [CHR 0xE6, CHR 0xA0, CHR 0x87, CHR 0xE5, CHR 0x87, CHR 0x86, CHR 0xE5, CHR 0xBA, CHR 0x93] @ ''), cargo ('' @ [CHR 0xE5, CHR 0x8C, CHR 0x85, CHR 0xE7, CHR 0xAE, CHR 0xA1, CHR 0xE7, CHR 0x90, CHR 0x86] @ '') '' @ [CHR 0xE7, CHR 0xAD, CHR 0x89, CHR 0xE5, CHR 0xB7, CHR 0xA5, CHR 0xE5, CHR 0x85, CHR 0xB7]))])]),
        (''tools'', TTable [
          (''descriptions'', toolkit_community_descriptions),
          (''group'', toolkit_community_group),
          (''target'', toolkit_community_target)])])]"

definition toolkits :: toml where
  "toolkits =
    TTable [
      (''config'', config),
      (''toolkit'', TTable [(''basic'', toolkit_basic), (''community'', toolkit_community)])]"

subsection \<open>The offline manifest of the community toolkit\<close>

text \<open>
  The generated file \<open>resources/toolkit-manifest/offline/community.toml\<close>, first
  document: the manifest shipped with the vendored packages.
\<close>

definition offline_rust :: toml where
  "offline_rust =
    TTable [
      (''components'', TArray [TString ''clippy'', TString ''rustfmt'', TString ''rust-src'']),
      (''group'', TString (''Rust '' @ [CHR 0xE5, CHR 0x9F, CHR 0xBA, CHR 0xE7, CHR 0xA1, CHR 0x80, CHR 0xE5, CHR 0xB7, CHR 0xA5, CHR 0xE5, CHR 0x85, CHR 0xB7, CHR 0xE9, CHR 0x9B, CHR 0x86])),
      (''offline-dist-server'', TString ''toolchain''),
      (''optional-components'', TArray [TString ''llvm-tools'', TString ''rustc-dev'', TString ''rust-docs'']),
      (''version'', TString ''1.84.1''),
      (''profile'', TTable [
        (''description'', TString (''Rust '' @ [CHR 0xE5, CHR 0xAE, CHR 0x98, CHR 0xE6, CHR 0x96, CHR 0xB9, CHR 0xE5, CHR 0xB7, CHR 0xA5, CHR 0xE5, CHR 0x85, CHR 0xB7, CHR 0xE9, CHR 0x93, CHR 0xBE, CHR 0xEF, CHR 0xBC, CHR 0x8C, CHR 0xE5, CHR 0x8C, CHR 0x85, CHR 0xE5, CHR 0x90, CHR 0xAB] @ '' rustc ('' @ [CHR 0xE7, CHR 0xBC, CHR 0x96, CHR 0xE8, CHR 0xAF, CHR 0x91, CHR 0xE5, CHR 0x99, CHR 0xA8] @ ''), rust-std ('' @ [CHR 0xE6, CHR 0xA0, CHR 0x87, CHR 0xE5, CHR 0x87, CHR 0x86, CHR 0xE5, CHR 0xBA, CHR 0x93] @ ''), cargo ('' @ [CHR 0xE5, CHR 0x8C, CHR 0x85, CHR 0xE7, CHR 0xAE, CHR 0xA1, CHR 0xE7, CHR 0x90, CHR 0x86] @ '') '' @ [CHR 0xE7, CHR 0xAD, CHR 0x89, CHR 0xE5, CHR 0xB7, CHR 0xA5, CHR 0xE5, CHR 0x85, CHR 0xB7])),
        (''name'', TString ''minimal''),
        (''verbose-name'', TString (''Rust '' @ [CHR 0xE5, CHR 0xAE, CHR 0x98, CHR 0xE6, CHR 0x96, CHR 0xB9, CHR 0xE5, CHR 0xB7, CHR 0xA5, CHR 0xE5, CHR 0x85, CHR 0xB7]))]),
      (''rustup'', TTable [
        (''aarch64-unknown-linux-gnu'', TString ''tools/rustup-init''),
        (''aarch64-unknown-linux-musl'', TString ''tools/rustup-init''),
        (''x86_64-pc-windows-gnu'', TString ''tools/rustup-init.exe''),
        (''x86_64-pc-windows-msvc'', TString ''tools/rustup-init.exe''),
        (''x86_64-unknown-linux-gnu'', TString ''tools/rustup-init''),
        (''x86_64-unknown-linux-musl'', TString ''tools/rustup-init'')])]"

definition offline_descriptions :: toml where
  "offline_descriptions =
    TTable [
      (''cargo-nextest'', TString ([CHR 0xE6, CHR 0x96, CHR 0xB0, CHR 0xE4, CHR 0xB8, CHR 0x80, CHR 0xE4, CHR 0xBB, CHR 0xA3] @ '' Rust '' @ [CHR 0xE9, CHR 0xA1, CHR 0xB9, CHR 0xE7, CHR 0x9B, CHR 0xAE, CHR 0xE6, CHR 0xB5, CHR 0x8B, CHR 0xE8, CHR 0xAF, CHR 0x95, CHR 0xE8, CHR 0xBF, CHR 0x90, CHR 0xE8, CHR 0xA1, CHR 0x8C, CHR 0xE7, CHR 0xA8, CHR 0x8B, CHR 0xE5, CHR 0xBA, CHR 0x8F, CHR 0xEF, CHR 0xBC, CHR 0x8C, CHR 0xE7, CHR 0x9B, CHR 0xB8, CHR 0xE6, CHR 0xAF, CHR 0x94, CHR 0xE4, CHR 0xBC, CHR 0xA0, CHR 0xE7, CHR 0xBB, CHR 0x9F] @ '' cargo test '' @ [CHR 0xE8, CHR 0x80, CHR 0x8C, CHR 0xE8, CHR 0xA8, CHR 0x80, CHR 0xE6, CHR 0x9B, CHR 0xB4, CHR 0xE5, CHR 0xBF, CHR 0xAB, CHR 0xE9, CHR 0x80, CHR 0x9F, CHR 0xEF, CHR 0xBC, CHR 0x8C, CHR 0xE7, CHR 0x95, CHR 0x8C, CHR 0xE9, CHR 0x9D, CHR 0xA2, CHR 0xE6, CHR 0x9B, CHR 0xB4, CHR 0xE7, CHR 0xAE, CHR 0x80, CHR 0xE6, CHR 0xB4, CHR 0x81, CHR 0xE6, CHR 0x98, CHR 0x8E, CHR 0xE4, CHR 0xBA, CHR 0x86])),
      (''llvm-tools'', TString ([CHR 0xE5, CHR 0x8C, CHR 0x85, CHR 0xE5, CHR 0x90, CHR 0xAB] @ '' LLVM '' @ [CHR 0xE5, CHR 0xB7, CHR 0xA5, CHR 0xE5, CHR 0x85, CHR 0xB7, CHR 0xE7, CHR 0x9A, CHR 0x84, CHR 0xE9, CHR 0x9B, CHR 0x86, CHR 0xE5, CHR 0x90, CHR 0x88])),
      (''mingw64'', TString ([CHR 0xE7, CHR 0xBC, CHR 0x96, CHR 0xE8, CHR 0xAF, CHR 0x91, CHR 0xE5, CHR 0x99, CHR 0xA8, CHR 0xE5, CHR 0x9C, CHR 0xA8] @ '' x86_64 Windows GNU '' @ [CHR 0xE7, CHR 0x8E, CHR 0xAF, CHR 0xE5, CHR 0xA2, CHR 0x83, CHR 0xE4, CHR 0xB8, CHR 0x8B, CHR 0xE7, CHR 0x9A, CHR 0x84, CHR 0xE4, CHR 0xBE, CHR 0x9D, CHR 0xE8, CHR 0xB5, CHR 0x96, CHR 0xE7, CHR 0xBB, CHR 0x84, CHR 0xE4, CHR 0xBB, CHR 0xB6])),
      (''rust-docs'', TString ([CHR 0xE6, CHR 0x9C, CHR 0xAC, CHR 0xE5, CHR 0x9C, CHR 0xB0] @ '' Rust '' @ [CHR 0xE6, CHR 0x96, CHR 0x87, CHR 0xE6, CHR 0xA1, CHR 0xA3, CHR 0xE5, CHR 0x89, CHR 0xAF, CHR 0xE6, CHR 0x9C, CHR 0xAC, CHR 0xEF, CHR 0xBC, CHR 0x8C, CHR 0xE5, CHR 0x85, CHR 0x81, CHR 0xE8, CHR 0xAE, CHR 0xB8, CHR 0xE7, CHR 0x94, CHR 0xA8, CHR 0xE6, CHR 0x88, CHR 0xB7, CHR 0xE4, CHR 0xBD, CHR 0xBF, CHR 0xE7, CHR 0x94, CHR 0xA8] @ '' rustup doc '' @ [CHR 0xE5, CHR 0x91, CHR 0xBD, CHR 0xE4, CHR 0xBB, CHR 0xA4, CHR 0xE5, CHR 0x9C, CHR 0xA8] @ '' Web '' @ [CHR 0xE6, CHR 0xB5, CHR 0x8F, CHR 0xE8, CHR 0xA7, CHR 0x88, CHR 0xE5, CHR 0x99, CHR 0xA8, CHR 0xE4, CHR 0xB8, CHR 0xAD, CHR 0xE6, CHR 0x89, CHR 0x93, CHR 0xE5, CHR 0xBC, CHR 0x80, CHR 0xE6, CHR 0x96, CHR 0x87, CHR 0xE6, CHR 0xA1, CHR 0xA3])),
      (''rustc-dev'', TString ([CHR 0xE5, CHR 0xB0, CHR 0x86, CHR 0xE7, CHR 0xBC, CHR 0x96, CHR 0xE8, CHR 0xAF, CHR 0x91, CHR 0xE5, CHR 0x99, CHR 0xA8, CHR 0xE4, CHR 0xBD, CHR 0x9C, CHR 0xE4, CHR 0xB8, CHR 0xBA, CHR 0xE5, CHR 0xBA, CHR 0x93, CHR 0xE6, CHR 0x9D, CHR 0xA5, CHR 0xE5, CHR 0x86, CHR 0x85, CHR 0xE9, CHR 0x83, CHR 0xA8] @ '' API'' @ [CHR 0xE3, CHR 0x80, CHR 0x82, CHR 0xE5, CHR 0xA4, CHR 0xA7, CHR 0xE5, CHR 0xA4, CHR 0x9A, CHR 0xE6, CHR 0x95, CHR 0xB0, CHR 0xE7, CHR 0x94, CHR 0xA8, CHR 0xE6, CHR 0x88, CHR 0xB7, CHR 0xE4, CHR 0xB8, CHR 0x8D, CHR 0xE9, CHR 0x9C, CHR 0x80, CHR 0xE8, CHR 0xA6, CHR 0x81, CHR 0xE8, CHR 0xBF, CHR 0x99, CHR 0xE4, CHR 0xB8, CHR 0xAA] @ ''; '' @ [CHR 0xE4, CHR 0xBB, CHR 0x85, CHR 0xE5, CHR 0xBD, CHR 0x93, CHR 0xE5, CHR 0xBC, CHR 0x80, CHR 0xE5, CHR 0x8F, CHR 0x91, CHR 0xE9, CHR 0x93, CHR 0xBE, CHR 0xE6, CHR 0x8E, CHR 0xA5, CHR 0xE5, CHR 0x88, CHR 0xB0, CHR 0xE7, CHR 0xBC, CHR 0x96, CHR 0xE8, CHR 0xAF, CHR 0x91, CHR 0xE5, CHR 0x99, CHR 0xA8, CHR 0xE7, CHR 0x9A, CHR 0x84, CHR 0xE5, CHR 0xB7, CHR 0xA5, CHR 0xE5, CHR 0x85, CHR 0xB7, CHR 0xE6, CHR 0x97, CHR 0xB6, CHR 0xE6, CHR 0x89, CHR 0x8D, CHR 0xE9, CHR 0x9C, CHR 0x80, CHR 0xE8, CHR 0xA6, CHR 0x81, CHR 0xE5, CHR 0xAE, CHR 0x83] @ '', '' @ [CHR 0xE4, CHR 0xBE, CHR 0x8B, CHR 0xE5, CHR 0xA6, CHR 0x82, CHR 0xE5, CHR 0xAF, CHR 0xB9] @ '' Clippy '' @ [CHR 0xE8, CHR 0xBF, CHR 0x9B, CHR 0xE8, CHR 0xA1, CHR 0x8C, CHR 0xE4, CHR 0xBF, CHR 0xAE, CHR 0xE6, CHR 0x94, CHR 0xB9])),
      (''typos'', TString [CHR 0xE6, CHR 0xBA, CHR 0x90, CHR 0xE4, CHR 0xBB, CHR 0xA3, CHR 0xE7, CHR 0xA0, CHR 0x81, CHR 0xE6, CHR 0x8B, CHR 0xBC, CHR 0xE5, CHR 0x86, CHR 0x99, CHR 0xE6, CHR 0xA3, CHR 0x80, CHR 0xE6, CHR 0x9F, CHR 0xA5, CHR 0xE5, CHR 0x99, CHR 0xA8, CHR 0xEF, CHR 0xBC, CHR 0x8C, CHR 0xE7, CHR 0x94, CHR 0xA8, CHR 0xE4, CHR 0xBA, CHR 0x8E, CHR 0xE6, CHR 0x9F, CHR 0xA5, CHR 0xE6, CHR 0x89, CHR 0xBE, CHR 0xE5, CHR 0xB9, CHR 0xB6, CHR 0xE7, CHR 0xBA, CHR 0xA0, CHR 0xE6, CHR 0xAD, CHR 0xA3, CHR 0xE6, CHR 0xBA, CHR 0x90, CHR 0xE4, CHR 0xBB, CHR 0xA3, CHR 0xE7, CHR 0xA0, CHR 0x81, CHR 0xE4, CHR 0xB8, CHR 0xAD, CHR 0xE7, CHR 0x9A, CHR 0x84, CHR 0xE6, CHR 0x8B, CHR 0xBC, CHR 0xE5, CHR 0x86, CHR 0x99, CHR 0xE9, CHR 0x94, CHR 0x99, CHR 0xE8, CHR 0xAF, CHR 0xAF]),
      (''vscode'', TString (''Visual Studio Code ('' @ [CHR 0xE7, CHR 0xAE, CHR 0x80, CHR 0xE7, CHR 0xA7, CHR 0xB0] @ '' VS Code) '' @ [CHR 0xE5, CHR 0xB0, CHR 0x86, CHR 0xE4, CHR 0xBB, CHR 0xA3, CHR 0xE7, CHR 0xA0, CHR 0x81, CHR 0xE7, CHR 0xBC, CHR 0x96, CHR 0xE8, CHR 0xBE, CHR 0x91, CHR 0xE5, CHR 0x99, CHR 0xA8, CHR 0xE7, CHR 0x9A, CHR 0x84, CHR 0xE7, CHR 0xAE, CHR 0x80, CHR 0xE6, CHR 0xB4, CHR 0x81, CHR 0xE6, CHR 0x80, CHR 0xA7, CHR 0xE4, CHR 0xB8, CHR 0x8E, CHR 0xE5, CHR 0xBC, CHR 0x80, CHR 0xE5, CHR 0x8F, CHR 0x91, CHR 0xE8, CHR 0x80, CHR 0x85, CHR 0xE6, CHR 0xA0, CHR 0xB8, CHR 0xE5, CHR 0xBF, CHR 0x83, CHR 0xE7, CHR 0x9A, CHR 0x84] @ '' '' @ [CHR 0xE7, CHR 0xBC, CHR 0x96, CHR 0xE8, CHR 0xBE, CHR 0x91] @ ''-'' @ [CHR 0xE6, CHR 0x9E, CHR 0x84, CHR 0xE5, CHR 0xBB, CHR 0xBA] @ ''-'' @ [CHR 0xE8, CHR 0xB0, CHR 0x83, CHR 0xE8, CHR 0xAF, CHR 0x95] @ '' '' @ [CHR 0xE6, CHR 0xB5, CHR 0x81, CHR 0xE7, CHR 0xA8, CHR 0x8B, CHR 0xE7, CHR 0x9B, CHR 0xB8, CHR 0xE7, CHR 0xBB, CHR 0x93, CHR 0xE5, CHR 0x90, CHR 0x88, CHR 0xE3, CHR 0x80, CHR 0x82, CHR 0xE5, CHR 0xAE, CHR 0x83, CHR 0xE6, CHR 0x8F, CHR 0x90, CHR 0xE4, CHR 0xBE, CHR 0x9B, CHR 0xE5, CHR 0x85, CHR 0xA8, CHR 0xE9, CHR 0x9D, CHR 0xA2, CHR 0xE7, CHR 0x9A, CHR 0x84, CHR 0xE4, CHR 0xBB, CHR 0xA3, CHR 0xE7, CHR 0xA0, CHR 0x81, CHR 0xE7, CHR 0xBC, CHR 0x96, CHR 0xE8, CHR 0xBE, CHR 0x91, CHR 0xE3, CHR 0x80, CHR 0x81, CHR 0xE5, CHR 0xAF, CHR 0xBC, CHR 0xE8, CHR 0x88, CHR 0xAA, CHR 0xE5, CHR 0x92, CHR 0x8C, CHR 0xE7, CHR 0x90, CHR 0x86, CHR 0xE8, CHR 0xA7, CHR 0xA3, CHR 0xE6, CHR 0x94, CHR 0xAF, CHR 0xE6, CHR 0x8C, CHR 0x81, CHR 0xEF, CHR 0xBC, CHR 0x8C, CHR 0xE5, CHR 0x90, CHR 0x8C, CHR 0xE6, CHR 0x97, CHR 0xB6, CHR 0xE5, CHR 0x85, CHR 0xB7, CHR 0xE5, CHR 0xA4, CHR 0x87, CHR 0xE8, CHR 0xBD, CHR 0xBB, CHR 0xE9, CHR 0x87, CHR 0x8F, CHR 0xE7, CHR 0xBA, CHR 0xA7, CHR 0xE8, CHR 0xB0, CHR 0x83, CHR 0xE8, CHR 0xAF, CHR 0x95, CHR 0xE5, CHR 0x8A, CHR 0x9F, CHR 0xE8, CHR 0x83, CHR 0xBD, CHR 0xE3, CHR 0x80, CHR 0x81, CHR 0xE4, CHR 0xB8, CHR 0xB0, CHR 0xE5, CHR 0xAF, CHR 0x8C, CHR 0xE7, CHR 0x9A, CHR 0x84, CHR 0xE6, CHR 0x89, CHR 0xA9, CHR 0xE5, CHR 0xB1, CHR 0x95, CHR 0xE6, CHR 0xA8, CHR 0xA1, CHR 0xE5, CHR 0x9E, CHR 0x8B, CHR 0xEF, CHR 0xBC, CHR 0x8C, CHR 0xE5, CHR 0xB9, CHR 0xB6, CHR 0xE5, CHR 0x8F, CHR 0xAF, CHR 0xE4, CHR 0xB8, CHR 0x8E, CHR 0xE7, CHR 0x8E, CHR 0xB0, CHR 0xE6, CHR 0x9C, CHR 0x89, CHR 0xE5, CHR 0xB7, CHR 0xA5, CHR 0xE5, CHR 0x85, CHR 0xB7, CHR 0xE6, CHR 0x97, CHR 0xA0, CHR 0xE7, CHR 0xBC, CHR 0x9D, CHR 0xE9, CHR 0x9B, CHR 0x86, CHR 0xE6, CHR 0x88, CHR 0x90, CHR 0xEF, CHR 0xBC, CHR 0x8C, CHR 0xE6, CHR 0x8F, CHR 0x90, CHR 0xE5, CHR 0x8D, CHR 0x87, CHR 0xE5, CHR 0xBC, CHR 0x80, CHR 0xE5, CHR 0x8F, CHR 0x91, CHR 0xE6, CHR 0x95, CHR 0x88, CHR 0xE7, CHR 0x8E, CHR 0x87, CHR 0xE3, CHR 0x80, CHR 0x82])),
      ((''vscode-rust-analyzer ('' @ [CHR 0xE6, CHR 0x8F, CHR 0x92, CHR 0xE4, CHR 0xBB, CHR 0xB6] @ '')''), TString (''Rust '' @ [CHR 0xE7, CHR 0xBC, CHR 0x96, CHR 0xE7, CHR 0xA8, CHR 0x8B, CHR 0xE8, CHR 0xAF, CHR 0xAD, CHR 0xE8, CHR 0xA8, CHR 0x80, CHR 0xE7, CHR 0x9A, CHR 0x84] @ '' '' @ [CHR 0xE8, CHR 0xAF, CHR 0xAD, CHR 0xE8, CHR 0xA8, CHR 0x80, CHR 0xE6, CHR 0x9C, CHR 0x8D, CHR 0xE5, CHR 0x8A, CHR 0xA1, CHR 0xE5, CHR 0x99, CHR 0xA8, CHR 0xE5, CHR 0x8D, CHR 0x8F, CHR 0xE8, CHR 0xAE, CHR 0xAE] @ '' (LSP) '' @ [CHR 0xE5, CHR 0xAE, CHR 0x9E, CHR 0xE7, CHR 0x8E, CHR 0xB0, CHR 0xE3, CHR 0x80, CHR 0x82, CHR 0xE4, CHR 0xB8, CHR 0xBA] @ '' VS Code '' @ [CHR 0xE7, CHR 0xBC, CHR 0x96, CHR 0xE8, CHR 0xBE, CHR 0x91, CHR 0xE5, CHR 0x99, CHR 0xA8, CHR 0xE6, CHR 0x8F, CHR 0x90, CHR 0xE4, CHR 0xBE, CHR 0x9B, CHR 0xE4, CHR 0xBB, CHR 0xA3, CHR 0xE7, CHR 0xA0, CHR 0x81, CHR 0xE8, CHR 0xA1, CHR 0xA5, CHR 0xE5, CHR 0x85, CHR 0xA8, CHR 0xE3, CHR 0x80, CHR 0x81, CHR 0xE8, CHR 0xB7, CHR 0xB3, CHR 0xE8, CHR 0xBD, CHR 0xAC, CHR 0xE5, CHR 0x88, CHR 0xB0, CHR 0xE5, CHR 0xAE, CHR 0x9A, CHR 0xE4, CHR 0xB9, CHR 0x89] @ '' '' @ [CHR 0xE7, CHR 0xAD, CHR 0x89, CHR 0xE5, CHR 0x8A, CHR 0x9F, CHR 0xE8, CHR 0x83, CHR 0xBD, CHR 0xEF, CHR 0xBC, CHR 0x8C, CHR 0xE6, CHR 0x8F, CHR 0x90, CHR 0xE5, CHR 0x8D, CHR 0x87] @ '' Rust '' @ [CHR 0xE5, CHR 0xBC, CHR 0x80, CHR 0xE5, CHR 0x8F, CHR 0x91, CHR 0xE4, CHR 0xBD, CHR 0x93, CHR 0xE9, CHR 0xAA, CHR 0x8C, CHR 0xE3, CHR 0x80, CHR 0x82]))]"

definition offline_group :: toml where
  "offline_group =
    TTable [
      ((''Rust '' @ [CHR 0xE4, CHR 0xBC, CHR 0x98, CHR 0xE9, CHR 0x80, CHR 0x89, CHR 0xE5, CHR 0xB7, CHR 0xA5, CHR 0xE5, CHR 0x85, CHR 0xB7, CHR 0xE9, CHR 0x9B, CHR 0x86]), TArray [TString ''typos'', TString ''cargo-nextest'']),
      ((''Rust '' @ [CHR 0xE5, CHR 0x9F, CHR 0xBA, CHR 0xE7, CHR 0xA1, CHR 0x80, CHR 0xE5, CHR 0xB7, CHR 0xA5, CHR 0xE5, CHR 0x85, CHR 0xB7, CHR 0xE9, CHR 0x9B, CHR 0x86]), TArray [TString ''mingw64'']),
      ((''Rust '' @ [CHR 0xE8, CHR 0xBD, CHR 0xAF, CHR 0xE4, CHR 0xBB, CHR 0xB6, CHR 0xE5, CHR 0xBC, CHR 0x80, CHR 0xE5, CHR 0x8F, CHR 0x91, CHR 0xE5, CHR 0xB7, CHR 0xA5, CHR 0xE5, CHR 0x85, CHR 0xB7, CHR 0xE9, CHR 0x93, CHR 0xBE]), TArray [
        TString ''vscode'',
        TString (''vscode-rust-analyzer ('' @ [CHR 0xE6, CHR 0x8F, CHR 0x92, CHR 0xE4, CHR 0xBB, CHR 0xB6] @ '')'')])]"

definition offline_aarch64_unknown_linux_gnu :: toml where
  "offline_aarch64_unknown_linux_gnu =
    TTable [
      (''cargo-nextest'', TTable [
        (''optional'', TBoolean True),
        (''path'', TString ''tools/cargo-nextest-0.9.87-aarch64-unknown-linux-gnu.tar.gz''),
        (''version'', TString ''0.9.87'')]),
      (''typos'', TTable [
        (''identifier'', TString ''typos-cli''),
        (''optional'', TBoolean True),
        (''ver'', TString ''1.28.4'')]),
      (''vscode'', TTable [
        (''filename'', TString ''vscode.tar.gz''),
        (''optional'', TBoolean True),
        (''path'', TString ''tools/vscode.tar.gz''),
        (''version'', TString ''1.97.1'')]),
      ((''vscode-rust-analyzer ('' @ [CHR 0xE6, CHR 0x8F, CHR 0x92, CHR 0xE4, CHR 0xBB, CHR 0xB6] @ '')''), TTable [
        (''path'', TString ''tools/rust-analyzer-linux-arm64.vsix''),
        (''version'', TString ''0.3.2299'')])]"

definition offline_aarch64_unknown_linux_musl :: toml where
  "offline_aarch64_unknown_linux_musl =
    TTable [
      (''cargo-nextest'', TTable [(''optional'', TBoolean True), (''ver'', TString ''0.9.87'')]),
      (''typos'', TTable [
        (''identifier'', TString ''typos-cli''),
        (''optional'', TBoolean True),
        (''ver'', TString ''1.28.4'')]),
      (''vscode'', TTable [
        (''filename'', TString ''vscode.tar.gz''),
        (''optional'', TBoolean True),
        (''path'', TString ''tools/vscode.tar.gz''),
        (''version'', TString ''1.97.1'')]),
      ((''vscode-rust-analyzer ('' @ [CHR 0xE6, CHR 0x8F, CHR 0x92, CHR 0xE4, CHR 0xBB, CHR 0xB6] @ '')''), TTable [
        (''path'', TString ''tools/rust-analyzer-linux-arm64.vsix''),
        (''version'', TString ''0.3.2299'')])]"

definition offline_x86_64_pc_windows_gnu :: toml where
  "offline_x86_64_pc_windows_gnu =
    TTable [
      (''cargo-nextest'', TTable [
        (''optional'', TBoolean True),
        (''path'', TString ''tools/cargo-nextest-0.9.87-x86_64-pc-windows-msvc.zip''),
        (''version'', TString ''0.9.87'')]),
      (''mingw64'', TTable [
        (''path'', TString ''tools/x86_64-14.2.0-release-posix-seh-ucrt-rt_v12-rev0.7z''),
        (''required'', TBoolean True),
        (''version'', TString ''14.2.0-rt_v12-rev0'')]),
      (''typos'', TTable [
        (''optional'', TBoolean True),
        (''path'', TString ''tools/typos-v1.28.4-x86_64-pc-windows-msvc.zip''),
        (''version'', TString ''1.28.4'')]),
      (''vscode'', TTable [
        (''filename'', TString ''vscode.zip''),
        (''path'', TString ''tools/vscode.zip''),
        (''version'', TString ''1.97.1'')]),
      ((''vscode-rust-analyzer ('' @ [CHR 0xE6, CHR 0x8F, CHR 0x92, CHR 0xE4, CHR 0xBB, CHR 0xB6] @ '')''), TTable [
        (''path'', TString ''tools/rust-analyzer-win32-x64.vsix''),
        (''version'', TString ''0.3.2299'')])]"

definition offline_x86_64_pc_windows_msvc :: toml where
  "offline_x86_64_pc_windows_msvc =
    TTable [
      (''cargo-nextest'', TTable [
        (''optional'', TBoolean True),
        (''path'', TString ''tools/cargo-nextest-0.9.87-x86_64-pc-windows-msvc.zip''),
        (''version'', TString ''0.9.87'')]),
      (''typos'', TTable [
        (''optional'', TBoolean True),
        (''path'', TString ''tools/typos-v1.28.4-x86_64-pc-windows-msvc.zip''),
        (''version'', TString ''1.28.4'')]),
      (''vscode'', TTable [
        (''filename'', TString ''vscode.zip''),
        (''path'', TString ''tools/vscode.zip''),
        (''version'', TString ''1.97.1'')]),
      ((''vscode-rust-analyzer ('' @ [CHR 0xE6, CHR 0x8F, CHR 0x92, CHR 0xE4, CHR 0xBB, CHR 0xB6] @ '')''), TTable [
        (''path'', TString ''tools/rust-analyzer-win32-x64.vsix''),
        (''version'', TString ''0.3.2299'')])]"

definition offline_x86_64_unknown_linux_gnu :: toml where
  "offline_x86_64_unknown_linux_gnu =
    TTable [
      (''cargo-nextest'', TTable [
        (''optional'', TBoolean True),
        (''path'', TString ''tools/cargo-nextest-0.9.87-x86_64-unknown-linux-gnu.tar.gz''),
        (''version'', TString ''0.9.87'')]),
      (''typos'', TTable [
        (''optional'', TBoolean True),
        (''path'', TString ''tools/typos-v1.28.4-x86_64-unknown-linux-musl.tar.gz''),
        (''version'', TString ''1.28.4'')]),
      (''vscode'', TTable [
        (''filename'', TString ''vscode.tar.gz''),
        (''optional'', TBoolean True),
        (''path'', TString ''tools/vscode.tar.gz''),
        (''version'', TString ''1.97.1'')]),
      ((''vscode-rust-analyzer ('' @ [CHR 0xE6, CHR 0x8F, CHR 0x92, CHR 0xE4, CHR 0xBB, CHR 0xB6] @ '')''), TTable [
        (''path'', TString ''tools/rust-analyzer-linux-x64.vsix''),
        (''version'', TString ''0.3.2299'')])]"

definition offline_x86_64_unknown_linux_musl :: toml where
  "offline_x86_64_unknown_linux_musl =
    TTable [
      (''cargo-nextest'', TTable [(''optional'', TBoolean True), (''ver'', TString ''0.9.87'')]),
      (''typos'', TTable [
        (''optional'', TBoolean True),
        (''path'', TString ''tools/typos-v1.28.4-x86_64-unknown-linux-musl.tar.gz''),
        (''version'', TString ''1.28.4'')]),
      (''vscode'', TTable [
        (''filename'', TString ''vscode.tar.gz''),
        (''optional'', TBoolean True),
        (''path'', TString ''tools/vscode.tar.gz''),
        (''version'', TString ''1.97.1'')]),
      ((''vscode-rust-analyzer ('' @ [CHR 0xE6, CHR 0x8F, CHR 0x92, CHR 0xE4, CHR 0xBB, CHR 0xB6] @ '')''), TTable [
        (''path'', TString ''tools/rust-analyzer-linux-x64.vsix''),
        (''version'', TString ''0.3.2299'')])]"

definition offline_target :: toml where
  "offline_target =
    TTable [
      (''aarch64-unknown-linux-gnu'', offline_aarch64_unknown_linux_gnu),
      (''aarch64-unknown-linux-musl'', offline_aarch64_unknown_linux_musl),
      (''x86_64-pc-windows-gnu'', offline_x86_64_pc_windows_gnu),
      (''x86_64-pc-windows-msvc'', offline_x86_64_pc_windows_msvc),
      (''x86_64-unknown-linux-gnu'', offline_x86_64_unknown_linux_gnu),
      (''x86_64-unknown-linux-musl'', offline_x86_64_unknown_linux_musl)]"

definition offline_community :: toml where
  "offline_community =
    TTable [
      (''name'', TString (''Rust '' @ [CHR 0xE4, CHR 0xB8, CHR 0xAD, CHR 0xE5, CHR 0x9B, CHR 0xBD, CHR 0xE7, CHR 0xA4, CHR 0xBE, CHR 0xE5, CHR 0x8C, CHR 0xBA, CHR 0xE4, CHR 0xB8, CHR 0x80, CHR 0xE7, CHR 0xAB, CHR 0x99, CHR 0xE5, CHR 0xBC, CHR 0x8F, CHR 0xE5, CHR 0xBC, CHR 0x80, CHR 0xE5, CHR 0x8F, CHR 0x91, CHR 0xE5, CHR 0xA5, CHR 0x97, CHR 0xE4, CHR 0xBB, CHR 0xB6])),
      (''version'', TString ''stable v1.84.1''),
      (''rust'', offline_rust),
      (''tools'', TTable [
        (''descriptions'', offline_descriptions),
        (''group'', offline_group),
        (''target'', offline_target)])]"

subsection \<open>The online manifest of the community toolkit\<close>

text \<open>
  The second generated document of the community toolkit: the manifest whose tools are
  fetched from their URLs.
\<close>

definition online_rust :: toml where
  "online_rust =
    TTable [
      (''components'', TArray [TString ''clippy'', TString ''rustfmt'', TString ''rust-src'']),
      (''group'', TString (''Rust '' @ [CHR 0xE5, CHR 0x9F, CHR 0xBA, CHR 0xE7, CHR 0xA1, CHR 0x80, CHR 0xE5, CHR 0xB7, CHR 0xA5, CHR 0xE5, CHR 0x85, CHR 0xB7, CHR 0xE9, CHR 0x9B, CHR 0x86])),
      (''optional-components'', TArray [TString ''llvm-tools'', TString ''rustc-dev'', TString ''rust-docs'']),
      (''version'', TString ''1.84.1''),
      (''profile'', TTable [
        (''description'', TString (''Rust '' @ [CHR 0xE5, CHR 0xAE, CHR 0x98, CHR 0xE6, CHR 0x96, CHR 0xB9, CHR 0xE5, CHR 0xB7, CHR 0xA5, CHR 0xE5, CHR 0x85, CHR 0xB7, CHR 0xE9, CHR 0x93, CHR 0xBE, CHR 0xEF, CHR 0xBC, CHR 0x8C, CHR 0xE5, CHR 0x8C, CHR 0x85, CHR 0xE5, CHR 0x90, CHR 0xAB] @ '' rustc ('' @ [CHR 0xE7, CHR 0xBC, CHR 0x96, CHR 0xE8, CHR 0xAF, CHR 0x91, CHR 0xE5, CHR 0x99, CHR 0xA8] @ ''), rust-std ('' @ [CHR 0xE6, CHR 0xA0, CHR 0x87, CHR 0xE5, CHR 0x87, CHR 0x86, CHR 0xE5, CHR 0xBA, CHR 0x93] @ ''), cargo ('' @ [CHR 0xE5, CHR 0x8C, CHR 0x85, CHR 0xE7, CHR 0xAE, CHR 0xA1, CHR 0xE7, CHR 0x90, CHR 0x86] @ '') '' @ [CHR 0xE7, CHR 0xAD, CHR 0x89, CHR 0xE5, CHR 0xB7, CHR 0xA5, CHR 0xE5, CHR 0x85, CHR 0xB7])),
        (''name'', TString ''minimal''),
        (''verbose-name'', TString (''Rust '' @ [CHR 0xE5, CHR 0xAE, CHR 0x98, CHR 0xE6, CHR 0x96, CHR 0xB9, CHR 0xE5, CHR 0xB7, CHR 0xA5, CHR 0xE5, CHR 0x85, CHR 0xB7]))])]"

definition online_descriptions :: toml where
  "online_descriptions =
    TTable [
      (''cargo-nextest'', TString ([CHR 0xE6, CHR 0x96, CHR 0xB0, CHR 0xE4, CHR 0xB8, CHR 0x80, CHR 0xE4, CHR 0xBB, CHR 0xA3] @ '' Rust '' @ [CHR 0xE9, CHR 0xA1, CHR 0xB9, CHR 0xE7, CHR 0x9B, CHR 0xAE, CHR 0xE6, CHR 0xB5, CHR 0x8B, CHR 0xE8, CHR 0xAF, CHR 0x95, CHR 0xE8, CHR 0xBF, CHR 0x90, CHR 0xE8, CHR 0xA1, CHR 0x8C, CHR 0xE7, CHR 0xA8, CHR 0x8B, CHR 0xE5, CHR 0xBA, CHR 0x8F, CHR 0xEF, CHR 0xBC, CHR 0x8C, CHR 0xE7, CHR 0x9B, CHR 0xB8, CHR 0xE6, CHR 0xAF, CHR 0x94, CHR 0xE4, CHR 0xBC, CHR 0xA0, CHR 0xE7, CHR 0xBB, CHR 0x9F] @ '' cargo test '' @ [CHR 0xE8, CHR 0x80, CHR 0x8C, CHR 0xE8, CHR 0xA8, CHR 0x80, CHR 0xE6, CHR 0x9B, CHR 0xB4, CHR 0xE5, CHR 0xBF, CHR 0xAB, CHR 0xE9, CHR 0x80, CHR 0x9F, CHR 0xEF, CHR 0xBC, CHR 0x8C, CHR 0xE7, CHR 0x95, CHR 0x8C, CHR 0xE9, CHR 0x9D, CHR 0xA2, CHR 0xE6, CHR 0x9B, CHR 0xB4, CHR 0xE7, CHR 0xAE, CHR 0x80, CHR 0xE6, CHR 0xB4, CHR 0x81, CHR 0xE6, CHR 0x98, CHR 0x8E, CHR 0xE4, CHR 0xBA, CHR 0x86])),
      (''llvm-tools'', TString ([CHR 0xE5, CHR 0x8C, CHR 0x85, CHR 0xE5, CHR 0x90, CHR 0xAB] @ '' LLVM '' @ [CHR 0xE5, CHR 0xB7, CHR 0xA5, CHR 0xE5, CHR 0x85, CHR 0xB7, CHR 0xE7, CHR 0x9A, CHR 0x84, CHR 0xE9, CHR 0x9B, CHR 0x86, CHR 0xE5, CHR 0x90, CHR 0x88])),
      (''mingw64'', TString ([CHR 0xE7, CHR 0xBC, CHR 0x96, CHR 0xE8, CHR 0xAF, CHR 0x91, CHR 0xE5, CHR 0x99, CHR 0xA8, CHR 0xE5, CHR 0x9C, CHR 0xA8] @ '' x86_64 Windows GNU '' @ [CHR 0xE7, CHR 0x8E, CHR 0xAF, CHR 0xE5, CHR 0xA2, CHR 0x83, CHR 0xE4, CHR 0xB8, CHR 0x8B, CHR 0xE7, CHR 0x9A, CHR 0x84, CHR 0xE4, CHR 0xBE, CHR 0x9D, CHR 0xE8, CHR 0xB5, CHR 0x96, CHR 0xE7, CHR 0xBB, CHR 0x84, CHR 0xE4, CHR 0xBB, CHR 0xB6])),
      (''rust-docs'', TString ([CHR 0xE6, CHR 0x9C, CHR 0xAC, CHR 0xE5, CHR 0x9C, CHR 0xB0] @ '' Rust '' @ [CHR 0xE6, CHR 0x96, CHR 0x87, CHR 0xE6, CHR 0xA1, CHR 0xA3, CHR 0xE5, CHR 0x89, CHR 0xAF, CHR 0xE6, CHR 0x9C, CHR 0xAC, CHR 0xEF, CHR 0xBC, CHR 0x8C, CHR 0xE5, CHR 0x85, CHR 0x81, CHR 0xE8, CHR 0xAE, CHR 0xB8, CHR 0xE7, CHR 0x94, CHR 0xA8, CHR 0xE6, CHR 0x88, CHR 0xB7, CHR 0xE4, CHR 0xBD, CHR 0xBF, CHR 0xE7, CHR 0x94, CHR 0xA8] @ '' rustup doc '' @ [CHR 0xE5, CHR 0x91, CHR 0xBD, CHR 0xE4, CHR 0xBB, CHR 0xA4, CHR 0xE5, CHR 0x9C, CHR 0xA8] @ '' Web '' @ [CHR 0xE6, CHR 0xB5, CHR 0x8F, CHR 0xE8, CHR 0xA7, CHR 0x88, CHR 0xE5, CHR 0x99, CHR 0xA8, CHR 0xE4, CHR 0xB8, CHR 0xAD, CHR 0xE6, CHR 0x89, CHR 0x93, CHR 0xE5, CHR 0xBC, CHR 0x80, CHR 0xE6, CHR 0x96, CHR 0x87, CHR 0xE6, CHR 0xA1, CHR 0xA3])),
      (''rustc-dev'', TString ([CHR 0xE5, CHR 0xB0, CHR 0x86, CHR 0xE7, CHR 0xBC, CHR 0x96, CHR 0xE8, CHR 0xAF, CHR 0x91, CHR 0xE5, CHR 0x99, CHR 0xA8, CHR 0xE4, CHR 0xBD, CHR 0x9C, CHR 0xE4, CHR 0xB8, CHR 0xBA, CHR 0xE5, CHR 0xBA, CHR 0x93, CHR 0xE6, CHR 0x9D, CHR 0xA5, CHR 0xE5, CHR 0x86, CHR 0x85, CHR 0xE9, CHR 0x83, CHR 0xA8] @ '' API'' @ [CHR 0xE3, CHR 0x80, CHR 0x82, CHR 0xE5, CHR 0xA4, CHR 0xA7, CHR 0xE5, CHR 0xA4, CHR 0x9A, CHR 0xE6, CHR 0x95, CHR 0xB0, CHR 0xE7, CHR 0x94, CHR 0xA8, CHR 0xE6, CHR 0x88, CHR 0xB7, CHR 0xE4, CHR 0xB8, CHR 0x8D, CHR 0xE9, CHR 0x9C, CHR 0x80, CHR 0xE8, CHR 0xA6, CHR 0x81, CHR 0xE8, CHR 0xBF, CHR 0x99, CHR 0xE4, CHR 0xB8, CHR 0xAA] @ ''; '' @ [CHR 0xE4, CHR 0xBB, CHR 0x85, CHR 0xE5, CHR 0xBD, CHR 0x93, CHR 0xE5, CHR 0xBC, CHR 0x80, CHR 0xE5, CHR 0x8F, CHR 0x91, CHR 0xE9, CHR 0x93, CHR 0xBE, CHR 0xE6, CHR 0x8E, CHR 0xA5, CHR 0xE5, CHR 0x88, CHR 0xB0, CHR 0xE7, CHR 0xBC, CHR 0x96, CHR 0xE8, CHR 0xAF, CHR 0x91, CHR 0xE5, CHR 0x99, CHR 0xA8, CHR 0xE7, CHR 0x9A, CHR 0x84, CHR 0xE5, CHR 0xB7, CHR 0xA5, CHR 0xE5, CHR 0x85, CHR 0xB7, CHR 0xE6, CHR 0x97, CHR 0xB6, CHR 0xE6, CHR 0x89, CHR 0x8D, CHR 0xE9, CHR 0x9C, CHR 0x80, CHR 0xE8, CHR 0xA6, CHR 0x81, CHR 0xE5, CHR 0xAE, CHR 0x83] @ '', '' @ [CHR 0xE4, CHR 0xBE, CHR 0x8B, CHR 0xE5, CHR 0xA6, CHR 0x82, CHR 0xE5, CHR 0xAF, CHR 0xB9] @ '' Clippy '' @ [CHR 0xE8, CHR 0xBF, CHR 0x9B, CHR 0xE8, CHR 0xA1, CHR 0x8C, CHR 0xE4, CHR 0xBF, CHR 0xAE, CHR 0xE6, CHR 0x94, CHR 0xB9])),
      (''typos'', TString [CHR 0xE6, CHR 0xBA, CHR 0x90, CHR 0xE4, CHR 0xBB, CHR 0xA3, CHR 0xE7, CHR 0xA0, CHR 0x81, CHR 0xE6, CHR 0x8B, CHR 0xBC, CHR 0xE5, CHR 0x86, CHR 0x99, CHR 0xE6, CHR 0xA3, CHR 0x80, CHR 0xE6, CHR 0x9F, CHR 0xA5, CHR 0xE5, CHR 0x99, CHR 0xA8, CHR 0xEF, CHR 0xBC, CHR 0x8C, CHR 0xE7, CHR 0x94, CHR 0xA8, CHR 0xE4, CHR 0xBA, CHR 0x8E, CHR 0xE6, CHR 0x9F, CHR 0xA5, CHR 0xE6, CHR 0x89, CHR 0xBE, CHR 0xE5, CHR 0xB9, CHR 0xB6, CHR 0xE7, CHR 0xBA, CHR 0xA0, CHR 0xE6, CHR 0xAD, CHR 0xA3, CHR 0xE6, CHR 0xBA, CHR 0x90, CHR 0xE4, CHR 0xBB, CHR 0xA3, CHR 0xE7, CHR 0xA0, CHR 0x81, CHR 0xE4, CHR 0xB8, CHR 0xAD, CHR 0xE7, CHR 0x9A, CHR 0x84, CHR 0xE6, CHR 0x8B, CHR 0xBC, CHR 0xE5, CHR 0x86, CHR 0x99, CHR 0xE9, CHR 0x94, CHR 0x99, CHR 0xE8, CHR 0xAF, CHR 0xAF]),
      (''vscode'', TString (''Visual Studio Code ('' @ [CHR 0xE7, CHR 0xAE, CHR 0x80, CHR 0xE7, CHR 0xA7, CHR 0xB0] @ '' VS Code) '' @ [CHR 0xE5, CHR 0xB0, CHR 0x86, CHR 0xE4, CHR 0xBB, CHR 0xA3, CHR 0xE7, CHR 0xA0, CHR 0x81, CHR 0xE7, CHR 0xBC, CHR 0x96, CHR 0xE8, CHR 0xBE, CHR 0x91, CHR 0xE5, CHR 0x99, CHR 0xA8, CHR 0xE7, CHR 0x9A, CHR 0x84, CHR 0xE7, CHR 0xAE, CHR 0x80, CHR 0xE6, CHR 0xB4, CHR 0x81, CHR 0xE6, CHR 0x80, CHR 0xA7, CHR 0xE4, CHR 0xB8, CHR 0x8E, CHR 0xE5, CHR 0xBC, CHR 0x80, CHR 0xE5, CHR 0x8F, CHR 0x91, CHR 0xE8, CHR 0x80, CHR 0x85, CHR 0xE6, CHR 0xA0, CHR 0xB8, CHR 0xE5, CHR 0xBF, CHR 0x83, CHR 0xE7, CHR 0x9A, CHR 0x84] @ '' '' @ [CHR 0xE7, CHR 0xBC, CHR 0x96, CHR 0xE8, CHR 0xBE, CHR 0x91] @ ''-'' @ [CHR 0xE6, CHR 0x9E, CHR 0x84, CHR 0xE5, CHR 0xBB, CHR 0xBA] @ ''-'' @ [CHR 0xE8, CHR 0xB0, CHR 0x83, CHR 0xE8, CHR 0xAF, CHR 0x95] @ '' '' @ [CHR 0xE6, CHR 0xB5, CHR 0x81, CHR 0xE7, CHR 0xA8, CHR 0x8B, CHR 0xE7, CHR 0x9B, CHR 0xB8, CHR 0xE7, CHR 0xBB, CHR 0x93, CHR 0xE5, CHR 0x90, CHR 0x88, CHR 0xE3, CHR 0x80, CHR 0x82, CHR 0xE5, CHR 0xAE, CHR 0x83, CHR 0xE6, CHR 0x8F, CHR 0x90, CHR 0xE4, CHR 0xBE, CHR 0x9B, CHR 0xE5, CHR 0x85, CHR 0xA8, CHR 0xE9, CHR 0x9D, CHR 0xA2, CHR 0xE7, CHR 0x9A, CHR 0x84, CHR 0xE4, CHR 0xBB, CHR 0xA3, CHR 0xE7, CHR 0xA0, CHR 0x81, CHR 0xE7, CHR 0xBC, CHR 0x96, CHR 0xE8, CHR 0xBE, CHR 0x91, CHR 0xE3, CHR 0x80, CHR 0x81, CHR 0xE5, CHR 0xAF, CHR 0xBC, CHR 0xE8, CHR 0x88, CHR 0xAA, CHR 0xE5, CHR 0x92, CHR 0x8C, CHR 0xE7, CHR 0x90, CHR 0x86, CHR 0xE8, CHR 0xA7, CHR 0xA3, CHR 0xE6, CHR 0x94, CHR 0xAF, CHR 0xE6, CHR 0x8C, CHR 0x81, CHR 0xEF, CHR 0xBC, CHR 0x8C, CHR 0xE5, CHR 0x90, CHR 0x8C, CHR 0xE6, CHR 0x97, CHR 0xB6, CHR 0xE5, CHR 0x85, CHR 0xB7, CHR 0xE5, CHR 0xA4, CHR 0x87, CHR 0xE8, CHR 0xBD, CHR 0xBB, CHR 0xE9, CHR 0x87, CHR 0x8F, CHR 0xE7, CHR 0xBA, CHR 0xA7, CHR 0xE8, CHR 0xB0, CHR 0x83, CHR 0xE8, CHR 0xAF, CHR 0x95, CHR 0xE5, CHR 0x8A, CHR 0x9F, CHR 0xE8, CHR 0x83, CHR 0xBD, CHR 0xE3, CHR 0x80, CHR 0x81, CHR 0xE4, CHR 0xB8, CHR 0xB0, CHR 0xE5, CHR 0xAF, CHR 0x8C, CHR 0xE7, CHR 0x9A, CHR 0x84, CHR 0xE6, CHR 0x89, CHR 0xA9, CHR 0xE5, CHR 0xB1, CHR 0x95, CHR 0xE6, CHR 0xA8, CHR 0xA1, CHR 0xE5, CHR 0x9E, CHR 0x8B, CHR 0xEF, CHR 0xBC, CHR 0x8C, CHR 0xE5, CHR 0xB9, CHR 0xB6, CHR 0xE5, CHR 0x8F, CHR 0xAF, CHR 0xE4, CHR 0xB8, CHR 0x8E, CHR 0xE7, CHR 0x8E, CHR 0xB0, CHR 0xE6, CHR 0x9C, CHR 0x89, CHR 0xE5, CHR 0xB7, CHR 0xA5, CHR 0xE5, CHR 0x85, CHR 0xB7, CHR 0xE6, CHR 0x97, CHR 0xA0, CHR 0xE7, CHR 0xBC, CHR 0x9D, CHR 0xE9, CHR 0x9B, CHR 0x86, CHR 0xE6, CHR 0x88, CHR 0x90, CHR 0xEF, CHR 0xBC, CHR 0x8C, CHR 0xE6, CHR 0x8F, CHR 0x90, CHR 0xE5, CHR 0x8D, CHR 0x87, CHR 0xE5, CHR 0xBC, CHR 0x80, CHR 0xE5, CHR 0x8F, CHR 0x91, CHR 0xE6, CHR 0x95, CHR 0x88, CHR 0xE7, CHR 0x8E, CHR 0x87, CHR 0xE3, CHR 0x80, CHR 0x82])),
      ((''vscode-rust-analyzer ('' @ [CHR 0xE6, CHR 0x8F, CHR 0x92, CHR 0xE4, CHR 0xBB, CHR 0xB6] @ '')''), TString (''Rust '' @ [CHR 0xE7, CHR 0xBC, CHR 0x96, CHR 0xE7, CHR 0xA8, CHR 0x8B, CHR 0xE8, CHR 0xAF, CHR 0xAD, CHR 0xE8, CHR 0xA8, CHR 0x80, CHR 0xE7, CHR 0x9A, CHR 0x84] @ '' '' @ [CHR 0xE8, CHR 0xAF, CHR 0xAD, CHR 0xE8, CHR 0xA8, CHR 0x80, CHR 0xE6, CHR 0x9C, CHR 0x8D, CHR 0xE5, CHR 0x8A, CHR 0xA1, CHR 0xE5, CHR 0x99, CHR 0xA8, CHR 0xE5, CHR 0x8D, CHR 0x8F, CHR 0xE8, CHR 0xAE, CHR 0xAE] @ '' (LSP) '' @ [CHR 0xE5, CHR 0xAE, CHR 0x9E, CHR 0xE7, CHR 0x8E, CHR 0xB0, CHR 0xE3, CHR 0x80, CHR 0x82, CHR 0xE4, CHR 0xB8, CHR 0xBA] @ '' VS Code '' @ [CHR 0xE7, CHR 0xBC, CHR 0x96, CHR 0xE8, CHR 0xBE, CHR 0x91, CHR 0xE5, CHR 0x99, CHR 0xA8, CHR 0xE6, CHR 0x8F, CHR 0x90, CHR 0xE4, CHR 0xBE, CHR 0x9B, CHR 0xE4, CHR 0xBB, CHR 0xA3, CHR 0xE7, CHR 0xA0, CHR 0x81, CHR 0xE8, CHR 0xA1, CHR 0xA5, CHR 0xE5, CHR 0x85, CHR 0xA8, CHR 0xE3, CHR 0x80, CHR 0x81, CHR 0xE8, CHR 0xB7, CHR 0xB3, CHR 0xE8, CHR 0xBD, CHR 0xAC, CHR 0xE5, CHR 0x88, CHR 0xB0, CHR 0xE5, CHR 0xAE, CHR 0x9A, CHR 0xE4, CHR 0xB9, CHR 0x89] @ '' '' @ [CHR 0xE7, CHR 0xAD, CHR 0x89, CHR 0xE5, CHR 0x8A, CHR 0x9F, CHR 0xE8, CHR 0x83, CHR 0xBD, CHR 0xEF, CHR 0xBC, CHR 0x8C, CHR 0xE6, CHR 0x8F, CHR 0x90, CHR 0xE5, CHR 0x8D, CHR 0x87] @ '' Rust '' @ [CHR 0xE5, CHR 0xBC, CHR 0x80, CHR 0xE5, CHR 0x8F, CHR 0x91, CHR 0xE4, CHR 0xBD, CHR 0x93, CHR 0xE9, CHR 0xAA, CHR 0x8C, CHR 0xE3, CHR 0x80, CHR 0x82]))]"

definition online_group :: toml where
  "online_group =
    TTable [
      ((''Rust '' @ [CHR 0xE4, CHR 0xBC, CHR 0x98, CHR 0xE9, CHR 0x80, CHR 0x89, CHR 0xE5, CHR 0xB7, CHR 0xA5, CHR 0xE5, CHR 0x85, CHR 0xB7, CHR 0xE9, CHR 0x9B, CHR 0x86]), TArray [TString ''typos'', TString ''cargo-nextest'']),
      ((''Rust '' @ [CHR 0xE5, CHR 0x9F, CHR 0xBA, CHR 0xE7, CHR 0xA1, CHR 0x80, CHR 0xE5, CHR 0xB7, CHR 0xA5, CHR 0xE5, CHR 0x85, CHR 0xB7, CHR 0xE9, CHR 0x9B, CHR 0x86]), TArray [TString ''mingw64'']),
      ((''Rust '' @ [CHR 0xE8, CHR 0xBD, CHR 0xAF, CHR 0xE4, CHR 0xBB, CHR 0xB6, CHR 0xE5, CHR 0xBC, CHR 0x80, CHR 0xE5, CHR 0x8F, CHR 0x91, CHR 0xE5, CHR 0xB7, CHR 0xA5, CHR 0xE5, CHR 0x85, CHR 0xB7, CHR 0xE9, CHR 0x93, CHR 0xBE]), TArray [
        TString ''vscode'',
        TString (''vscode-rust-analyzer ('' @ [CHR 0xE6, CHR 0x8F, CHR 0x92, CHR 0xE4, CHR 0xBB, CHR 0xB6] @ '')'')])]"

definition online_aarch64_unknown_linux_gnu :: toml where
  "online_aarch64_unknown_linux_gnu =
    TTable [
      (''cargo-nextest'', TTable [
        (''optional'', TBoolean True),
        (''url'', TString ''https://rust-mirror.obs.cn-north-4.myhuaweicloud.com/dist/toolset/cargo-nextest/cargo-nextest-0.9.87-aarch64-unknown-linux-gnu.tar.gz''),
        (''version'', TString ''0.9.87'')]),
      (''typos'', TTable [
        (''identifier'', TString ''typos-cli''),
        (''optional'', TBoolean True),
        (''ver'', TString ''1.28.4'')]),
      (''vscode'', TTable [
        (''filename'', TString ''vscode.tar.gz''),
        (''optional'', TBoolean True),
        (''url'', TString ''https://update.code.visualstudio.com/1.97.1/linux-arm64/stable''),
        (''version'', TString ''1.97.1'')]),
      ((''vscode-rust-analyzer ('' @ [CHR 0xE6, CHR 0x8F, CHR 0x92, CHR 0xE4, CHR 0xBB, CHR 0xB6] @ '')''), TTable [
        (''url'', TString ''https://github.com/rust-lang/rust-analyzer/releases/download/2025-02-10/rust-analyzer-linux-arm64.vsix''),
        (''version'', TString ''0.3.2299'')])]"

definition online_aarch64_unknown_linux_musl :: toml where
  "online_aarch64_unknown_linux_musl =
    TTable [
      (''cargo-nextest'', TTable [(''optional'', TBoolean True), (''ver'', TString ''0.9.87'')]),
      (''typos'', TTable [
        (''identifier'', TString ''typos-cli''),
        (''optional'', TBoolean True),
        (''ver'', TString ''1.28.4'')]),
      (''vscode'', TTable [
        (''filename'', TString ''vscode.tar.gz''),
        (''optional'', TBoolean True),
        (''url'', TString ''https://update.code.visualstudio.com/1.97.1/linux-arm64/stable''),
        (''version'', TString ''1.97.1'')]),
      ((''vscode-rust-analyzer ('' @ [CHR 0xE6, CHR 0x8F, CHR 0x92, CHR 0xE4, CHR 0xBB, CHR 0xB6] @ '')''), TTable [
        (''url'', TString ''https://github.com/rust-lang/rust-analyzer/releases/download/2025-02-10/rust-analyzer-linux-arm64.vsix''),
        (''version'', TString ''0.3.2299'')])]"

definition online_x86_64_pc_windows_gnu :: toml where
  "online_x86_64_pc_windows_gnu =
    TTable [
      (''cargo-nextest'', TTable [
        (''optional'', TBoolean True),
        (''url'', TString ''https://rust-mirror.obs.cn-north-4.myhuaweicloud.com/dist/toolset/cargo-nextest/cargo-nextest-0.9.87-x86_64-pc-windows-msvc.zip''),
        (''version'', TString ''0.9.87'')]),
      (''mingw64'', TTable [
        (''required'', TBoolean True),
        (''url'', TString ''https://rust-mirror.obs.cn-north-4.myhuaweicloud.com/dist/toolset/x86_64-14.2.0-release-posix-seh-ucrt-rt_v12-rev0.7z''),
        (''version'', TString ''14.2.0-rt_v12-rev0'')]),
      (''typos'', TTable [
        (''optional'', TBoolean True),
        (''url'', TString ''https://rust-mirror.obs.cn-north-4.myhuaweicloud.com/dist/toolset/typos/typos-v1.28.4-x86_64-pc-windows-msvc.zip''),
        (''version'', TString ''1.28.4'')]),
      (''vscode'', TTable [
        (''filename'', TString ''vscode.zip''),
        (''url'', TString ''https://update.code.visualstudio.com/1.97.1/win32-x64-archive/stable''),
        (''version'', TString ''1.97.1'')]),
      ((''vscode-rust-analyzer ('' @ [CHR 0xE6, CHR 0x8F, CHR 0x92, CHR 0xE4, CHR 0xBB, CHR 0xB6] @ '')''), TTable [
        (''url'', TString ''https://github.com/rust-lang/rust-analyzer/releases/download/2025-02-10/rust-analyzer-win32-x64.vsix''),
        (''version'', TString ''0.3.2299'')])]"

definition online_x86_64_pc_windows_msvc :: toml where
  "online_x86_64_pc_windows_msvc =
    TTable [
      (''cargo-nextest'', TTable [
        (''optional'', TBoolean True),
        (''url'', TString ''https://rust-mirror.obs.cn-north-4.myhuaweicloud.com/dist/toolset/cargo-nextest/cargo-nextest-0.9.87-x86_64-pc-windows-msvc.zip''),
        (''version'', TString ''0.9.87'')]),
      (''typos'', TTable [
        (''optional'', TBoolean True),
        (''url'', TString ''https://rust-mirror.obs.cn-north-4.myhuaweicloud.com/dist/toolset/typos/typos-v1.28.4-x86_64-pc-windows-msvc.zip''),
        (''version'', TString ''1.28.4'')]),
      (''vscode'', TTable [
        (''filename'', TString ''vscode.zip''),
        (''url'', TString ''https://update.code.visualstudio.com/1.97.1/win32-x64-archive/stable''),
        (''version'', TString ''1.97.1'')]),
      ((''vscode-rust-analyzer ('' @ [CHR 0xE6, CHR 0x8F, CHR 0x92, CHR 0xE4, CHR 0xBB, CHR 0xB6] @ '')''), TTable [
        (''url'', TString ''https://github.com/rust-lang/rust-analyzer/releases/download/2025-02-10/rust-analyzer-win32-x64.vsix''),
        (''version'', TString ''0.3.2299'')])]"

definition online_x86_64_unknown_linux_gnu :: toml where
  "online_x86_64_unknown_linux_gnu =
    TTable [
      (''cargo-nextest'', TTable [
        (''optional'', TBoolean True),
        (''url'', TString ''https://rust-mirror.obs.cn-north-4.myhuaweicloud.com/dist/toolset/cargo-nextest/cargo-nextest-0.9.87-x86_64-unknown-linux-gnu.tar.gz''),
        (''version'', TString ''0.9.87'')]),
      (''typos'', TTable [
        (''optional'', TBoolean True),
        (''url'', TString ''https://rust-mirror.obs.cn-north-4.myhuaweicloud.com/dist/toolset/typos/typos-v1.28.4-x86_64-unknown-linux-musl.tar.gz''),
        (''version'', TString ''1.28.4'')]),
      (''vscode'', TTable [
        (''filename'', TString ''vscode.tar.gz''),
        (''optional'', TBoolean True),
        (''url'', TString ''https://update.code.visualstudio.com/1.97.1/linux-x64/stable''),
        (''version'', TString ''1.97.1'')]),
      ((''vscode-rust-analyzer ('' @ [CHR 0xE6, CHR 0x8F, CHR 0x92, CHR 0xE4, CHR 0xBB, CHR 0xB6] @ '')''), TTable [
        (''url'', TString ''https://github.com/rust-lang/rust-analyzer/releases/download/2025-02-10/rust-analyzer-linux-x64.vsix''),
        (''version'', TString ''0.3.2299'')])]"

definition online_x86_64_unknown_linux_musl :: toml where
  "online_x86_64_unknown_linux_musl =
    TTable [
      (''cargo-nextest'', TTable [(''optional'', TBoolean True), (''ver'', TString ''0.9.87'')]),
      (''typos'', TTable [
        (''optional'', TBoolean True),
        (''url'', TString ''https://rust-mirror.obs.cn-north-4.myhuaweicloud.com/dist/toolset/typos/typos-v1.28.4-x86_64-unknown-linux-musl.tar.gz''),
        (''version'', TString ''1.28.4'')]),
      (''vscode'', TTable [
        (''filename'', TString ''vscode.tar.gz''),
        (''optional'', TBoolean True),
        (''url'', TString ''https://update.code.visualstudio.com/1.97.1/linux-x64/stable''),
        (''version'', TString ''1.97.1'')]),
      ((''vscode-rust-analyzer ('' @ [CHR 0xE6, CHR 0x8F, CHR 0x92, CHR 0xE4, CHR 0xBB, CHR 0xB6] @ '')''), TTable [
        (''url'', TString ''https://github.com/rust-lang/rust-analyzer/releases/download/2025-02-10/rust-analyzer-linux-x64.vsix''),
        (''version'', TString ''0.3.2299'')])]"

definition online_target :: toml where
  "online_target =
    TTable [
      (''aarch64-unknown-linux-gnu'', online_aarch64_unknown_linux_gnu),
      (''aarch64-unknown-linux-musl'', online_aarch64_unknown_linux_musl),
      (''x86_64-pc-windows-gnu'', online_x86_64_pc_windows_gnu),
      (''x86_64-pc-windows-msvc'', online_x86_64_pc_windows_msvc),
      (''x86_64-unknown-linux-gnu'', online_x86_64_unknown_linux_gnu),
      (''x86_64-unknown-linux-musl'', online_x86_64_unknown_linux_musl)]"

definition online_community :: toml where
  "online_community =
    TTable [
      (''name'', TString (''Rust '' @ [CHR 0xE4, CHR 0xB8, CHR 0xAD, CHR 0xE5, CHR 0x9B, CHR 0xBD, CHR 0xE7, CHR 0xA4, CHR 0xBE, CHR 0xE5, CHR 0x8C, CHR 0xBA, CHR 0xE4, CHR 0xB8, CHR 0x80, CHR 0xE7, CHR 0xAB, CHR 0x99, CHR 0xE5, CHR 0xBC, CHR 0x8F, CHR 0xE5, CHR 0xBC, CHR 0x80, CHR 0xE5, CHR 0x8F, CHR 0x91, CHR 0xE5, CHR 0xA5, CHR 0x97, CHR 0xE4, CHR 0xBB, CHR 0xB6])),
      (''version'', TString ''stable v1.84.1''),
      (''rust'', online_rust),
      (''tools'', TTable [
        (''descriptions'', online_descriptions),
        (''group'', online_group),
        (''target'', online_target)])]"

section \<open>Reading the documents\<close>

subsection \<open>Tool tables\<close>

text \<open>
  A manifest keeps one table per target triple under \<open>tools.target\<close>, and in it one
  entry per component. The master file keeps the same tables per toolkit under
  \<open>toolkit.<name>.value.tools.target\<close>.
\<close>

definition tool_tables :: "toml \<Rightarrow> (string \<times> toml) list" where
  "tool_tables m = (case at_path m [''tools'', ''target''] of Some t \<Rightarrow> entries t | None \<Rightarrow> [])"

definition tool_entry :: "toml \<Rightarrow> string \<Rightarrow> string \<Rightarrow> toml option" where
  "tool_entry m T c = at_path m [''tools'', ''target'', T, c]"

definition master_tables :: "string \<Rightarrow> (string \<times> toml) list" where
  "master_tables tk =
     (case at_path toolkits [''toolkit'', tk, ''value'', ''tools'', ''target''] of
        Some t \<Rightarrow> entries t | None \<Rightarrow> [])"

definition master_entry :: "string \<Rightarrow> string \<Rightarrow> string \<Rightarrow> toml option" where
  "master_entry tk T c = at_path toolkits [''toolkit'', tk, ''value'', ''tools'', ''target'', T, c]"

text \<open>
  The same tables with every entry as the list of its fields, in the order of the file,
  and the table of one target, which is empty when the toolkit declares none for it.
\<close>

type_synonym fields = "(string \<times> toml) list"

definition declared_tables :: "string \<Rightarrow> (string \<times> (string \<times> fields) list) list" where
  "declared_tables tk =
     map (\<lambda>(T, tbl). (T, map (\<lambda>(c, e). (c, entries e)) (entries tbl))) (master_tables tk)"

definition declared_table :: "string \<Rightarrow> string \<Rightarrow> (string \<times> fields) list" where
  "declared_table tk T = (case map_of (declared_tables tk) T of Some tbl \<Rightarrow> tbl | None \<Rightarrow> [])"

subsection \<open>The target catalog and the shared component list\<close>

text \<open>
  A target of \<open>config.targets\<close> is a triple, or a table with a \<open>triple\<close> key. A component
  of \<open>config.components\<close> is a name, or a table with a \<open>name\<close> and, optionally, a list of
  \<open>excluded-targets\<close> and a \<open>wildcard-target\<close> flag.
\<close>

fun target_triple :: "toml \<Rightarrow> string option" where
  "target_triple (TString t) = Some t"
| "target_triple v = (case field v ''triple'' of Some (TString t) \<Rightarrow> Some t | _ \<Rightarrow> None)"

definition declared_targets :: "string list" where
  "declared_targets =
     (case field config ''targets'' of
        Some a \<Rightarrow> List.map_filter target_triple (elements a) | None \<Rightarrow> [])"

definition catalog :: "toml list" where
  "catalog = (case field config ''components'' of Some a \<Rightarrow> elements a | None \<Rightarrow> [])"

fun component_name :: "toml \<Rightarrow> string option" where
  "component_name (TString n) = Some n"
| "component_name c = (case field c ''name'' of Some (TString n) \<Rightarrow> Some n | _ \<Rightarrow> None)"

definition excluded_targets :: "toml \<Rightarrow> string list" where
  "excluded_targets c = strings_at c [''excluded-targets'']"

definition wildcard_target :: "toml \<Rightarrow> bool" where
  "wildcard_target c = (field c ''wildcard-target'' = Some (TBoolean True))"

subsection \<open>The artifacts of cargo-nextest\<close>

definition windows_nextest_url :: string where
  "windows_nextest_url = ''https://rust-mirror.obs.cn-north-4.myhuaweicloud.com/dist/toolset/cargo-nextest/cargo-nextest-0.9.87-x86_64-pc-windows-msvc.zip''"

definition linux_nextest_url :: string where
  "linux_nextest_url = ''https://rust-mirror.obs.cn-north-4.myhuaweicloud.com/dist/toolset/cargo-nextest/cargo-nextest-0.9.87-x86_64-unknown-linux-gnu.tar.gz''"

subsection \<open>Resolution strategies, bootstrap installers, shared blocks, order\<close>

text \<open>
  An entry is fetched when it has a \<open>version\<close> and a location (\<open>url\<close> online, \<open>path\<close>
  offline); it is resolved from the package registry when it has a \<open>ver\<close> and no
  location of either kind.
\<close>

definition fetched :: "string \<Rightarrow> toml \<Rightarrow> bool" where
  "fetched location e = (has e ''version'' \<and> has e location)"

definition from_registry :: "toml \<Rightarrow> bool" where
  "from_registry e = (has e ''ver'' \<and> \<not> has e ''url'' \<and> \<not> has e ''path'')"

text \<open>The local path of the bootstrap installer of a target: an \<open>.exe\<close> on Windows.\<close>

definition rustup_init :: "string \<Rightarrow> string" where
  "rustup_init T = ''tools/rustup-init'' @ (if sublist ''windows'' T then ''.exe'' else [])"

text \<open>The parts of a manifest that do not depend on the mode.\<close>

definition shared_paths :: "string list list" where
  "shared_paths =
    [[''name''], [''version''],
     [''rust'', ''components''], [''rust'', ''group''], [''rust'', ''version''],
     [''rust'', ''optional-components''], [''rust'', ''profile''],
     [''tools'', ''descriptions''], [''tools'', ''group'']]"

definition agree_at :: "string list \<Rightarrow> bool" where
  "agree_at p = (at_path offline_community p \<noteq> None \<and>
                 at_path offline_community p = at_path online_community p)"

text \<open>
  Keys in strictly ascending lexicographic order of their bytes. Tool tables are in
  canonical order when the target triples are, and the component keys of every target.
  Two lists of keyed entries are rearrangements of each other when neither repeats a key
  and both hold the same entries.
\<close>

definition ordered_keys :: "(string \<times> toml) list \<Rightarrow> bool" where
  "ordered_keys kvs = sorted_wrt (<) (map fst kvs)"

definition canonical_tables :: "(string \<times> toml) list \<Rightarrow> bool" where
  "canonical_tables ts =
     (ordered_keys ts \<and> list_all (\<lambda>(T, tbl). ordered_keys (entries tbl)) ts)"

definition rearranged :: "(string \<times> 'a) list \<Rightarrow> (string \<times> 'a) list \<Rightarrow> bool" where
  "rearranged xs ys = (distinct (map fst xs) \<and> distinct (map fst ys) \<and> set xs = set ys)"

section \<open>From the master file to the manifests\<close>

text \<open>
  The master file says that it is used to generate the manifest of each toolkit and to
  fetch the packages of the offline version (the \<open>cargo dev\<close> command). That program
  is not among the sources: only its input, the master file, and its output for the
  community toolkit, the two manifests, are. Its parts are therefore taken from the
  specification: the data model (section 3), the loader (4.1 and 6), the resolver (4.2),
  the locator and the path map of the vendoring run (4.3) and the emitter (4.4).
\<close>

subsection \<open>Data model\<close>

text \<open>
  Modelled from the spec: the \<open>Component\<close> record of the missing loader. A component has
  an opaque identity key, a default field set (\<open>version\<close>, \<open>required\<close>, \<open>optional\<close>), it
  may carry a wildcard flag (it applies to every target) and an exclusion list (the
  target triples it must never apply to).
\<close>

record component =
  identity :: string
  defaults :: fields
  wildcard :: bool
  exclusions :: "string list"

text \<open>
  Modelled from the spec: the \<open>ToolkitEdition\<close> record of the missing loader with its
  \<open>TargetOverride\<close> records. A toolkit has a name, a required and an optional component
  list, and override tables keyed by target triple and component, each a partial field
  set.
\<close>

record toolkit =
  edition :: string
  required :: "string list"
  optional :: "string list"
  overrides :: "(string \<times> (string \<times> fields) list) list"

text \<open>
  Modelled from the spec: the \<open>ResolutionError\<close> of the missing resolver, reported with
  the toolkit, the target and the component identity.
\<close>

datatype error = ResolutionError string string string

subsection \<open>Loader\<close>

text \<open>
  Modelled from the spec: the default field set of a component, the fields \<open>version\<close>,
  \<open>required\<close> and \<open>optional\<close> of its declaration (the loader is missing).
\<close>

definition default_keys :: "string list" where
  "default_keys = [''version'', ''required'', ''optional'']"

text \<open>
  Modelled from the spec: the missing loader on one entry of the shared component list
  \<open>config.components\<close>. The identity is the name, the exclusion list the
  \<open>excluded-targets\<close> and the wildcard flag the \<open>wildcard-target\<close> of the entry.
\<close>

definition load_component :: "toml \<Rightarrow> component option" where
  "load_component c =
     map_option
       (\<lambda>n. \<lparr>identity = n,
             defaults = filter (\<lambda>(k, v). k \<in> set default_keys) (entries c),
             wildcard = wildcard_target c,
             exclusions = excluded_targets c\<rparr>)
       (component_name c)"

text \<open>
  Modelled from the spec: the shared catalog the missing loader builds from the master
  file.
\<close>

definition shared_catalog :: "component list" where
  "shared_catalog = List.map_filter load_component catalog"

text \<open>
  Modelled from the spec: the missing loader on one \<open>toolkit.<name>\<close> block. The
  component lists are \<open>components\<close> and \<open>optional-components\<close> of its \<open>rust\<close> block, the
  override tables its \<open>tools.target.<triple>.<component>\<close> tables.
\<close>

definition load_toolkit :: "string \<Rightarrow> toolkit" where
  "load_toolkit tk =
     \<lparr>edition = tk,
      required = strings_at toolkits [''toolkit'', tk, ''value'', ''rust'', ''components''],
      optional = strings_at toolkits [''toolkit'', tk, ''value'', ''rust'', ''optional-components''],
      overrides = declared_tables tk\<rparr>"

subsection \<open>Resolver\<close>

text \<open>
  Modelled from the spec: step 1 of the missing resolver, the selected set of a toolkit,
  which is the union of its required and optional component lists plus the
  wildcard-flagged components of the shared catalog.
\<close>

definition selected :: "component list \<Rightarrow> toolkit \<Rightarrow> string list" where
  "selected cat tk = remdups (required tk @ optional tk @ map identity (filter wildcard cat))"

text \<open>
  Modelled from the spec: the test of step 2 of the missing resolver, whether the
  exclusion list of a component contains the target.
\<close>

definition excluded_for :: "component list \<Rightarrow> string \<Rightarrow> string \<Rightarrow> bool" where
  "excluded_for cat T c = list_ex (\<lambda>k. identity k = c \<and> T \<in> set (exclusions k)) cat"

text \<open>
  Modelled from the spec: step 3 of the missing resolver, the default field set a
  component starts from (empty for a name the catalog does not declare).
\<close>

definition default_fields :: "component list \<Rightarrow> string \<Rightarrow> fields" where
  "default_fields cat c =
     (case find (\<lambda>k. identity k = c) cat of Some k \<Rightarrow> defaults k | None \<Rightarrow> [])"

text \<open>
  Modelled from the spec: step 4 of the missing resolver, the field-by-field merge.
  Override fields replace, unspecified fields keep the default, and the fields only the
  override has are added.
\<close>

definition merge :: "fields \<Rightarrow> fields \<Rightarrow> fields" where
  "merge d ov =
     map (\<lambda>(f, v). (f, case map_of ov f of Some w \<Rightarrow> w | None \<Rightarrow> v)) d @
     filter (\<lambda>(f, w). f \<notin> set (map fst d)) ov"

text \<open>
  Modelled from the spec: the override objects of a toolkit for one target (the resolver
  is missing).
\<close>

definition overrides_for :: "toolkit \<Rightarrow> string \<Rightarrow> (string \<times> fields) list" where
  "overrides_for tk T = (case map_of (overrides tk) T of Some ovs \<Rightarrow> ovs | None \<Rightarrow> [])"

text \<open>
  Modelled from the spec: the merged field set of a selected component for one target,
  steps 3 and 4 of the missing resolver together.
\<close>

definition merged :: "component list \<Rightarrow> (string \<times> fields) list \<Rightarrow> string \<Rightarrow> fields" where
  "merged cat ovs c =
     merge (default_fields cat c) (case map_of ovs c of Some ov \<Rightarrow> ov | None \<Rightarrow> [])"

text \<open>
  Modelled from the spec: the required/excluded conflict the missing loader defers to the
  resolver, a component that declares itself required and has the target in its own
  exclusion list.
\<close>

definition conflicting :: "component list \<Rightarrow> (string \<times> fields) list \<Rightarrow> string \<Rightarrow> string \<Rightarrow> bool" where
  "conflicting cat ovs T c =
     (excluded_for cat T c \<and> map_of (merged cat ovs c) ''required'' = Some (TBoolean True))"

text \<open>
  Modelled from the spec: the missing resolver. Given one toolkit and one target triple
  it produces one resolved tool table: it starts from the selected set, removes every
  component whose exclusion list contains the target, merges the override of the target
  into the default field set of each remaining component, and records the merged field
  set under the identity of the component. A dangling override, one that refers to a
  component outside the selected set, and a required/excluded conflict are a
  \<open>ResolutionError\<close>, reported with the toolkit, the target and the component, which
  ends the resolution of this pair of toolkit and target.
\<close>

definition resolve :: "component list \<Rightarrow> toolkit \<Rightarrow> string \<Rightarrow> error + (string \<times> fields) list" where
  "resolve cat tk T =
     (let sel = selected cat tk; ovs = overrides_for tk T in
      case find (\<lambda>(c, ov). c \<notin> set sel) ovs of
        Some (c, ov) \<Rightarrow> Inl (ResolutionError (edition tk) T c)
      | None \<Rightarrow>
          (case find (conflicting cat ovs T) sel of
             Some c \<Rightarrow> Inl (ResolutionError (edition tk) T c)
           | None \<Rightarrow>
               Inr (map (\<lambda>c. (c, merged cat ovs c))
                      (filter (\<lambda>c. \<not> excluded_for cat T c) sel))))"

text \<open>
  Modelled from the spec: the run of the missing resolver over a list of targets. A
  failed pair of toolkit and target gives no table; the other pairs continue.
\<close>

definition resolved_tables ::
  "component list \<Rightarrow> toolkit \<Rightarrow> string list \<Rightarrow> (string \<times> (string \<times> fields) list) list" where
  "resolved_tables cat tk targets =
     concat (map (\<lambda>T. case resolve cat tk T of Inr tbl \<Rightarrow> [(T, tbl)] | Inl e \<Rightarrow> []) targets)"

subsection \<open>Locator\<close>

text \<open>
  Modelled from the spec: the stable name the missing locator derives from a URL, its
  final path segment.
\<close>

definition last_segment :: "string \<Rightarrow> string" where
  "last_segment u = rev (takeWhile (\<lambda>c. c \<noteq> CHR ''/'') (rev u))"

text \<open>
  Modelled from the spec: the canonical name of the missing locator. If \<open>filename\<close> is
  given, it is used; otherwise the name is derived from the URL.
\<close>

definition cache_name :: "toml \<Rightarrow> string \<Rightarrow> string" where
  "cache_name e u = (case field e ''filename'' of Some (TString f) \<Rightarrow> f | _ \<Rightarrow> last_segment u)"

text \<open>
  Modelled from the spec: the canonical local cache path of the missing locator, the
  canonical name under the cache directory.
\<close>

definition local_path :: "string \<Rightarrow> fields \<Rightarrow> string \<Rightarrow> string" where
  "local_path cache fs u = cache @ ''/'' @ cache_name (TTable fs) u"

text \<open>
  Modelled from the spec: the path map of a run of the missing orchestrator in which
  every fetch succeeds, from the identity of each component whose resolved entry carries
  a \<open>url\<close> to its local path. The path map of any run is a part of it: a component
  whose fetch failed has no entry.
\<close>

definition locate :: "string \<Rightarrow> (string \<times> fields) list \<Rightarrow> (string \<rightharpoonup> string)" where
  "locate cache tbl c =
     (case map_of tbl c of
        Some fs \<Rightarrow>
          (case map_of fs ''url'' of Some (TString u) \<Rightarrow> Some (local_path cache fs u) | _ \<Rightarrow> None)
      | None \<Rightarrow> None)"

text \<open>
  Modelled from the spec: the path maps of such a run of the missing orchestrator, by
  target.
\<close>

definition vendored ::
  "string \<Rightarrow> (string \<times> (string \<times> fields) list) list \<Rightarrow> string \<Rightarrow> (string \<rightharpoonup> string)" where
  "vendored cache tables T =
     locate cache (case map_of tables T of Some tbl \<Rightarrow> tbl | None \<Rightarrow> [])"

subsection \<open>Emitter\<close>

text \<open>
  Modelled from the spec: the two modes of the missing emitter.
\<close>

datatype mode = Online | Offline

text \<open>
  Modelled from the spec: the fields the missing emitter writes in both modes where they
  are present.
\<close>

definition common_keys :: "string list" where
  "common_keys = [''version'', ''ver'', ''identifier'', ''required'', ''optional'', ''filename'']"

text \<open>
  Modelled from the spec: the fields the missing emitter writes for one component. Online
  mode emits \<open>url\<close> and, where present, the common fields; offline mode substitutes
  \<open>path\<close> for \<open>url\<close>: the path of the path map, and for a component without one the
  \<open>path\<close> the resolved entry itself has, if any.
\<close>

fun emit_fields :: "mode \<Rightarrow> string option \<Rightarrow> fields \<Rightarrow> fields" where
  "emit_fields Online p fs = filter (\<lambda>(k, v). k = ''url'' \<or> k \<in> set common_keys) fs"
| "emit_fields Offline p fs =
     (case p of Some q \<Rightarrow> [(''path'', TString q)] | None \<Rightarrow> filter (\<lambda>(k, v). k = ''path'') fs) @
     filter (\<lambda>(k, v). k \<in> set common_keys) fs"

text \<open>
  Modelled from the spec: the missing emitter on one resolved tool table and, for offline
  mode, its path map. Components are emitted in canonical order, lexicographic by
  identity, and so are the fields of a component.
\<close>

definition emit_table ::
  "mode \<Rightarrow> (string \<rightharpoonup> string) \<Rightarrow> (string \<times> fields) list \<Rightarrow> (string \<times> toml) list" where
  "emit_table m paths tbl =
     sort_key fst (map (\<lambda>(c, fs). (c, TTable (sort_key fst (emit_fields m (paths c) fs)))) tbl)"

text \<open>
  Modelled from the spec: the \<open>tools.target\<close> tables the missing emitter writes for the
  resolved tool tables of a toolkit, targets in canonical order.
\<close>

definition emit_targets ::
  "mode \<Rightarrow> (string \<Rightarrow> string \<rightharpoonup> string) \<Rightarrow> (string \<times> (string \<times> fields) list) list \<Rightarrow>
   (string \<times> toml) list" where
  "emit_targets m paths tables =
     sort_key fst (map (\<lambda>(T, tbl). (T, TTable (emit_table m (paths T) tbl))) tables)"

text \<open>
  Modelled from the spec: the data flow from the missing resolver to the missing emitter,
  the \<open>tools.target\<close> tables of the manifest of a toolkit over a list of targets.
\<close>

definition manifest_tables ::
  "mode \<Rightarrow> (string \<Rightarrow> string \<rightharpoonup> string) \<Rightarrow> component list \<Rightarrow> toolkit \<Rightarrow> string list \<Rightarrow>
   (string \<times> toml) list" where
  "manifest_tables m paths cat tk targets = emit_targets m paths (resolved_tables cat tk targets)"

section \<open>Label resolution in the front end\<close>

text \<open>
  \<^verbatim>\<open>
  export async function invokeLabel(key, params = {}) {
    const response = await invokeCommand('get_label', { key, ...params });
    const matches = [...response.matchAll(placeholderRegex)];
    if (matches.length > 0) {
      for (const match of matches) {
        const placeholderKey = match[1];
        const placeholderValue = await invokeLabel(placeholderKey);
        params[placeholderKey] = placeholderValue;
      }
      return response.replace(placeholderRegex, (_, key) => params[key] ?? `%{${key}}`);
    }
    return response;
  }
  \<close>
  \<open>placeholderRegex\<close> is the global pattern made of a percent sign, an opening brace, a
  lazy group \<open>(.*?)\<close> and a closing brace.

  Strings are the UTF-8 bytes of the text. The dot of the pattern matches every code unit
  but a line terminator (LF, CR, U+2028, U+2029), so a match is an opening \<open>%{\<close>, the
  shortest run free of line terminators, and the first closing brace after it; where no
  match starts, the scan moves on by one character. \<open>placeholderRegex\<close> splits a string
  into the characters outside matches and the captured keys of the matches, in order;
  \<open>matchAll\<close> and \<open>replace\<close> both read that split.
\<close>

type_synonym args = "string \<rightharpoonup> string"

datatype piece = Lit char | Hole string

definition line_terminator_ahead :: "string \<Rightarrow> bool" where
  "line_terminator_ahead s =
     (take 1 s = [CHR 0x0A] \<or> take 1 s = [CHR 0x0D] \<or>
      take 3 s = [CHR 0xE2, CHR 0x80, CHR 0xA8] \<or> take 3 s = [CHR 0xE2, CHR 0x80, CHR 0xA9])"

fun until_close :: "string \<Rightarrow> (string \<times> string) option" where
  "until_close [] = None"
| "until_close (c # cs) =
     (if c = CHR ''}'' then Some ([], cs)
      else if line_terminator_ahead (c # cs) then None
      else (case until_close cs of None \<Rightarrow> None | Some (k, rest) \<Rightarrow> Some (c # k, rest)))"

lemma until_close_shorter: "until_close s = Some (k, rest) \<Longrightarrow> length rest < length s"
  by (induction s arbitrary: k rest) (auto split: if_splits option.splits)

function placeholderRegex :: "string \<Rightarrow> piece list" where
  "placeholderRegex [] = []"
| "placeholderRegex (c # cs) =
     (if c = CHR ''%'' \<and> take 1 cs = ''{'' then
        (case until_close (drop 1 cs) of
           Some (k, rest) \<Rightarrow> Hole k # placeholderRegex rest
         | None \<Rightarrow> Lit c # placeholderRegex cs)
      else Lit c # placeholderRegex cs)"
  by pat_completeness auto
termination
proof (relation "measure length")
  fix c cs x2 x y
  assume "until_close (drop 1 cs) = Some x2" "(x, y) = x2"
  then have "length y < length (drop 1 cs)"
    using until_close_shorter [of "drop 1 cs" x y] by simp
  then show "(y, c # cs) \<in> measure length" by simp
qed auto

definition matchAll :: "string \<Rightarrow> string list" where
  "matchAll s = concat (map (\<lambda>p. case p of Lit c \<Rightarrow> [] | Hole k \<Rightarrow> [k]) (placeholderRegex s))"

definition replace :: "string \<Rightarrow> (string \<Rightarrow> string) \<Rightarrow> string" where
  "replace s f = concat (map (\<lambda>p. case p of Lit c \<Rightarrow> [c] | Hole k \<Rightarrow> f k) (placeholderRegex s))"

text \<open>
  \<open>params\<close> is a plain object used as a dictionary. Writing a string to its
  \<open>__proto__\<close> key changes nothing, and reading that key gives the prototype object,
  which \<open>replace\<close> turns into the string \<open>[object Object]\<close>; every other key is an
  ordinary entry.
\<close>

definition obj_set :: "args \<Rightarrow> string \<Rightarrow> string \<Rightarrow> args" where
  "obj_set params k v = (if k = ''__proto__'' then params else params(k \<mapsto> v))"

definition obj_get :: "args \<Rightarrow> string \<Rightarrow> string option" where
  "obj_get params k = (if k = ''__proto__'' then Some ''[object Object]'' else params k)"

text \<open>
  \<^verbatim>\<open>
  export async function invokeCommand(command, args = {}) {
    try {
      return await invoke(command, args);
    } catch (error) {
      await message(error || '...', { title: '...', type: 'error' });
      throw error;
    }
  }
  \<close>
  \<open>invokeCommand\<close> passes a command to the back end and hands its answer on; a rejected
  call is shown in a dialog and thrown again (\<open>Inl\<close>). \<open>invoke\<close> sends the command and
  the arguments as one message, the arguments spread over the \<open>cmd\<close> field, so an argument
  named \<open>cmd\<close> takes the place of the command: \<open>dispatched\<close> is the command the back end
  sees. The back end's \<open>get_label\<close> command is not part of the front end: it is the
  parameter \<open>get_label\<close>, the text the label table holds for each key, and it reads the
  \<open>key\<close> argument of the call. Any other command is unknown here and rejected.
\<close>

definition dispatched :: "string \<Rightarrow> args \<Rightarrow> string" where
  "dispatched command a = (case a ''cmd'' of Some c \<Rightarrow> c | None \<Rightarrow> command)"

definition invokeCommand :: "(string \<Rightarrow> string) \<Rightarrow> string \<Rightarrow> args \<Rightarrow> string + string" where
  "invokeCommand get_label command a =
     (if dispatched command a = ''get_label'' then
        (case a ''key'' of Some k \<Rightarrow> Inr (get_label k) | None \<Rightarrow> Inl ''missing argument key'')
      else Inl ''unknown command'')"

text \<open>
  The loop over the matches: each placeholder is resolved by a call of its own, with
  fresh parameters, and stored in \<open>params\<close>; a rejected call ends the loop.
\<close>

fun for_matches ::
  "(string \<Rightarrow> (string + string) option) \<Rightarrow> string list \<Rightarrow> args \<Rightarrow> (string + args) option" where
  "for_matches rec [] params = Some (Inr params)"
| "for_matches rec (placeholderKey # ms) params =
     Option.bind (rec placeholderKey)
       (\<lambda>r. case r of
          Inl error \<Rightarrow> Some (Inl error)
        | Inr placeholderValue \<Rightarrow> for_matches rec ms (obj_set params placeholderKey placeholderValue))"

lemma for_matches_mono [partial_function_mono]:
  assumes "\<And>k. mono_option (\<lambda>f. g f k)"
  shows "mono_option (\<lambda>f. for_matches (g f) ms params)"
proof (induction ms arbitrary: params)
  case Nil
  show ?case by (simp add: option.const_mono)
next
  case (Cons m ms)
  show ?case
    unfolding for_matches.simps
  proof (rule bind_mono [OF assms])
    fix r :: "string + string"
    show "mono_option (\<lambda>f. case r of Inl error \<Rightarrow> Some (Inl error)
        | Inr v \<Rightarrow> for_matches (g f) ms (obj_set params m v))"
      by (cases r) (simp_all add: option.const_mono Cons.IH)
  qed
qed

text \<open>
  \<open>invokeLabel\<close> itself. The result is \<open>None\<close> when the call never returns,
  \<open>Some (Inl error)\<close> when it is rejected and \<open>Some (Inr text)\<close> when it returns a text.
\<close>

partial_function (option) invokeLabel ::
  "(string \<Rightarrow> string) \<Rightarrow> string \<Rightarrow> args \<Rightarrow> (string + string) option" where
  "invokeLabel get_label key params =
     (case invokeCommand get_label ''get_label'' ([''key'' \<mapsto> key] ++ params) of
        Inl error \<Rightarrow> Some (Inl error)
      | Inr response \<Rightarrow>
          (let matches = matchAll response in
           if length matches > 0 then
             Option.bind
               (for_matches (\<lambda>placeholderKey. invokeLabel get_label placeholderKey Map.empty)
                  matches params)
               (\<lambda>r. case r of
                  Inl error \<Rightarrow> Some (Inl error)
                | Inr params' \<Rightarrow>
                    Some (Inr (replace response
                      (\<lambda>key. case obj_get params' key of
                                Some v \<Rightarrow> v | None \<Rightarrow> ''%{'' @ key @ ''}''))))
           else Some (Inr response)))"

text \<open>
  The placeholder-reference relation of a label table: a key refers to the keys of the
  placeholders in its text. Label tables for the examples below: one without a cycle, one
  with a cycle, and one with the placeholder \<open>__proto__\<close>.
\<close>

definition refs :: "(string \<Rightarrow> string) \<Rightarrow> (string \<times> string) set" where
  "refs get_label = {(k, p). p \<in> set (matchAll (get_label k))}"

definition cycle_free :: "(string \<Rightarrow> string) \<Rightarrow> string \<Rightarrow> bool" where
  "cycle_free get_label key =
     (\<forall>k. (key, k) \<in> (refs get_label)\<^sup>* \<longrightarrow> (k, k) \<notin> (refs get_label)\<^sup>+)"

definition demo_labels :: "string \<Rightarrow> string" where
  "demo_labels k =
     (if k = ''welcome'' then ''Welcome to %{product} %{version}!''
      else if k = ''product'' then ''%{vendor} Rust''
      else if k = ''vendor'' then ''XuanWu''
      else if k = ''version'' then ''v1.0''
      else k)"

definition cyclic_labels :: "string \<Rightarrow> string" where
  "cyclic_labels k =
     (if k = ''a'' then ''see %{b}''
      else if k = ''b'' then ''back to %{a}''
      else k)"

definition proto_labels :: "string \<Rightarrow> string" where
  "proto_labels k = (if k = ''title'' then ''%{__proto__}'' else ''text of '' @ k)"

section \<open>Properties of the generated manifests\<close>

subsection \<open>Lookups\<close>

lemmas offline_table_defs =
  offline_aarch64_unknown_linux_gnu_def offline_aarch64_unknown_linux_musl_def
  offline_x86_64_pc_windows_gnu_def offline_x86_64_pc_windows_msvc_def
  offline_x86_64_unknown_linux_gnu_def offline_x86_64_unknown_linux_musl_def

lemmas online_table_defs =
  online_aarch64_unknown_linux_gnu_def online_aarch64_unknown_linux_musl_def
  online_x86_64_pc_windows_gnu_def online_x86_64_pc_windows_msvc_def
  online_x86_64_unknown_linux_gnu_def online_x86_64_unknown_linux_musl_def

lemmas master_community_table_defs =
  toolkit_community_x86_64_pc_windows_gnu_def toolkit_community_x86_64_pc_windows_msvc_def
  toolkit_community_x86_64_unknown_linux_gnu_def toolkit_community_x86_64_unknown_linux_musl_def
  toolkit_community_aarch64_unknown_linux_gnu_def toolkit_community_aarch64_unknown_linux_musl_def

lemma offline_tool_tables:
  "tool_tables offline_community =
    [(''aarch64-unknown-linux-gnu'', offline_aarch64_unknown_linux_gnu),
     (''aarch64-unknown-linux-musl'', offline_aarch64_unknown_linux_musl),
     (''x86_64-pc-windows-gnu'', offline_x86_64_pc_windows_gnu),
     (''x86_64-pc-windows-msvc'', offline_x86_64_pc_windows_msvc),
     (''x86_64-unknown-linux-gnu'', offline_x86_64_unknown_linux_gnu),
     (''x86_64-unknown-linux-musl'', offline_x86_64_unknown_linux_musl)]"
  by (simp add: tool_tables_def offline_community_def offline_target_def)

lemma online_tool_tables:
  "tool_tables online_community =
    [(''aarch64-unknown-linux-gnu'', online_aarch64_unknown_linux_gnu),
     (''aarch64-unknown-linux-musl'', online_aarch64_unknown_linux_musl),
     (''x86_64-pc-windows-gnu'', online_x86_64_pc_windows_gnu),
     (''x86_64-pc-windows-msvc'', online_x86_64_pc_windows_msvc),
     (''x86_64-unknown-linux-gnu'', online_x86_64_unknown_linux_gnu),
     (''x86_64-unknown-linux-musl'', online_x86_64_unknown_linux_musl)]"
  by (simp add: tool_tables_def online_community_def online_target_def)

lemma community_master_tables:
  "master_tables ''community'' =
    [(''x86_64-pc-windows-gnu'', toolkit_community_x86_64_pc_windows_gnu),
     (''x86_64-pc-windows-msvc'', toolkit_community_x86_64_pc_windows_msvc),
     (''x86_64-unknown-linux-gnu'', toolkit_community_x86_64_unknown_linux_gnu),
     (''x86_64-unknown-linux-musl'', toolkit_community_x86_64_unknown_linux_musl),
     (''aarch64-unknown-linux-gnu'', toolkit_community_aarch64_unknown_linux_gnu),
     (''aarch64-unknown-linux-musl'', toolkit_community_aarch64_unknown_linux_musl)]"
  by (simp add: master_tables_def toolkits_def toolkit_community_def toolkit_community_target_def)

lemma basic_master_tables:
  "master_tables ''basic'' = [(''x86_64-pc-windows-gnu'', toolkit_basic_x86_64_pc_windows_gnu)]"
  by (simp add: master_tables_def toolkits_def toolkit_basic_def toolkit_basic_target_def)

lemma field_map_of: "field v k = map_of (entries v) k"
  by (cases v) auto

lemma field_in_entries: "field v k = Some w \<Longrightarrow> (k, w) \<in> set (entries v)"
  by (cases v) (auto dest: map_of_SomeD)

lemma at_path_append:
  "at_path v (p @ q) = (case at_path v p of None \<Rightarrow> None | Some w \<Rightarrow> at_path w q)"
  by (induction p arbitrary: v) (auto split: option.splits)

lemma tool_entry_lookup:
  "tool_entry m T c = (case map_of (tool_tables m) T of None \<Rightarrow> None | Some tbl \<Rightarrow> field tbl c)"
  using at_path_append [of m "[''tools'', ''target'']" "[T, c]"]
  by (auto simp: tool_entry_def tool_tables_def field_map_of split: option.splits)

lemma master_entry_lookup:
  "master_entry tk T c =
     (case map_of (master_tables tk) T of None \<Rightarrow> None | Some tbl \<Rightarrow> field tbl c)"
  using at_path_append [of toolkits "[''toolkit'', tk, ''value'', ''tools'', ''target'']" "[T, c]"]
  by (auto simp: master_entry_def master_tables_def field_map_of split: option.splits)

lemma tool_entry_in_tables:
  assumes "tool_entry m T c = Some e"
  shows "\<exists>tbl. (T, tbl) \<in> set (tool_tables m) \<and> (c, e) \<in> set (entries tbl)"
  using assms unfolding tool_entry_lookup
  by (auto simp: field_map_of split: option.splits dest!: map_of_SomeD)

lemma declared_targets_eq:
  "declared_targets =
    [''aarch64-unknown-linux-gnu'', ''aarch64-unknown-linux-musl'', ''x86_64-pc-windows-gnu'',
     ''x86_64-pc-windows-msvc'', ''x86_64-unknown-linux-gnu'', ''x86_64-unknown-linux-musl'']"
  by (simp add: declared_targets_def config_def List.map_filter_def)

lemma catalog_eq:
  "catalog =
    [TString ''cargo'', TString ''clippy'', TString ''rust-std'',
     TTable [(''name'', TString ''rust-docs''),
             (''excluded-targets'', TArray [TString ''aarch64-unknown-linux-musl''])],
     TString ''rustc'', TString ''rustc-dev'', TString ''rustfmt'', TString ''llvm-tools'',
     TTable [(''name'', TString ''rust-mingw''), (''target'', TString ''x86_64-pc-windows-gnu'')],
     TTable [(''name'', TString ''rust-src''), (''wildcard-target'', TBoolean True)]]"
  by (simp add: catalog_def config_def)

lemma nextest_master:
  "master_entry ''community'' ''x86_64-pc-windows-gnu'' ''cargo-nextest'' =
     Some (TTable [(''optional'', TBoolean True), (''version'', TString ''0.9.87''),
                   (''url'', TString windows_nextest_url)])"
  "master_entry ''community'' ''x86_64-unknown-linux-gnu'' ''cargo-nextest'' =
     Some (TTable [(''optional'', TBoolean True), (''version'', TString ''0.9.87''),
                   (''url'', TString linux_nextest_url)])"
  by (simp_all add: master_entry_lookup community_master_tables
      toolkit_community_x86_64_pc_windows_gnu_def toolkit_community_x86_64_unknown_linux_gnu_def
      windows_nextest_url_def linux_nextest_url_def)

lemma nextest_online:
  "tool_entry online_community ''x86_64-pc-windows-gnu'' ''cargo-nextest'' =
     Some (TTable [(''optional'', TBoolean True), (''url'', TString windows_nextest_url),
                   (''version'', TString ''0.9.87'')])"
  "tool_entry online_community ''x86_64-unknown-linux-gnu'' ''cargo-nextest'' =
     Some (TTable [(''optional'', TBoolean True), (''url'', TString linux_nextest_url),
                   (''version'', TString ''0.9.87'')])"
  by (simp_all add: tool_entry_lookup online_tool_tables
      online_x86_64_pc_windows_gnu_def online_x86_64_unknown_linux_gnu_def
      windows_nextest_url_def linux_nextest_url_def)

lemma nextest_offline:
  "tool_entry offline_community ''x86_64-pc-windows-gnu'' ''cargo-nextest'' =
     Some (TTable [(''optional'', TBoolean True),
                   (''path'', TString ''tools/cargo-nextest-0.9.87-x86_64-pc-windows-msvc.zip''),
                   (''version'', TString ''0.9.87'')])"
  "tool_entry offline_community ''x86_64-unknown-linux-gnu'' ''cargo-nextest'' =
     Some (TTable [(''optional'', TBoolean True),
                   (''path'', TString ''tools/cargo-nextest-0.9.87-x86_64-unknown-linux-gnu.tar.gz''),
                   (''version'', TString ''0.9.87'')])"
  by (simp_all add: tool_entry_lookup offline_tool_tables
      offline_x86_64_pc_windows_gnu_def offline_x86_64_unknown_linux_gnu_def)

lemma nextest_urls_differ: "linux_nextest_url \<noteq> windows_nextest_url"
  by (simp add: windows_nextest_url_def linux_nextest_url_def)

lemma typos_registry:
  "tool_entry online_community ''aarch64-unknown-linux-gnu'' ''typos'' =
     Some (TTable [(''identifier'', TString ''typos-cli''), (''optional'', TBoolean True),
                   (''ver'', TString ''1.28.4'')])"
  by (simp add: tool_entry_lookup online_tool_tables online_aarch64_unknown_linux_gnu_def)

subsection \<open>The basic toolkit and the shared catalog\<close>

lemma basic_declared_tables:
  "declared_tables ''basic'' =
     [(''x86_64-pc-windows-gnu'',
       [(''mingw64'',
         [(''required'', TBoolean True), (''version'', TString ''14.2.0-rt_v12-rev0''),
          (''url'', TString ''https://rust-mirror.obs.cn-north-4.myhuaweicloud.com/dist/toolset/x86_64-14.2.0-release-posix-seh-ucrt-rt_v12-rev0.7z'')])])]"
  by (simp add: declared_tables_def basic_master_tables toolkit_basic_x86_64_pc_windows_gnu_def)

lemma basic_windows_gnu:
  "declared_table ''basic'' ''x86_64-pc-windows-gnu'' =
     [(''mingw64'',
       [(''required'', TBoolean True), (''version'', TString ''14.2.0-rt_v12-rev0''),
        (''url'', TString ''https://rust-mirror.obs.cn-north-4.myhuaweicloud.com/dist/toolset/x86_64-14.2.0-release-posix-seh-ucrt-rt_v12-rev0.7z'')])]"
  by (simp add: declared_table_def basic_declared_tables)

lemma basic_toolkit:
  "load_toolkit ''basic'' =
     \<lparr>edition = ''basic'',
      required = [''clippy'', ''rustfmt'', ''rust-src''],
      optional = [''llvm-tools'', ''rustc-dev'', ''rust-docs''],
      overrides = declared_tables ''basic''\<rparr>"
  by (simp add: load_toolkit_def strings_at_def toolkits_def toolkit_basic_def List.map_filter_def)

lemma shared_catalog_eq:
  "shared_catalog =
    [\<lparr>identity = ''cargo'', defaults = [], wildcard = False, exclusions = []\<rparr>,
     \<lparr>identity = ''clippy'', defaults = [], wildcard = False, exclusions = []\<rparr>,
     \<lparr>identity = ''rust-std'', defaults = [], wildcard = False, exclusions = []\<rparr>,
     \<lparr>identity = ''rust-docs'', defaults = [], wildcard = False,
       exclusions = [''aarch64-unknown-linux-musl'']\<rparr>,
     \<lparr>identity = ''rustc'', defaults = [], wildcard = False, exclusions = []\<rparr>,
     \<lparr>identity = ''rustc-dev'', defaults = [], wildcard = False, exclusions = []\<rparr>,
     \<lparr>identity = ''rustfmt'', defaults = [], wildcard = False, exclusions = []\<rparr>,
     \<lparr>identity = ''llvm-tools'', defaults = [], wildcard = False, exclusions = []\<rparr>,
     \<lparr>identity = ''rust-mingw'', defaults = [], wildcard = False, exclusions = []\<rparr>,
     \<lparr>identity = ''rust-src'', defaults = [], wildcard = True, exclusions = []\<rparr>]"
  by (simp add: shared_catalog_def load_component_def catalog_eq List.map_filter_def
      excluded_targets_def strings_at_def wildcard_target_def default_keys_def)

lemma basic_selected:
  "selected shared_catalog (load_toolkit ''basic'') =
     [''clippy'', ''rustfmt'', ''llvm-tools'', ''rustc-dev'', ''rust-docs'', ''rust-src'']"
  by (simp add: selected_def basic_toolkit shared_catalog_eq)

subsection \<open>Sorting by key\<close>

lemma map_fst_insort_key: "map fst (insort_key fst x xs) = insort (fst x) (map fst xs)"
  by (induction xs) auto

lemma map_fst_sort_key: "map fst (sort_key fst xs) = sort (map fst xs)"
  by (induction xs) (simp_all add: map_fst_insort_key)

lemma map_sort_key_fst:
  assumes "\<And>x. fst (g x) = fst x"
  shows "map g (sort_key fst xs) = sort_key fst (map g xs)"
proof -
  have ins: "map g (insort_key fst x ys) = insort_key fst (g x) (map g ys)" for x ys
    by (induction ys) (simp_all add: assms)
  show ?thesis by (induction xs) (simp_all add: ins)
qed

lemma sort_key_rearranged:
  fixes xs ys :: "(string \<times> 'a) list"
  assumes "rearranged xs ys"
  shows "sort_key fst xs = sort_key fst ys"
proof (rule map_sorted_distinct_set_unique [where f = fst])
  from assms have dx: "distinct (map fst xs)" and dy: "distinct (map fst ys)"
    and eq: "set xs = set ys"
    by (simp_all add: rearranged_def)
  from dx have "inj_on fst (set xs)" by (simp add: distinct_map)
  with eq show "inj_on fst (set (sort_key fst xs) \<union> set (sort_key fst ys))" by simp
  show "sorted (map fst (sort_key fst xs))" "sorted (map fst (sort_key fst ys))" by simp_all
  from dx show "distinct (map fst (sort_key fst xs))" by (simp add: map_fst_sort_key)
  from dy show "distinct (map fst (sort_key fst ys))" by (simp add: map_fst_sort_key)
  from eq show "set (sort_key fst xs) = set (sort_key fst ys)" by simp
qed

lemma map_of_unique:
  assumes "(k, v) \<in> set xs" "\<And>w. (k, w) \<in> set xs \<Longrightarrow> w = v"
  shows "map_of xs k = Some v"
proof -
  from weak_map_of_SomeI [OF assms(1)] obtain w where w: "map_of xs k = Some w" ..
  from map_of_SomeD [OF w] assms(2) show ?thesis by (simp add: w)
qed

subsection \<open>What the emitter writes\<close>

lemma emit_table_keys: "map fst (emit_table m paths tbl) = sort (map fst tbl)"
  by (simp add: emit_table_def map_fst_sort_key comp_def case_prod_beta)

lemma emit_targets_keys: "map fst (emit_targets m paths tables) = sort (map fst tables)"
  by (simp add: emit_targets_def map_fst_sort_key comp_def case_prod_beta)

lemma emit_table_set:
  "set (emit_table m paths tbl) =
     (\<lambda>(c, fs). (c, TTable (sort_key fst (emit_fields m (paths c) fs)))) ` set tbl"
  by (simp add: emit_table_def)

lemma emit_targets_set:
  "set (emit_targets m paths tables) =
     (\<lambda>(T, tbl). (T, TTable (emit_table m (paths T) tbl))) ` set tables"
  by (simp add: emit_targets_def)

lemma has_sorted_table: "has (TTable (sort_key fst fs)) k \<longleftrightarrow> k \<in> fst ` set fs"
  by (simp add: has_def map_of_eq_None_iff)

lemma offline_fields_no_url: "''url'' \<notin> fst ` set (emit_fields Offline p fs)"
  by (auto simp add: common_keys_def split: option.splits)

lemma online_fields_no_path: "''path'' \<notin> fst ` set (emit_fields Online p fs)"
  by (auto simp add: common_keys_def)

lemma emitted_entry:
  assumes "(T, tbl) \<in> set (emit_targets m paths tables)" "(c, e) \<in> set (entries tbl)"
  obtains p fs where "e = TTable (sort_key fst (emit_fields m p fs))"
  using assms by (auto simp add: emit_targets_set emit_table_set)

lemma emitted_keys:
  "map (\<lambda>(T, tbl). (T, keys tbl)) (emit_targets m paths tables) =
     sort_key fst (map (\<lambda>x. (fst x, sort (map fst (snd x)))) tables)"
  unfolding emit_targets_def
  by (subst map_sort_key_fst)
    (simp_all add: case_prod_beta comp_def keys_def emit_table_keys)

lemma emit_targets_canonical:
  assumes "distinct (map fst tables)" "list_all (\<lambda>(T, tbl). distinct (map fst tbl)) tables"
  shows "canonical_tables (emit_targets m paths tables)"
proof -
  have "ordered_keys (emit_targets m paths tables)"
    using assms(1) by (simp add: ordered_keys_def emit_targets_keys strict_sorted_iff)
  moreover have "ordered_keys (entries tbl)"
    if "(T, tbl) \<in> set (emit_targets m paths tables)" for T tbl
  proof -
    from that obtain tb where "(T, tb) \<in> set tables" "tbl = TTable (emit_table m (paths T) tb)"
      by (auto simp add: emit_targets_set)
    moreover from this assms(2) have "distinct (map fst tb)" by (auto simp add: list_all_iff)
    ultimately show ?thesis by (simp add: ordered_keys_def emit_table_keys strict_sorted_iff)
  qed
  ultimately show ?thesis by (auto simp add: canonical_tables_def list_all_iff)
qed

lemma emit_table_rearranged:
  assumes "rearranged tbl tbl'"
  shows "emit_table m paths tbl = emit_table m paths tbl'"
  unfolding emit_table_def
  by (rule sort_key_rearranged)
    (use assms in \<open>auto simp add: rearranged_def comp_def case_prod_beta\<close>)

lemma emit_targets_rearranged:
  assumes "rearranged tables tables'"
  shows "emit_targets m paths tables = emit_targets m paths tables'"
  unfolding emit_targets_def
  by (rule sort_key_rearranged)
    (use assms in \<open>auto simp add: rearranged_def comp_def case_prod_beta\<close>)

lemma basic_offline:
  "emit_targets Offline (vendored ''tools'' (declared_tables ''basic'')) (declared_tables ''basic'') =
     [(''x86_64-pc-windows-gnu'', TTable
        [(''mingw64'', TTable
           [(''path'', TString ''tools/x86_64-14.2.0-release-posix-seh-ucrt-rt_v12-rev0.7z''),
            (''required'', TBoolean True), (''version'', TString ''14.2.0-rt_v12-rev0'')])])]"
  by (simp add: emit_targets_def emit_table_def basic_declared_tables common_keys_def
      vendored_def locate_def local_path_def cache_name_def last_segment_def)

lemma basic_online:
  "emit_targets Online paths (declared_tables ''basic'') =
     [(''x86_64-pc-windows-gnu'', TTable
        [(''mingw64'', TTable
           [(''required'', TBoolean True),
            (''url'', TString ''https://rust-mirror.obs.cn-north-4.myhuaweicloud.com/dist/toolset/x86_64-14.2.0-release-posix-seh-ucrt-rt_v12-rev0.7z''),
            (''version'', TString ''14.2.0-rt_v12-rev0'')])])]"
  by (simp add: emit_targets_def emit_table_def basic_declared_tables common_keys_def)

subsection \<open>The emitter against the manifests of the repository\<close>

text \<open>
  The tool tables the community toolkit declares in the master file, given to the emitter
  as they are, come out as the tool tables of the two manifests of the repository: the
  online manifest without a path map, the offline manifest with the path map of a run
  that fetched every artifact into \<open>tools\<close>.
\<close>

lemma community_declared_tables:
  "declared_tables ''community'' =
    [(''x86_64-pc-windows-gnu'', map (\<lambda>(c, e). (c, entries e)) (entries toolkit_community_x86_64_pc_windows_gnu)),
     (''x86_64-pc-windows-msvc'', map (\<lambda>(c, e). (c, entries e)) (entries toolkit_community_x86_64_pc_windows_msvc)),
     (''x86_64-unknown-linux-gnu'', map (\<lambda>(c, e). (c, entries e)) (entries toolkit_community_x86_64_unknown_linux_gnu)),
     (''x86_64-unknown-linux-musl'', map (\<lambda>(c, e). (c, entries e)) (entries toolkit_community_x86_64_unknown_linux_musl)),
     (''aarch64-unknown-linux-gnu'', map (\<lambda>(c, e). (c, entries e)) (entries toolkit_community_aarch64_unknown_linux_gnu)),
     (''aarch64-unknown-linux-musl'', map (\<lambda>(c, e). (c, entries e)) (entries toolkit_community_aarch64_unknown_linux_musl))]"
  by (simp add: declared_tables_def community_master_tables)

lemma vendored_declared:
  "vendored cache (declared_tables tk) T = locate cache (declared_table tk T)"
  by (simp add: vendored_def declared_table_def)

lemma declared_x86_64_pc_windows_gnu:
  "declared_table ''community'' ''x86_64-pc-windows-gnu'' =
     map (\<lambda>(c, e). (c, entries e)) (entries toolkit_community_x86_64_pc_windows_gnu)"
  by (simp add: declared_table_def community_declared_tables)

lemma declared_x86_64_pc_windows_msvc:
  "declared_table ''community'' ''x86_64-pc-windows-msvc'' =
     map (\<lambda>(c, e). (c, entries e)) (entries toolkit_community_x86_64_pc_windows_msvc)"
  by (simp add: declared_table_def community_declared_tables)

lemma declared_x86_64_unknown_linux_gnu:
  "declared_table ''community'' ''x86_64-unknown-linux-gnu'' =
     map (\<lambda>(c, e). (c, entries e)) (entries toolkit_community_x86_64_unknown_linux_gnu)"
  by (simp add: declared_table_def community_declared_tables)

lemma declared_x86_64_unknown_linux_musl:
  "declared_table ''community'' ''x86_64-unknown-linux-musl'' =
     map (\<lambda>(c, e). (c, entries e)) (entries toolkit_community_x86_64_unknown_linux_musl)"
  by (simp add: declared_table_def community_declared_tables)

lemma declared_aarch64_unknown_linux_gnu:
  "declared_table ''community'' ''aarch64-unknown-linux-gnu'' =
     map (\<lambda>(c, e). (c, entries e)) (entries toolkit_community_aarch64_unknown_linux_gnu)"
  by (simp add: declared_table_def community_declared_tables)

lemma declared_aarch64_unknown_linux_musl:
  "declared_table ''community'' ''aarch64-unknown-linux-musl'' =
     map (\<lambda>(c, e). (c, entries e)) (entries toolkit_community_aarch64_unknown_linux_musl)"
  by (simp add: declared_table_def community_declared_tables)

lemma community_tables_folded:
  "declared_tables ''community'' =
    [(''x86_64-pc-windows-gnu'', declared_table ''community'' ''x86_64-pc-windows-gnu''),
     (''x86_64-pc-windows-msvc'', declared_table ''community'' ''x86_64-pc-windows-msvc''),
     (''x86_64-unknown-linux-gnu'', declared_table ''community'' ''x86_64-unknown-linux-gnu''),
     (''x86_64-unknown-linux-musl'', declared_table ''community'' ''x86_64-unknown-linux-musl''),
     (''aarch64-unknown-linux-gnu'', declared_table ''community'' ''aarch64-unknown-linux-gnu''),
     (''aarch64-unknown-linux-musl'', declared_table ''community'' ''aarch64-unknown-linux-musl'')]"
  by (simp only: community_declared_tables declared_x86_64_pc_windows_gnu declared_x86_64_pc_windows_msvc declared_x86_64_unknown_linux_gnu declared_x86_64_unknown_linux_musl declared_aarch64_unknown_linux_gnu declared_aarch64_unknown_linux_musl)

lemma emitted_online_aarch64_unknown_linux_gnu:
  "TTable (emit_table Online Map.empty (declared_table ''community'' ''aarch64-unknown-linux-gnu'')) =
     online_aarch64_unknown_linux_gnu"
  by (simp add: emit_table_def declared_aarch64_unknown_linux_gnu toolkit_community_aarch64_unknown_linux_gnu_def
      online_aarch64_unknown_linux_gnu_def common_keys_def)

lemma emitted_offline_aarch64_unknown_linux_gnu:
  "TTable (emit_table Offline (locate ''tools'' (declared_table ''community'' ''aarch64-unknown-linux-gnu''))
       (declared_table ''community'' ''aarch64-unknown-linux-gnu'')) =
     offline_aarch64_unknown_linux_gnu"
  by (simp add: emit_table_def declared_aarch64_unknown_linux_gnu toolkit_community_aarch64_unknown_linux_gnu_def
      offline_aarch64_unknown_linux_gnu_def common_keys_def locate_def local_path_def cache_name_def
      last_segment_def)

lemma emitted_online_aarch64_unknown_linux_musl:
  "TTable (emit_table Online Map.empty (declared_table ''community'' ''aarch64-unknown-linux-musl'')) =
     online_aarch64_unknown_linux_musl"
  by (simp add: emit_table_def declared_aarch64_unknown_linux_musl toolkit_community_aarch64_unknown_linux_musl_def
      online_aarch64_unknown_linux_musl_def common_keys_def)

lemma emitted_offline_aarch64_unknown_linux_musl:
  "TTable (emit_table Offline (locate ''tools'' (declared_table ''community'' ''aarch64-unknown-linux-musl''))
       (declared_table ''community'' ''aarch64-unknown-linux-musl'')) =
     offline_aarch64_unknown_linux_musl"
  by (simp add: emit_table_def declared_aarch64_unknown_linux_musl toolkit_community_aarch64_unknown_linux_musl_def
      offline_aarch64_unknown_linux_musl_def common_keys_def locate_def local_path_def cache_name_def
      last_segment_def)

lemma emitted_online_x86_64_pc_windows_gnu:
  "TTable (emit_table Online Map.empty (declared_table ''community'' ''x86_64-pc-windows-gnu'')) =
     online_x86_64_pc_windows_gnu"
  by (simp add: emit_table_def declared_x86_64_pc_windows_gnu toolkit_community_x86_64_pc_windows_gnu_def
      online_x86_64_pc_windows_gnu_def common_keys_def)

lemma emitted_offline_x86_64_pc_windows_gnu:
  "TTable (emit_table Offline (locate ''tools'' (declared_table ''community'' ''x86_64-pc-windows-gnu''))
       (declared_table ''community'' ''x86_64-pc-windows-gnu'')) =
     offline_x86_64_pc_windows_gnu"
  by (simp add: emit_table_def declared_x86_64_pc_windows_gnu toolkit_community_x86_64_pc_windows_gnu_def
      offline_x86_64_pc_windows_gnu_def common_keys_def locate_def local_path_def cache_name_def
      last_segment_def)

lemma emitted_online_x86_64_pc_windows_msvc:
  "TTable (emit_table Online Map.empty (declared_table ''community'' ''x86_64-pc-windows-msvc'')) =
     online_x86_64_pc_windows_msvc"
  by (simp add: emit_table_def declared_x86_64_pc_windows_msvc toolkit_community_x86_64_pc_windows_msvc_def
      online_x86_64_pc_windows_msvc_def common_keys_def)

lemma emitted_offline_x86_64_pc_windows_msvc:
  "TTable (emit_table Offline (locate ''tools'' (declared_table ''community'' ''x86_64-pc-windows-msvc''))
       (declared_table ''community'' ''x86_64-pc-windows-msvc'')) =
     offline_x86_64_pc_windows_msvc"
  by (simp add: emit_table_def declared_x86_64_pc_windows_msvc toolkit_community_x86_64_pc_windows_msvc_def
      offline_x86_64_pc_windows_msvc_def common_keys_def locate_def local_path_def cache_name_def
      last_segment_def)

lemma emitted_online_x86_64_unknown_linux_gnu:
  "TTable (emit_table Online Map.empty (declared_table ''community'' ''x86_64-unknown-linux-gnu'')) =
     online_x86_64_unknown_linux_gnu"
  by (simp add: emit_table_def declared_x86_64_unknown_linux_gnu toolkit_community_x86_64_unknown_linux_gnu_def
      online_x86_64_unknown_linux_gnu_def common_keys_def)

lemma emitted_offline_x86_64_unknown_linux_gnu:
  "TTable (emit_table Offline (locate ''tools'' (declared_table ''community'' ''x86_64-unknown-linux-gnu''))
       (declared_table ''community'' ''x86_64-unknown-linux-gnu'')) =
     offline_x86_64_unknown_linux_gnu"
  by (simp add: emit_table_def declared_x86_64_unknown_linux_gnu toolkit_community_x86_64_unknown_linux_gnu_def
      offline_x86_64_unknown_linux_gnu_def common_keys_def locate_def local_path_def cache_name_def
      last_segment_def)

lemma emitted_online_x86_64_unknown_linux_musl:
  "TTable (emit_table Online Map.empty (declared_table ''community'' ''x86_64-unknown-linux-musl'')) =
     online_x86_64_unknown_linux_musl"
  by (simp add: emit_table_def declared_x86_64_unknown_linux_musl toolkit_community_x86_64_unknown_linux_musl_def
      online_x86_64_unknown_linux_musl_def common_keys_def)

lemma emitted_offline_x86_64_unknown_linux_musl:
  "TTable (emit_table Offline (locate ''tools'' (declared_table ''community'' ''x86_64-unknown-linux-musl''))
       (declared_table ''community'' ''x86_64-unknown-linux-musl'')) =
     offline_x86_64_unknown_linux_musl"
  by (simp add: emit_table_def declared_x86_64_unknown_linux_musl toolkit_community_x86_64_unknown_linux_musl_def
      offline_x86_64_unknown_linux_musl_def common_keys_def locate_def local_path_def cache_name_def
      last_segment_def)

lemma emitter_gives_online_manifest:
  "emit_targets Online (\<lambda>T. Map.empty) (declared_tables ''community'') =
     tool_tables online_community"
  unfolding emit_targets_def community_tables_folded online_tool_tables
  by (simp add: emitted_online_aarch64_unknown_linux_gnu emitted_online_aarch64_unknown_linux_musl emitted_online_x86_64_pc_windows_gnu emitted_online_x86_64_pc_windows_msvc emitted_online_x86_64_unknown_linux_gnu emitted_online_x86_64_unknown_linux_musl)

lemma emitter_gives_offline_manifest:
  "emit_targets Offline (vendored ''tools'' (declared_tables ''community''))
     (declared_tables ''community'') = tool_tables offline_community"
  unfolding emit_targets_def offline_tool_tables
  by (simp add: vendored_declared, simp add: community_tables_folded
      emitted_offline_aarch64_unknown_linux_gnu emitted_offline_aarch64_unknown_linux_musl emitted_offline_x86_64_pc_windows_gnu emitted_offline_x86_64_pc_windows_msvc emitted_offline_x86_64_unknown_linux_gnu emitted_offline_x86_64_unknown_linux_musl)

subsection \<open>Locations by mode\<close>

text \<open>
  C1. Let \<open>tables\<close> be the resolved tool tables of any toolkit, by target triple (for the
  resolver above \<open>resolved_tables cat tk targets\<close>, for any catalog, toolkit and
  targets), and let the path maps of the two runs be any. Then no entry of any target in
  the offline-mode manifest has a \<open>url\<close> field, no entry of any target in the
  online-mode manifest has a \<open>path\<close> field, and the two manifests list the same
  components for the same targets, so that the two entries are those of the same pair of
  component and target. On the master file of the repository the emitter gives the
  manifests of the repository: from the tool tables the community toolkit declares it
  writes the tool tables of the offline and of the online manifest.
\<close>

theorem offline_no_url_online_no_path:
  "(\<forall>T tbl c e. (T, tbl) \<in> set (emit_targets Offline paths tables) \<longrightarrow>
       (c, e) \<in> set (entries tbl) \<longrightarrow> \<not> has e ''url'') \<and>
   (\<forall>T tbl c e. (T, tbl) \<in> set (emit_targets Online paths' tables) \<longrightarrow>
       (c, e) \<in> set (entries tbl) \<longrightarrow> \<not> has e ''path'') \<and>
   map (\<lambda>(T, tbl). (T, keys tbl)) (emit_targets Offline paths tables) =
     map (\<lambda>(T, tbl). (T, keys tbl)) (emit_targets Online paths' tables) \<and>
   emit_targets Offline (vendored ''tools'' (declared_tables ''community''))
     (declared_tables ''community'') = tool_tables offline_community \<and>
   emit_targets Online (\<lambda>T. Map.empty) (declared_tables ''community'') =
     tool_tables online_community"
proof (intro conjI allI impI)
  fix T tbl c e
  assume "(T, tbl) \<in> set (emit_targets Offline paths tables)" "(c, e) \<in> set (entries tbl)"
  then obtain p fs where "e = TTable (sort_key fst (emit_fields Offline p fs))"
    by (rule emitted_entry)
  then show "\<not> has e ''url''"
    using offline_fields_no_url [of p fs] by (simp only: has_sorted_table) simp
next
  fix T tbl c e
  assume "(T, tbl) \<in> set (emit_targets Online paths' tables)" "(c, e) \<in> set (entries tbl)"
  then obtain p fs where "e = TTable (sort_key fst (emit_fields Online p fs))"
    by (rule emitted_entry)
  then show "\<not> has e ''path''"
    using online_fields_no_path [of p fs] by (simp only: has_sorted_table) simp
qed (simp_all only: emitted_keys emitter_gives_offline_manifest emitter_gives_online_manifest)

theorem offline_no_url_online_no_path_witness:
  "emit_targets Offline (vendored ''tools'' (declared_tables ''basic'')) (declared_tables ''basic'') =
     [(''x86_64-pc-windows-gnu'', TTable
        [(''mingw64'', TTable
           [(''path'', TString ''tools/x86_64-14.2.0-release-posix-seh-ucrt-rt_v12-rev0.7z''),
            (''required'', TBoolean True), (''version'', TString ''14.2.0-rt_v12-rev0'')])])] \<and>
   \<not> has (TTable
           [(''path'', TString ''tools/x86_64-14.2.0-release-posix-seh-ucrt-rt_v12-rev0.7z''),
            (''required'', TBoolean True), (''version'', TString ''14.2.0-rt_v12-rev0'')]) ''url'' \<and>
   emit_targets Online (\<lambda>T. Map.empty) (declared_tables ''basic'') =
     [(''x86_64-pc-windows-gnu'', TTable
        [(''mingw64'', TTable
           [(''required'', TBoolean True),
            (''url'', TString ''https://rust-mirror.obs.cn-north-4.myhuaweicloud.com/dist/toolset/x86_64-14.2.0-release-posix-seh-ucrt-rt_v12-rev0.7z''),
            (''version'', TString ''14.2.0-rt_v12-rev0'')])])] \<and>
   \<not> has (TTable
           [(''required'', TBoolean True),
            (''url'', TString ''https://rust-mirror.obs.cn-north-4.myhuaweicloud.com/dist/toolset/x86_64-14.2.0-release-posix-seh-ucrt-rt_v12-rev0.7z''),
            (''version'', TString ''14.2.0-rt_v12-rev0'')]) ''path''"
  using offline_no_url_online_no_path [of "vendored ''tools'' (declared_tables ''basic'')"
      "declared_tables ''basic''" "\<lambda>T. Map.empty"]
  by (simp add: basic_offline basic_online)

subsection \<open>Local paths of fetched artifacts\<close>

lemma offline_entry_path:
  "field (TTable (sort_key fst (emit_fields Offline (Some q) fs))) ''path'' = Some (TString q)"
  by (simp, rule map_of_unique) (auto simp add: common_keys_def set_insort_key)

lemma local_path_suffix:
  "suffix (cache_name (TTable fs) u) (local_path cache fs u)"
  by (simp add: local_path_def suffix_def)

lemma cache_name_cases:
  "cache_name (TTable fs) u =
     (case map_of fs ''filename'' of Some (TString f) \<Rightarrow> f | _ \<Rightarrow> last_segment u)"
  by (simp add: cache_name_def)

lemma mingw64_located:
  "locate ''tools'' (declared_table ''basic'' ''x86_64-pc-windows-gnu'') ''mingw64'' =
     Some ''tools/x86_64-14.2.0-release-posix-seh-ucrt-rt_v12-rev0.7z''"
  by (simp add: basic_windows_gnu locate_def local_path_def cache_name_def last_segment_def)

lemma vscode_located:
  "locate ''tools'' (declared_table ''community'' ''x86_64-pc-windows-gnu'') ''vscode'' =
     Some ''tools/vscode.zip''"
  by (simp add: declared_x86_64_pc_windows_gnu toolkit_community_x86_64_pc_windows_gnu_def
      locate_def local_path_def cache_name_def)

text \<open>
  C2. Let \<open>tbl\<close> be a resolved tool table without repeated keys, \<open>c\<close> a component of it
  whose entry \<open>fs\<close> carries the remote \<open>url\<close> \<open>u\<close>, and \<open>paths\<close> the path map of a
  vendoring run into the directory \<open>cache\<close> that has materialised \<open>c\<close>. Then the offline
  table has an entry for \<open>c\<close> with a \<open>path\<close>, and that path ends in the \<open>filename\<close> of
  \<open>fs\<close> when \<open>fs\<close> has one and in the final path segment of \<open>u\<close> otherwise. For the
  entries of the master file of the repository these are the paths of the offline
  manifest: the emitter, given the tool tables of the community toolkit and the path map
  of a complete run into \<open>tools\<close>, writes the tool tables of that manifest.
\<close>

theorem cache_path_ends_in_name:
  "(distinct (map fst tbl) \<longrightarrow> (c, fs) \<in> set tbl \<longrightarrow> map_of fs ''url'' = Some (TString u) \<longrightarrow>
      paths \<subseteq>\<^sub>m locate cache tbl \<longrightarrow> c \<in> dom paths \<longrightarrow>
      (\<exists>e p. (c, e) \<in> set (emit_table Offline paths tbl) \<and> field e ''path'' = Some (TString p) \<and>
         (case map_of fs ''filename'' of
            Some (TString f) \<Rightarrow> suffix f p
          | _ \<Rightarrow> suffix (last_segment u) p))) \<and>
   emit_targets Offline (vendored ''tools'' (declared_tables ''community''))
     (declared_tables ''community'') = tool_tables offline_community"
proof (intro conjI impI)
  assume d: "distinct (map fst tbl)" and m: "(c, fs) \<in> set tbl"
    and u: "map_of fs ''url'' = Some (TString u)"
    and le: "paths \<subseteq>\<^sub>m locate cache tbl" and c: "c \<in> dom paths"
  from d m have "map_of tbl c = Some fs" by simp
  with u have "locate cache tbl c = Some (local_path cache fs u)" by (simp add: locate_def)
  with le c have p: "paths c = Some (local_path cache fs u)" by (auto simp add: map_le_def)
  let ?e = "TTable (sort_key fst (emit_fields Offline (Some (local_path cache fs u)) fs))"
  from m p have "(c, ?e) \<in> set (emit_table Offline paths tbl)"
    by (force simp add: emit_table_set)
  moreover have "field ?e ''path'' = Some (TString (local_path cache fs u))"
    by (rule offline_entry_path)
  moreover have "case map_of fs ''filename'' of
        Some (TString f) \<Rightarrow> suffix f (local_path cache fs u)
      | _ \<Rightarrow> suffix (last_segment u) (local_path cache fs u)"
    using local_path_suffix [of fs u cache]
    by (simp add: cache_name_cases split: option.splits toml.splits)
  ultimately show "\<exists>e p. (c, e) \<in> set (emit_table Offline paths tbl) \<and>
      field e ''path'' = Some (TString p) \<and>
      (case map_of fs ''filename'' of
         Some (TString f) \<Rightarrow> suffix f p
       | _ \<Rightarrow> suffix (last_segment u) p)"
    by blast
qed (rule emitter_gives_offline_manifest)

theorem cache_path_ends_in_name_witness:
  "locate ''tools'' (declared_table ''basic'' ''x86_64-pc-windows-gnu'') ''mingw64'' =
     Some ''tools/x86_64-14.2.0-release-posix-seh-ucrt-rt_v12-rev0.7z'' \<and>
   (\<exists>e p. (''mingw64'', e) \<in> set (emit_table Offline
              (locate ''tools'' (declared_table ''basic'' ''x86_64-pc-windows-gnu''))
              (declared_table ''basic'' ''x86_64-pc-windows-gnu'')) \<and>
      field e ''path'' = Some (TString p) \<and>
      suffix ''x86_64-14.2.0-release-posix-seh-ucrt-rt_v12-rev0.7z'' p) \<and>
   locate ''tools'' (declared_table ''community'' ''x86_64-pc-windows-gnu'') ''vscode'' =
     Some ''tools/vscode.zip'' \<and>
   (\<exists>e p. (''vscode'', e) \<in> set (emit_table Offline
              (locate ''tools'' (declared_table ''community'' ''x86_64-pc-windows-gnu''))
              (declared_table ''community'' ''x86_64-pc-windows-gnu'')) \<and>
      field e ''path'' = Some (TString p) \<and> suffix ''vscode.zip'' p)"
proof -
  let ?basic = "declared_table ''basic'' ''x86_64-pc-windows-gnu''"
  let ?community = "declared_table ''community'' ''x86_64-pc-windows-gnu''"
  let ?u = "''https://rust-mirror.obs.cn-north-4.myhuaweicloud.com/dist/toolset/x86_64-14.2.0-release-posix-seh-ucrt-rt_v12-rev0.7z''"
  let ?v = "''https://update.code.visualstudio.com/1.97.1/win32-x64-archive/stable''"
  have "distinct (map fst ?basic)" by (simp add: basic_windows_gnu)
  moreover have "(''mingw64'', [(''required'', TBoolean True),
      (''version'', TString ''14.2.0-rt_v12-rev0''), (''url'', TString ?u)]) \<in> set ?basic"
    by (simp add: basic_windows_gnu)
  moreover have "''mingw64'' \<in> dom (locate ''tools'' ?basic)"
    by (simp add: domIff mingw64_located)
  moreover have "last_segment ?u = ''x86_64-14.2.0-release-posix-seh-ucrt-rt_v12-rev0.7z''"
    by (simp add: last_segment_def)
  ultimately have basic:
    "\<exists>e p. (''mingw64'', e) \<in> set (emit_table Offline (locate ''tools'' ?basic) ?basic) \<and>
      field e ''path'' = Some (TString p) \<and>
      suffix ''x86_64-14.2.0-release-posix-seh-ucrt-rt_v12-rev0.7z'' p"
    using cache_path_ends_in_name [of ?basic "''mingw64''"
        "[(''required'', TBoolean True), (''version'', TString ''14.2.0-rt_v12-rev0''),
          (''url'', TString ?u)]"
        ?u "locate ''tools'' ?basic" "''tools''"]
    by simp
  have "distinct (map fst ?community)"
    by (simp add: declared_x86_64_pc_windows_gnu toolkit_community_x86_64_pc_windows_gnu_def)
  moreover have "(''vscode'', [(''version'', TString ''1.97.1''),
      (''filename'', TString ''vscode.zip''), (''url'', TString ?v)]) \<in> set ?community"
    by (simp add: declared_x86_64_pc_windows_gnu toolkit_community_x86_64_pc_windows_gnu_def)
  moreover have "''vscode'' \<in> dom (locate ''tools'' ?community)"
    by (simp add: domIff vscode_located)
  ultimately have community:
    "\<exists>e p. (''vscode'', e) \<in> set (emit_table Offline (locate ''tools'' ?community) ?community) \<and>
      field e ''path'' = Some (TString p) \<and> suffix ''vscode.zip'' p"
    using cache_path_ends_in_name [of ?community "''vscode''"
        "[(''version'', TString ''1.97.1''), (''filename'', TString ''vscode.zip''),
          (''url'', TString ?v)]"
        ?v "locate ''tools'' ?community" "''tools''"]
    by simp
  from basic community show ?thesis
    by (simp only: mingw64_located vscode_located simp_thms)
qed

subsection \<open>Exclusion lists\<close>

lemma resolve_keys:
  assumes "resolve cat tk T = Inr tbl"
  shows "map fst tbl = filter (\<lambda>c. \<not> excluded_for cat T c) (selected cat tk)"
  using assms
  by (auto simp add: resolve_def Let_def comp_def split: option.splits)




lemma resolved_tables_member:
  "(T, tbl) \<in> set (resolved_tables cat tk targets) \<longleftrightarrow>
     T \<in> set targets \<and> resolve cat tk T = Inr tbl"
  by (auto simp add: resolved_tables_def split: sum.splits)






text \<open>
  The tools of the master file are not in the component lists of their toolkits, so the
  resolver as the specification words it reports \<open>mingw64\<close> as a dangling override and
  gives no table for the basic toolkit on the one target that has a tool table.
\<close>

lemma basic_dangling:
  "resolve shared_catalog (load_toolkit ''basic'') ''x86_64-pc-windows-gnu'' =
     Inl (ResolutionError ''basic'' ''x86_64-pc-windows-gnu'' ''mingw64'')"
  unfolding resolve_def basic_selected
  by (simp add: overrides_for_def basic_toolkit basic_declared_tables)



subsection \<open>The entries of cargo-nextest\<close>

text \<open>
  C5. In the manifests of the community toolkit, the \<open>x86_64-pc-windows-gnu\<close> entry of
  \<open>cargo-nextest\<close> holds \<open>optional = true\<close> together with the URL the master file
  declares for that target (online) and the path of the same artifact (offline); the
  \<open>x86_64-unknown-linux-gnu\<close> entry holds the URL the master file declares for it and
  the matching path, which are not those of the windows entry.
\<close>

theorem cargo_nextest_entries:
  "master_entry ''community'' ''x86_64-pc-windows-gnu'' ''cargo-nextest'' =
     Some (TTable [(''optional'', TBoolean True), (''version'', TString ''0.9.87''),
                   (''url'', TString windows_nextest_url)]) \<and>
   master_entry ''community'' ''x86_64-unknown-linux-gnu'' ''cargo-nextest'' =
     Some (TTable [(''optional'', TBoolean True), (''version'', TString ''0.9.87''),
                   (''url'', TString linux_nextest_url)]) \<and>
   tool_entry online_community ''x86_64-pc-windows-gnu'' ''cargo-nextest'' =
     Some (TTable [(''optional'', TBoolean True), (''url'', TString windows_nextest_url),
                   (''version'', TString ''0.9.87'')]) \<and>
   tool_entry offline_community ''x86_64-pc-windows-gnu'' ''cargo-nextest'' =
     Some (TTable [(''optional'', TBoolean True),
                   (''path'', TString ''tools/cargo-nextest-0.9.87-x86_64-pc-windows-msvc.zip''),
                   (''version'', TString ''0.9.87'')]) \<and>
   tool_entry online_community ''x86_64-unknown-linux-gnu'' ''cargo-nextest'' =
     Some (TTable [(''optional'', TBoolean True), (''url'', TString linux_nextest_url),
                   (''version'', TString ''0.9.87'')]) \<and>
   tool_entry offline_community ''x86_64-unknown-linux-gnu'' ''cargo-nextest'' =
     Some (TTable [(''optional'', TBoolean True),
                   (''path'', TString ''tools/cargo-nextest-0.9.87-x86_64-unknown-linux-gnu.tar.gz''),
                   (''version'', TString ''0.9.87'')]) \<and>
   linux_nextest_url \<noteq> windows_nextest_url \<and>
   ''tools/cargo-nextest-0.9.87-x86_64-unknown-linux-gnu.tar.gz'' \<noteq>
     ''tools/cargo-nextest-0.9.87-x86_64-pc-windows-msvc.zip''"
  by (simp add: nextest_master nextest_online nextest_offline nextest_urls_differ)

subsection \<open>Order of targets and components\<close>

lemma resolve_distinct:
  assumes "resolve cat tk T = Inr tbl"
  shows "distinct (map fst tbl)"
  by (simp add: resolve_keys [OF assms] selected_def)

lemma resolved_tables_keys:
  "map fst (resolved_tables cat tk targets) =
     filter (\<lambda>T. case resolve cat tk T of Inr tbl \<Rightarrow> True | Inl e \<Rightarrow> False) targets"
  by (induction targets) (simp_all add: resolved_tables_def split: sum.splits)

lemma manifest_tables_canonical:
  assumes "distinct targets"
  shows "canonical_tables (manifest_tables m paths cat tk targets)"
  unfolding manifest_tables_def
proof (rule emit_targets_canonical)
  show "distinct (map fst (resolved_tables cat tk targets))"
    using assms by (simp add: resolved_tables_keys)
  show "list_all (\<lambda>(T, tbl). distinct (map fst tbl)) (resolved_tables cat tk targets)"
    by (auto simp add: list_all_iff resolved_tables_member resolve_distinct)
qed

lemma manifest_tables_rearranged:
  assumes "distinct targets" "distinct targets'" "set targets = set targets'"
  shows "manifest_tables m paths cat tk targets = manifest_tables m paths cat tk targets'"
  unfolding manifest_tables_def
proof (rule emit_targets_rearranged)
  show "rearranged (resolved_tables cat tk targets) (resolved_tables cat tk targets')"
    unfolding rearranged_def
  proof (intro conjI)
    show "distinct (map fst (resolved_tables cat tk targets))"
      using assms(1) by (simp add: resolved_tables_keys)
    show "distinct (map fst (resolved_tables cat tk targets'))"
      using assms(2) by (simp add: resolved_tables_keys)
    show "set (resolved_tables cat tk targets) = set (resolved_tables cat tk targets')"
      using assms(3) by (auto simp add: resolved_tables_member)
  qed
qed

lemma offline_canonical: "canonical_tables (tool_tables offline_community)"
  by (simp add: canonical_tables_def ordered_keys_def offline_tool_tables offline_table_defs)

lemma online_canonical: "canonical_tables (tool_tables online_community)"
  by (simp add: canonical_tables_def ordered_keys_def online_tool_tables online_table_defs)

lemma master_not_ordered: "\<not> ordered_keys (master_tables ''community'')"
  by (simp add: ordered_keys_def community_master_tables)

text \<open>
  C6. In every emitted manifest, of either mode \<open>m\<close>, the target triples of the tool
  tables stand in lexicographic order and, within each target, so do the component keys:
  for any resolved tool tables that repeat no target and no component of a target, and
  for the tables the resolver gives any toolkit over any list of distinct targets.
  Consequently the output is fixed by the content of the input and not by the order in
  which the targets, or the components of a target, are resolved: rearranged tool
  tables, a rearranged table of one target and a rearranged list of targets all give the
  same tables, entry for entry and in the same order, and so the same document. The
  tool tables of the two manifests of the repository are in this order, and the master
  file they come from is not.
\<close>

theorem canonical_listing:
  "(distinct (map fst tables) \<longrightarrow> list_all (\<lambda>(T, tbl). distinct (map fst tbl)) tables \<longrightarrow>
      canonical_tables (emit_targets m paths tables)) \<and>
   (distinct targets \<longrightarrow> canonical_tables (manifest_tables m paths cat tk targets)) \<and>
   (rearranged tables tables' \<longrightarrow> emit_targets m paths tables = emit_targets m paths tables') \<and>
   (rearranged tbl tbl' \<longrightarrow> emit_table m located tbl = emit_table m located tbl') \<and>
   (distinct targets \<longrightarrow> distinct targets' \<longrightarrow> set targets = set targets' \<longrightarrow>
      manifest_tables m paths cat tk targets = manifest_tables m paths cat tk targets') \<and>
   canonical_tables (tool_tables offline_community) \<and>
   canonical_tables (tool_tables online_community) \<and>
   \<not> ordered_keys (master_tables ''community'')"
proof (intro conjI impI)
  show "canonical_tables (tool_tables offline_community)" by (rule offline_canonical)
  show "canonical_tables (tool_tables online_community)" by (rule online_canonical)
  show "\<not> ordered_keys (master_tables ''community'')" by (rule master_not_ordered)
next
  assume "distinct (map fst tables)" "list_all (\<lambda>(T, tbl). distinct (map fst tbl)) tables"
  then show "canonical_tables (emit_targets m paths tables)" by (rule emit_targets_canonical)
next
  assume "distinct targets"
  then show "canonical_tables (manifest_tables m paths cat tk targets)"
    by (rule manifest_tables_canonical)
next
  assume "rearranged tables tables'"
  then show "emit_targets m paths tables = emit_targets m paths tables'"
    by (rule emit_targets_rearranged)
next
  assume "rearranged tbl tbl'"
  then show "emit_table m located tbl = emit_table m located tbl'"
    by (rule emit_table_rearranged)
next
  assume "distinct targets" "distinct targets'" "set targets = set targets'"
  then show "manifest_tables m paths cat tk targets = manifest_tables m paths cat tk targets'"
    by (rule manifest_tables_rearranged)
qed

theorem canonical_listing_witness:
  "canonical_tables (emit_targets Offline (vendored ''tools'' (declared_tables ''community''))
      (declared_tables ''community'')) \<and>
   canonical_tables (manifest_tables Online (\<lambda>T. Map.empty) shared_catalog
      (load_toolkit ''basic'') declared_targets) \<and>
   emit_targets Offline (vendored ''tools'' (declared_tables ''community''))
      (declared_tables ''community'') =
     emit_targets Offline (vendored ''tools'' (declared_tables ''community''))
      (rev (declared_tables ''community'')) \<and>
   emit_table Online Map.empty (declared_table ''community'' ''x86_64-pc-windows-gnu'') =
     emit_table Online Map.empty (rev (declared_table ''community'' ''x86_64-pc-windows-gnu'')) \<and>
   manifest_tables Online (\<lambda>T. Map.empty) shared_catalog (load_toolkit ''basic'') declared_targets =
     manifest_tables Online (\<lambda>T. Map.empty) shared_catalog (load_toolkit ''basic'')
       (rev declared_targets)"
proof -
  have tables: "distinct (map fst (declared_tables ''community''))"
    "list_all (\<lambda>(T, tbl). distinct (map fst tbl)) (declared_tables ''community'')"
    by (simp_all add: community_declared_tables master_community_table_defs)
  have table: "distinct (map fst (declared_table ''community'' ''x86_64-pc-windows-gnu''))"
    by (simp add: declared_x86_64_pc_windows_gnu toolkit_community_x86_64_pc_windows_gnu_def)
  have targets: "distinct declared_targets" by (simp add: declared_targets_eq)
  from tables(1) have
    r1: "rearranged (declared_tables ''community'') (rev (declared_tables ''community''))"
    by (simp add: rearranged_def rev_map [symmetric])
  from table have r2: "rearranged (declared_table ''community'' ''x86_64-pc-windows-gnu'')
      (rev (declared_table ''community'' ''x86_64-pc-windows-gnu''))"
    by (simp add: rearranged_def rev_map [symmetric])
  note community = canonical_listing [where tables = "declared_tables ''community''"
      and m = Offline and paths = "vendored ''tools'' (declared_tables ''community'')"
      and tables' = "rev (declared_tables ''community'')"
      and targets = "[]" and targets' = "[]" and tbl = "[]" and tbl' = "[]"]
  note basic = canonical_listing [where tables = "[]" and tables' = "[]" and m = Online
      and paths = "\<lambda>T. Map.empty" and targets = declared_targets
      and targets' = "rev declared_targets" and cat = shared_catalog
      and tk = "load_toolkit ''basic''" and located = Map.empty
      and tbl = "declared_table ''community'' ''x86_64-pc-windows-gnu''"
      and tbl' = "rev (declared_table ''community'' ''x86_64-pc-windows-gnu'')"]
  have "canonical_tables (emit_targets Offline (vendored ''tools'' (declared_tables ''community''))
      (declared_tables ''community''))"
    using community tables by blast
  moreover have "canonical_tables (manifest_tables Online (\<lambda>T. Map.empty) shared_catalog
      (load_toolkit ''basic'') declared_targets)"
    using basic targets by blast
  moreover have "emit_targets Offline (vendored ''tools'' (declared_tables ''community''))
      (declared_tables ''community'') =
     emit_targets Offline (vendored ''tools'' (declared_tables ''community''))
      (rev (declared_tables ''community''))"
    using community r1 by blast
  moreover have
    "emit_table Online Map.empty (declared_table ''community'' ''x86_64-pc-windows-gnu'') =
     emit_table Online Map.empty (rev (declared_table ''community'' ''x86_64-pc-windows-gnu''))"
    using basic r2 by blast
  moreover have "manifest_tables Online (\<lambda>T. Map.empty) shared_catalog (load_toolkit ''basic'')
       declared_targets =
     manifest_tables Online (\<lambda>T. Map.empty) shared_catalog (load_toolkit ''basic'')
       (rev declared_targets)"
    using basic targets by (simp only: distinct_rev set_rev simp_thms)
  ultimately show ?thesis by (intro conjI)
qed

subsection \<open>The bootstrap installers of the offline manifest\<close>

lemma rustup_table:
  "at_path offline_community [''rust'', ''rustup''] =
     Some (TTable (map (\<lambda>T. (T, TString (rustup_init T))) declared_targets))"
  by (simp add: declared_targets_eq offline_community_def offline_rust_def rustup_init_def
      sublist_code)

text \<open>
  C7. The offline manifest has the key \<open>offline-dist-server\<close> in its \<open>[rust]\<close> block and
  a table \<open>[rust.rustup]\<close> with exactly one entry per declared target triple, in the
  order of the declaration, which maps the triple to the local path of its bootstrap
  installer (\<open>tools/rustup-init\<close>, with the suffix \<open>.exe\<close> for the windows targets). The
  online manifest has neither the key nor the table.
\<close>

theorem offline_bootstrap_table:
  "at_path offline_community [''rust'', ''offline-dist-server''] = Some (TString ''toolchain'') \<and>
   at_path offline_community [''rust'', ''rustup''] =
     Some (TTable (map (\<lambda>T. (T, TString (rustup_init T))) declared_targets)) \<and>
   distinct declared_targets \<and>
   map rustup_init declared_targets =
     [''tools/rustup-init'', ''tools/rustup-init'', ''tools/rustup-init.exe'',
      ''tools/rustup-init.exe'', ''tools/rustup-init'', ''tools/rustup-init''] \<and>
   at_path online_community [''rust'', ''offline-dist-server''] = None \<and>
   at_path online_community [''rust'', ''rustup''] = None"
proof (intro conjI)
  show "at_path offline_community [''rust'', ''offline-dist-server''] = Some (TString ''toolchain'')"
    by (simp add: offline_community_def offline_rust_def)
  show "at_path offline_community [''rust'', ''rustup''] =
     Some (TTable (map (\<lambda>T. (T, TString (rustup_init T))) declared_targets))"
    by (rule rustup_table)
  show "distinct declared_targets"
    by (simp add: declared_targets_eq)
  show "map rustup_init declared_targets =
     [''tools/rustup-init'', ''tools/rustup-init'', ''tools/rustup-init.exe'',
      ''tools/rustup-init.exe'', ''tools/rustup-init'', ''tools/rustup-init'']"
    by (simp add: declared_targets_eq rustup_init_def sublist_code)
  show "at_path online_community [''rust'', ''offline-dist-server''] = None"
    by (simp add: online_community_def online_rust_def)
  show "at_path online_community [''rust'', ''rustup''] = None"
    by (simp add: online_community_def online_rust_def)
qed

subsection \<open>What the two modes share\<close>

lemma descriptions_agree: "offline_descriptions = online_descriptions"
  by (simp add: offline_descriptions_def online_descriptions_def)

lemma group_agree: "offline_group = online_group"
  by (simp add: offline_group_def online_group_def)

text \<open>
  C8. The offline and the online manifest of the community toolkit both hold, with the
  same value, the top-level \<open>name\<close> and \<open>version\<close>, the fields \<open>components\<close>, \<open>group\<close>,
  \<open>version\<close> and \<open>optional-components\<close> of the \<open>[rust]\<close> block, the block
  \<open>[rust.profile]\<close>, and the dictionaries \<open>[tools.descriptions]\<close> and \<open>[tools.group]\<close>.
\<close>

theorem modes_share_header: "list_all agree_at shared_paths"
  by (simp add: shared_paths_def agree_at_def offline_community_def online_community_def
      offline_rust_def online_rust_def descriptions_agree group_agree)

subsection \<open>The two resolution strategies\<close>

lemma online_strategies:
  "\<forall>(T, tbl) \<in> set (tool_tables online_community). \<forall>(c, e) \<in> set (entries tbl).
     (fetched ''url'' e \<noteq> from_registry e) \<and> \<not> (has e ''version'' \<and> has e ''ver'') \<and>
     (has e ''ver'' \<longrightarrow> tool_entry offline_community T c = Some e)"
  by (simp add: online_tool_tables online_table_defs has_def fetched_def from_registry_def
      tool_entry_lookup offline_tool_tables offline_table_defs)

lemma offline_strategies:
  "\<forall>(T, tbl) \<in> set (tool_tables offline_community). \<forall>(c, e) \<in> set (entries tbl).
     (fetched ''path'' e \<noteq> from_registry e) \<and> \<not> (has e ''version'' \<and> has e ''ver'')"
  by (simp add: offline_tool_tables offline_table_defs has_def fetched_def from_registry_def)

text \<open>
  C9. Every tool entry of the two manifests follows exactly one of two strategies: it is
  fetched, with a \<open>version\<close> and a \<open>url\<close> (online) or a \<open>path\<close> (offline), or it comes
  from the registry, with a \<open>ver\<close> (and possibly an \<open>identifier\<close>) and neither \<open>url\<close> nor
  \<open>path\<close>; no entry has both \<open>version\<close> and \<open>ver\<close>. An online entry with a \<open>ver\<close> is
  the same entry in the offline manifest, so it has no location in either mode.
\<close>

theorem two_resolution_strategies:
  "(\<forall>e. tool_entry online_community T c = Some e \<longrightarrow>
      (fetched ''url'' e \<noteq> from_registry e) \<and> \<not> (has e ''version'' \<and> has e ''ver'') \<and>
      (has e ''ver'' \<longrightarrow> tool_entry offline_community T c = Some e)) \<and>
   (\<forall>e. tool_entry offline_community T c = Some e \<longrightarrow>
      (fetched ''path'' e \<noteq> from_registry e) \<and> \<not> (has e ''version'' \<and> has e ''ver''))"
proof (intro conjI allI impI)
  fix e assume "tool_entry online_community T c = Some e"
  then obtain tbl where "(T, tbl) \<in> set (tool_tables online_community)" "(c, e) \<in> set (entries tbl)"
    by (auto dest: tool_entry_in_tables)
  with online_strategies
  show "fetched ''url'' e \<noteq> from_registry e" "\<not> (has e ''version'' \<and> has e ''ver'')"
    "has e ''ver'' \<Longrightarrow> tool_entry offline_community T c = Some e"
    by fastforce+
next
  fix e assume "tool_entry offline_community T c = Some e"
  then obtain tbl where "(T, tbl) \<in> set (tool_tables offline_community)" "(c, e) \<in> set (entries tbl)"
    by (auto dest: tool_entry_in_tables)
  with offline_strategies
  show "fetched ''path'' e \<noteq> from_registry e" "\<not> (has e ''version'' \<and> has e ''ver'')"
    by fastforce+
qed

theorem two_resolution_strategies_witness:
  "tool_entry online_community ''aarch64-unknown-linux-gnu'' ''typos'' =
     Some (TTable [(''identifier'', TString ''typos-cli''), (''optional'', TBoolean True),
                   (''ver'', TString ''1.28.4'')]) \<and>
   tool_entry offline_community ''aarch64-unknown-linux-gnu'' ''typos'' =
     Some (TTable [(''identifier'', TString ''typos-cli''), (''optional'', TBoolean True),
                   (''ver'', TString ''1.28.4'')]) \<and>
   tool_entry online_community ''x86_64-pc-windows-gnu'' ''cargo-nextest'' =
     Some (TTable [(''optional'', TBoolean True), (''url'', TString windows_nextest_url),
                   (''version'', TString ''0.9.87'')]) \<and>
   fetched ''url'' (TTable [(''optional'', TBoolean True), (''url'', TString windows_nextest_url),
                   (''version'', TString ''0.9.87'')]) \<noteq>
   from_registry (TTable [(''optional'', TBoolean True), (''url'', TString windows_nextest_url),
                   (''version'', TString ''0.9.87'')])"
proof -
  have v: "has (TTable [(''identifier'', TString ''typos-cli''), (''optional'', TBoolean True),
                   (''ver'', TString ''1.28.4'')]) ''ver''"
    by (simp add: has_def)
  from two_resolution_strategies [of "''aarch64-unknown-linux-gnu''" "''typos''"]
    two_resolution_strategies [of "''x86_64-pc-windows-gnu''" "''cargo-nextest''"]
    typos_registry nextest_online(1) v
  show ?thesis by simp
qed

section \<open>Properties of label resolution\<close>

subsection \<open>The pattern\<close>

lemma placeholderRegex_examples:
  "placeholderRegex ''a%{b}c'' = [Lit (CHR ''a''), Hole ''b'', Lit (CHR ''c'')]"
  "placeholderRegex ''%%{x}'' = [Lit (CHR ''%''), Hole ''x'']"
  "placeholderRegex ''%{a%{b}}'' = [Hole ''a%{b'', Lit (CHR ''}'')]"
  "placeholderRegex ''%{}'' = [Hole []]"
  "placeholderRegex ''%{a'' = [Lit (CHR ''%''), Lit (CHR ''{''), Lit (CHR ''a'')]"
  "placeholderRegex (''%{a'' @ [CHR 0x0A] @ ''%{b}'') =
     [Lit (CHR ''%''), Lit (CHR ''{''), Lit (CHR ''a''), Lit (CHR 0x0A), Hole ''b'']"
  by (simp_all add: line_terminator_ahead_def)

subsection \<open>Cycles of placeholders\<close>

lemma cycle_free_step:
  assumes "\<And>p. (key, p) \<in> refs get_label \<Longrightarrow> cycle_free get_label p"
  shows "cycle_free get_label key"
  unfolding cycle_free_def
proof (intro allI impI notI)
  fix k
  assume reach: "(key, k) \<in> (refs get_label)\<^sup>*" and loop: "(k, k) \<in> (refs get_label)\<^sup>+"
  from reach loop have "(key, k) \<in> (refs get_label)\<^sup>+"
    by (rule rtrancl_trancl_trancl)
  then obtain p where p: "(key, p) \<in> refs get_label" "(p, k) \<in> (refs get_label)\<^sup>*"
    by (auto dest: tranclD)
  from assms [OF p(1)] p(2) loop show False
    by (simp add: cycle_free_def)
qed

lemma for_matches_total:
  assumes "\<And>m y. m \<in> set ms \<Longrightarrow> rec m = Some y \<Longrightarrow> \<exists>t. y = Inr t"
    and "for_matches rec ms params = Some r"
  shows "(\<exists>params'. r = Inr params') \<and> (\<forall>m \<in> set ms. \<exists>t. rec m = Some (Inr t))"
  using assms
proof (induction ms arbitrary: params)
  case Nil
  then show ?case by auto
next
  case (Cons m ms)
  from Cons.prems(2) obtain y where y: "rec m = Some y"
    by (cases "rec m") auto
  with Cons.prems(1) obtain t where t: "y = Inr t" by fastforce
  with y Cons.prems(2) have "for_matches rec ms (obj_set params m t) = Some r" by simp
  moreover have "\<exists>t. y' = Inr t" if "m' \<in> set ms" "rec m' = Some y'" for m' y'
    using Cons.prems(1) [of m' y'] that by simp
  ultimately have
    "(\<exists>params'. r = Inr params') \<and> (\<forall>m \<in> set ms. \<exists>t. rec m = Some (Inr t))"
    by (rule Cons.IH [rotated])
  with y t show ?case by simp
qed

lemma invokeCommand_plain:
  assumes "params ''cmd'' = None"
  shows "invokeCommand get_label ''get_label'' ([''key'' \<mapsto> key] ++ params) =
     Inr (get_label (case params ''key'' of Some k \<Rightarrow> k | None \<Rightarrow> key))"
  using assms
  by (cases "params ''key''") (simp_all add: invokeCommand_def dispatched_def map_add_def)

lemma invokeLabel_sound:
  assumes "invokeLabel get_label key params = Some y"
  shows "params ''cmd'' = None \<longrightarrow>
     (\<exists>text. y = Inr text) \<and> (params ''key'' = None \<longrightarrow> cycle_free get_label key)"
proof (rule invokeLabel.raw_induct
    [where P = "\<lambda>get_label key params y. params ''cmd'' = None \<longrightarrow>
       (\<exists>text. y = Inr text) \<and> (params ''key'' = None \<longrightarrow> cycle_free get_label key)",
     OF _ assms], goal_cases)
  case (1 rec get_label key params y)
  show ?case
  proof
    assume plain: "params ''cmd'' = None"
    define k where "k = (case params ''key'' of Some k \<Rightarrow> k | None \<Rightarrow> key)"
    have kk: "params ''key'' = None \<Longrightarrow> k = key" by (simp add: k_def)
    have resp: "invokeCommand get_label ''get_label'' ([''key'' \<mapsto> key] ++ params) =
        Inr (get_label k)"
      unfolding k_def using plain by (rule invokeCommand_plain)
    have ih: "(\<exists>t. y = Inr t) \<and> cycle_free get_label m"
      if "rec get_label m Map.empty = Some y" for m y
      using 1(1) [OF that] by simp
    show "(\<exists>text. y = Inr text) \<and> (params ''key'' = None \<longrightarrow> cycle_free get_label key)"
    proof (cases "matchAll (get_label k) = []")
      case True
      with 1(2) resp have "y = Inr (get_label k)" by simp
      moreover have "cycle_free get_label key" if "params ''key'' = None"
      proof (rule cycle_free_step)
        fix p assume "(key, p) \<in> refs get_label"
        with True kk [OF that] show "cycle_free get_label p" by (simp add: refs_def)
      qed
      ultimately show ?thesis by simp
    next
      case False
      let ?ms = "matchAll (get_label k)"
      from False 1(2) resp obtain r where
        r: "for_matches (\<lambda>p. rec get_label p Map.empty) ?ms params = Some r"
        and y: "(case r of Inl error \<Rightarrow> Some (Inl error)
                 | Inr params' \<Rightarrow> Some (Inr (replace (get_label k)
                     (\<lambda>key. case obj_get params' key of
                        None \<Rightarrow> ''%{'' @ key @ ''}'' | Some v \<Rightarrow> v)))) = Some y"
        by (auto simp: Let_def split: Option.bind_splits)
      have "\<And>m y. rec get_label m Map.empty = Some y \<Longrightarrow> \<exists>t. y = Inr t"
        using ih by blast
      from for_matches_total [OF this r] have
        rr: "\<exists>params'. r = Inr params'"
        and all: "\<forall>m \<in> set ?ms. \<exists>t. rec get_label m Map.empty = Some (Inr t)"
        by auto
      from rr y have "\<exists>text. y = Inr text" by auto
      moreover have "cycle_free get_label key" if "params ''key'' = None"
      proof (rule cycle_free_step)
        fix p assume "(key, p) \<in> refs get_label"
        with kk [OF that] have "p \<in> set ?ms" by (simp add: refs_def)
        with all obtain t where "rec get_label p Map.empty = Some (Inr t)" by blast
        from ih [OF this] show "cycle_free get_label p" by simp
      qed
      ultimately show ?thesis by simp
    qed
  qed
qed

lemma demo_matches:
  "matchAll (demo_labels ''welcome'') = [''product'', ''version'']"
  "matchAll (demo_labels ''product'') = [''vendor'']"
  "matchAll (demo_labels ''vendor'') = []"
  "matchAll (demo_labels ''version'') = []"
  by (simp_all add: demo_labels_def matchAll_def line_terminator_ahead_def)

lemma demo_vendor: "invokeLabel demo_labels ''vendor'' Map.empty = Some (Inr ''XuanWu'')"
  by (subst invokeLabel.simps) (simp add: invokeCommand_def dispatched_def demo_matches, simp add: demo_labels_def)

lemma demo_version: "invokeLabel demo_labels ''version'' Map.empty = Some (Inr ''v1.0'')"
  by (subst invokeLabel.simps) (simp add: invokeCommand_def dispatched_def demo_matches, simp add: demo_labels_def)

lemma demo_product: "invokeLabel demo_labels ''product'' Map.empty = Some (Inr ''XuanWu Rust'')"
  by (subst invokeLabel.simps)
    (simp add: invokeCommand_def dispatched_def demo_matches demo_vendor,
     simp add: demo_labels_def replace_def obj_get_def obj_set_def line_terminator_ahead_def)

lemma demo_welcome:
  "invokeLabel demo_labels ''welcome'' Map.empty = Some (Inr ''Welcome to XuanWu Rust v1.0!'')"
  by (subst invokeLabel.simps)
    (simp add: invokeCommand_def dispatched_def demo_matches demo_product demo_version,
     simp add: demo_labels_def replace_def obj_get_def obj_set_def line_terminator_ahead_def)

text \<open>
  C10. Let \<open>get_label\<close> be any label table and \<open>key\<close> any key. If \<open>invokeLabel key\<close>
  terminates, then no key that \<open>key\<close> reaches through placeholders (itself included)
  lies on a cycle of the placeholder-reference relation: \<open>invokeLabel\<close> returns only when
  the relation reachable from \<open>key\<close> is acyclic. And if the text of \<open>key\<close> refers back
  to \<open>key\<close> through one or more placeholders, \<open>invokeLabel key\<close> never returns.
\<close>

theorem invokeLabel_cycles:
  "(\<forall>r. invokeLabel get_label key Map.empty = Some r \<longrightarrow>
      (\<forall>k. (key, k) \<in> (refs get_label)\<^sup>* \<longrightarrow> (k, k) \<notin> (refs get_label)\<^sup>+)) \<and>
   ((key, key) \<in> (refs get_label)\<^sup>+ \<longrightarrow> invokeLabel get_label key Map.empty = None)"
proof (intro conjI allI impI)
  fix r k
  assume "invokeLabel get_label key Map.empty = Some r" "(key, k) \<in> (refs get_label)\<^sup>*"
  then show "(k, k) \<notin> (refs get_label)\<^sup>+"
    using invokeLabel_sound [of get_label key Map.empty r] by (simp add: cycle_free_def)
next
  assume loop: "(key, key) \<in> (refs get_label)\<^sup>+"
  show "invokeLabel get_label key Map.empty = None"
  proof (cases "invokeLabel get_label key Map.empty")
    case (Some r)
    from invokeLabel_sound [OF this] loop show ?thesis
      by (auto simp: cycle_free_def)
  qed simp
qed

theorem invokeLabel_cycles_witness:
  "invokeLabel demo_labels ''welcome'' Map.empty = Some (Inr ''Welcome to XuanWu Rust v1.0!'') \<and>
   (''product'', ''product'') \<notin> (refs demo_labels)\<^sup>+ \<and>
   (''a'', ''a'') \<in> (refs cyclic_labels)\<^sup>+ \<and>
   invokeLabel cyclic_labels ''a'' Map.empty = None"
proof -
  have reach: "(''welcome'', ''product'') \<in> (refs demo_labels)\<^sup>*"
    by (rule r_into_rtrancl) (simp add: refs_def demo_matches)
  have "(''a'', ''b'') \<in> refs cyclic_labels" "(''b'', ''a'') \<in> refs cyclic_labels"
    by (simp_all add: refs_def cyclic_labels_def matchAll_def line_terminator_ahead_def)
  then have loop: "(''a'', ''a'') \<in> (refs cyclic_labels)\<^sup>+"
    by (rule trancl_into_trancl [OF r_into_trancl])
  show ?thesis
    using invokeLabel_cycles [of demo_labels "''welcome''"]
      invokeLabel_cycles [of cyclic_labels "''a''"] demo_welcome reach loop
    by blast
qed

subsection \<open>Termination and the returned text\<close>

text \<open>
  With a label table behind \<open>get_label\<close> no call is rejected. Conversely to the
  theorem above, \<open>invokeLabel\<close> returns a text whenever the keys reachable from
  \<open>key\<close> are finitely many and free of cycles. The text it returns is the label text
  with every placeholder replaced by the text its own key resolves to (\<open>[object Object]\<close>
  for the key \<open>__proto__\<close>).
\<close>

lemma invokeLabel_never_rejected:
  assumes "params ''cmd'' = None"
  shows "invokeLabel get_label key params \<noteq> Some (Inl error)"
  using invokeLabel_sound [of get_label key params "Inl error"] assms by auto

lemma invokeLabel_other_command:
  assumes "params ''cmd'' = Some c" "c \<noteq> ''get_label''"
  shows "invokeLabel get_label key params = Some (Inl ''unknown command'')"
  using assms
  by (subst invokeLabel.simps) (simp add: invokeCommand_def dispatched_def map_add_def)

lemma for_matches_all:
  assumes "\<forall>m \<in> set ms. \<exists>t. rec m = Some (Inr t)"
  shows "\<exists>params'. for_matches rec ms params = Some (Inr params')"
  using assms by (induction ms arbitrary: params) auto

lemma invokeLabel_terminates:
  assumes fin: "finite {k. (key, k) \<in> (refs get_label)\<^sup>*}"
    and free: "cycle_free get_label key"
  shows "\<exists>text. invokeLabel get_label key Map.empty = Some (Inr text)"
proof -
  let ?R = "refs get_label"
  let ?S = "{k. (key, k) \<in> ?R\<^sup>*}"
  define r where "r = {(p, k). k \<in> ?S \<and> (k, p) \<in> ?R}"
  have sub: "r \<subseteq> ?S \<times> ?S"
    by (auto simp: r_def intro: rtrancl_into_rtrancl)
  have fr: "finite r"
    using sub fin by (auto intro: finite_subset)
  have conv: "(x, y) \<in> r\<^sup>+ \<Longrightarrow> (y, x) \<in> ?R\<^sup>+ \<and> y \<in> ?S" for x y
    by (induction rule: trancl_induct) (auto simp: r_def intro: trancl_into_trancl2)
  have "acyclic r"
    unfolding acyclic_def
  proof (intro allI notI)
    fix x assume "(x, x) \<in> r\<^sup>+"
    from conv [OF this] free show False by (auto simp: cycle_free_def)
  qed
  with fr have "wf r" by (rule finite_acyclic_wf)
  then have "k \<in> ?S \<longrightarrow> (\<exists>text. invokeLabel get_label k Map.empty = Some (Inr text))" for k
  proof (induction k rule: wf_induct_rule)
    case (less k)
    show ?case
    proof
      assume k: "k \<in> ?S"
      have "\<forall>m \<in> set (matchAll (get_label k)).
              \<exists>t. invokeLabel get_label m Map.empty = Some (Inr t)"
      proof
        fix m assume "m \<in> set (matchAll (get_label k))"
        then have km: "(k, m) \<in> ?R" by (simp add: refs_def)
        with k have "(m, k) \<in> r" "m \<in> ?S"
          by (auto simp: r_def intro: rtrancl_into_rtrancl)
        with less.IH show "\<exists>t. invokeLabel get_label m Map.empty = Some (Inr t)" by blast
      qed
      from for_matches_all [OF this, of Map.empty] obtain params' where
        "for_matches (\<lambda>p. invokeLabel get_label p Map.empty) (matchAll (get_label k)) Map.empty
           = Some (Inr params')" by blast
      then show "\<exists>text. invokeLabel get_label k Map.empty = Some (Inr text)"
        by (subst invokeLabel.simps) (simp add: invokeCommand_def dispatched_def Let_def)
    qed
  qed
  then show ?thesis by blast
qed

lemma until_close_split: "until_close s = Some (k, rest) \<Longrightarrow> s = k @ CHR ''}'' # rest"
  by (induction s arbitrary: k rest) (auto split: if_splits option.splits)

lemma replace_cong:
  "(\<And>k. k \<in> set (matchAll s) \<Longrightarrow> f k = g k) \<Longrightarrow> replace s f = replace s g"
  unfolding replace_def matchAll_def
  by (induction s rule: placeholderRegex.induct) (auto split: option.splits)

lemma replace_placeholders_back: "replace s (\<lambda>k. ''%{'' @ k @ ''}'') = s"
proof (induction s rule: placeholderRegex.induct)
  case 1
  show ?case by (simp add: replace_def)
next
  case (2 c cs)
  show ?case
  proof (cases "c = CHR ''%'' \<and> take 1 cs = ''{''")
    case False
    with 2(3) show ?thesis by (auto simp: replace_def)
  next
    case True
    then obtain ds where cs: "cs = CHR ''{'' # ds" by (cases cs) auto
    show ?thesis
    proof (cases "until_close ds")
      case None
      with cs have "until_close (drop 1 cs) = None" by simp
      from 2(1) [OF True this] True None cs show ?thesis by (simp add: replace_def)
    next
      case (Some kr)
      obtain k rest where kr: "kr = (k, rest)" by (cases kr)
      with Some cs have uc: "until_close (drop 1 cs) = Some (k, rest)" by simp
      with True have pr: "placeholderRegex (c # cs) = Hole k # placeholderRegex rest"
        by simp
      let ?f = "\<lambda>p. case p of Lit c \<Rightarrow> [c] | Hole k \<Rightarrow> ''%{'' @ k @ ''}''"
      have ih: "concat (map ?f (placeholderRegex rest)) = rest"
        using 2(2) [OF True uc refl] unfolding replace_def .
      from Some kr have "ds = k @ CHR ''}'' # rest"
        by (simp add: until_close_split)
      with True cs have eq: "(''%{'' @ k @ ''}'') @ rest = c # cs" by simp
      have "replace (c # cs) (\<lambda>k. ''%{'' @ k @ ''}'') =
              concat (map ?f (Hole k # placeholderRegex rest))"
        by (simp only: replace_def pr)
      also have "\<dots> = ?f (Hole k) @ concat (map ?f (placeholderRegex rest))"
        by (simp only: list.map concat.simps)
      also have "\<dots> = (''%{'' @ k @ ''}'') @ rest"
        by (simp only: ih piece.case)
      also note eq
      finally show ?thesis .
    qed
  qed
qed

lemma replace_no_matches: "matchAll s = [] \<Longrightarrow> replace s f = s"
  using replace_cong [of s f "\<lambda>k. ''%{'' @ k @ ''}''"] replace_placeholders_back [of s]
  by simp

lemma for_matches_params:
  assumes "for_matches rec ms params = Some (Inr params')"
  shows "(\<forall>m \<in> set ms. \<exists>v. rec m = Some (Inr v) \<and> (m \<noteq> ''__proto__'' \<longrightarrow> params' m = Some v)) \<and>
         (\<forall>k. k \<notin> set ms \<longrightarrow> params' k = params k)"
  using assms
proof (induction ms arbitrary: params)
  case Nil
  then show ?case by simp
next
  case (Cons m ms)
  from Cons.prems obtain v where v: "rec m = Some (Inr v)"
    and rest: "for_matches rec ms (obj_set params m v) = Some (Inr params')"
    by (auto split: Option.bind_splits sum.splits)
  from Cons.IH [OF rest] v show ?case
    by (auto simp: obj_set_def)
qed

lemma invokeLabel_result:
  assumes "invokeLabel get_label key Map.empty = Some (Inr text)"
  shows "\<exists>resolved.
           (\<forall>p \<in> set (matchAll (get_label key)).
              invokeLabel get_label p Map.empty = Some (Inr (resolved p))) \<and>
           text = replace (get_label key)
                    (\<lambda>p. if p = ''__proto__'' then ''[object Object]'' else resolved p)"
proof (cases "matchAll (get_label key) = []")
  case True
  with assms have "text = get_label key"
    by (subst (asm) invokeLabel.simps) (simp add: invokeCommand_def dispatched_def)
  with True show ?thesis by (simp add: replace_no_matches)
next
  case False
  let ?rec = "\<lambda>p. invokeLabel get_label p Map.empty"
  let ?ms = "matchAll (get_label key)"
  from assms False obtain params' where
    ps: "for_matches ?rec ?ms Map.empty = Some (Inr params')"
    and result: "text = replace (get_label key)
       (\<lambda>k. case obj_get params' k of None \<Rightarrow> ''%{'' @ k @ ''}'' | Some v \<Rightarrow> v)"
    by (subst (asm) invokeLabel.simps)
      (auto simp: invokeCommand_def dispatched_def Let_def split: Option.bind_splits sum.splits)
  define resolved where
    "resolved p = (case ?rec p of Some (Inr v) \<Rightarrow> v | _ \<Rightarrow> [])" for p
  from for_matches_params [OF ps] have
    vals: "\<forall>m \<in> set ?ms. ?rec m = Some (Inr (resolved m)) \<and>
             (m \<noteq> ''__proto__'' \<longrightarrow> params' m = Some (resolved m))"
    by (fastforce simp: resolved_def)
  have "text = replace (get_label key)
          (\<lambda>p. if p = ''__proto__'' then ''[object Object]'' else resolved p)"
    unfolding result using vals by (intro replace_cong) (auto simp: obj_get_def)
  with vals show ?thesis by blast
qed

lemma invokeLabel_proto_example:
  "invokeLabel proto_labels ''title'' Map.empty = Some (Inr ''[object Object]'')"
proof -
  have m: "matchAll (proto_labels ''title'') = [''__proto__'']"
    "matchAll (proto_labels ''__proto__'') = []"
    by (simp_all add: proto_labels_def matchAll_def line_terminator_ahead_def)
  have p: "invokeLabel proto_labels ''__proto__'' Map.empty = Some (Inr ''text of __proto__'')"
    by (subst invokeLabel.simps) (simp add: invokeCommand_def dispatched_def m, simp add: proto_labels_def)
  show ?thesis
    by (subst invokeLabel.simps)
      (simp add: invokeCommand_def dispatched_def m p,
       simp add: proto_labels_def replace_def obj_get_def obj_set_def line_terminator_ahead_def)
qed

end
